theory Spec2Isabelle
  imports Complex_Main "HOL-Library.Word"
begin

unbundle bit_operations_syntax

section \<open>SQL/JSON path executor (jsonpath\_exec.c): data model\<close>

text \<open>
  The executor of \<^verbatim>\<open>src/backend/utils/adt/jsonpath_exec.c\<close> is embedded function by
  function.  A raised error (\<^verbatim>\<open>ereport(ERROR, ...)\<close>, \<^verbatim>\<open>elog(ERROR, ...)\<close>) is the
  left injection of a sum; a returned status is a value.  The mutable execution context
  is passed in and returned.  Stack-depth checks and interrupt checks are not modelled.
\<close>

subsection \<open>Errors\<close>

datatype errcode =
    ERRCODE_JSON_ARRAY_NOT_FOUND
  | ERRCODE_JSON_OBJECT_NOT_FOUND
  | ERRCODE_JSON_MEMBER_NOT_FOUND
  | ERRCODE_JSON_NUMBER_NOT_FOUND
  | ERRCODE_JSON_SCALAR_REQUIRED
  | ERRCODE_SINGLETON_JSON_ITEM_REQUIRED
  | ERRCODE_NON_NUMERIC_JSON_ITEM
  | ERRCODE_INVALID_JSON_SUBSCRIPT
  | ERRCODE_INVALID_ARGUMENT_FOR_JSON_DATETIME_FUNCTION
  | ERRCODE_UNDEFINED_OBJECT
  | ERRCODE_INVALID_PARAMETER_VALUE
  | ERRCODE_INVALID_REGULAR_EXPRESSION
  | ERRCODE_NUMERIC_ERROR

text \<open>
  \<open>ereport code msg detail hint\<close> is a user-level error with its message, detail (the
  format string as written in the source) and hint; \<open>elog msg\<close> is an internal error;
  \<open>null_pointer\<close> stands for the dereference of a NULL pointer.
\<close>

datatype error =
    ereport errcode string string "string option"
  | elog string
  | null_pointer

definition ERRMSG_JSON_ARRAY_NOT_FOUND :: string where
  "ERRMSG_JSON_ARRAY_NOT_FOUND = ''SQL/JSON array not found''"

definition ERRMSG_JSON_OBJECT_NOT_FOUND :: string where
  "ERRMSG_JSON_OBJECT_NOT_FOUND = ''SQL/JSON object not found''"

definition ERRMSG_JSON_MEMBER_NOT_FOUND :: string where
  "ERRMSG_JSON_MEMBER_NOT_FOUND = ''SQL/JSON member not found''"

definition ERRMSG_JSON_NUMBER_NOT_FOUND :: string where
  "ERRMSG_JSON_NUMBER_NOT_FOUND = ''SQL/JSON number not found''"

definition ERRMSG_JSON_SCALAR_REQUIRED :: string where
  "ERRMSG_JSON_SCALAR_REQUIRED = ''SQL/JSON scalar required''"

definition ERRMSG_SINGLETON_JSON_ITEM_REQUIRED :: string where
  "ERRMSG_SINGLETON_JSON_ITEM_REQUIRED = ''singleton SQL/JSON item required''"

definition ERRMSG_NON_NUMERIC_JSON_ITEM :: string where
  "ERRMSG_NON_NUMERIC_JSON_ITEM = ''non-numeric SQL/JSON item''"

definition ERRMSG_INVALID_JSON_SUBSCRIPT :: string where
  "ERRMSG_INVALID_JSON_SUBSCRIPT = ''invalid SQL/JSON subscript''"

definition ERRMSG_INVALID_ARGUMENT_FOR_JSON_DATETIME_FUNCTION :: string where
  "ERRMSG_INVALID_ARGUMENT_FOR_JSON_DATETIME_FUNCTION =
     ''invalid argument for SQL/JSON datetime function''"

subsection \<open>JSON values and items\<close>

text \<open>
  \<open>Numeric\<close> is the value of an arbitrary-precision decimal (NaN is not modelled).
  A binary container carries the address of its header: \<^verbatim>\<open>.keyvalue()\<close> subtracts
  such addresses.  \<open>JsonbRawScalar\<close> is the pseudo-array that holds a top-level scalar.
  The in-memory composites \<^verbatim>\<open>jbvArray\<close>/\<^verbatim>\<open>jbvObject\<close> never reach the executor (it
  asserts so) and have no constructor.
\<close>

type_synonym Numeric = rat

type_synonym Oid = nat

datatype JsonbValue =
    jbvNull
  | jbvString string
  | jbvNumeric Numeric
  | jbvBool bool
  | jbvBinary JsonbContainer
and JsonbContainer =
    JsonbArray int "JsonbValue list"
  | JsonbObject int "(string \<times> JsonbValue) list"
  | JsonbRawScalar int JsonbValue

datatype Jsonb = Jsonb (jsonb_root: JsonbContainer)

datatype JsonItemType =
    jsiNull | jsiString | jsiNumeric | jsiBool | jsiArray | jsiObject | jsiBinary
  | jsiDatetime

text \<open>The union \<^verbatim>\<open>JsonItem\<close>: a \<^verbatim>\<open>JsonbValue\<close>, or a datetime with its value, type oid,
  type modifier and time zone.\<close>

datatype 'd JsonItem =
    Jbv JsonbValue
  | Datetime 'd Oid int int

fun JsonItemGetType :: "'d JsonItem \<Rightarrow> JsonItemType" where
  "JsonItemGetType (Jbv jbvNull) = jsiNull"
| "JsonItemGetType (Jbv (jbvString s)) = jsiString"
| "JsonItemGetType (Jbv (jbvNumeric n)) = jsiNumeric"
| "JsonItemGetType (Jbv (jbvBool b)) = jsiBool"
| "JsonItemGetType (Jbv (jbvBinary c)) = jsiBinary"
| "JsonItemGetType (Datetime v typid typmod tz) = jsiDatetime"

fun JsonContainerIsObject :: "JsonbContainer \<Rightarrow> bool" where
  "JsonContainerIsObject (JsonbObject a kvs) = True"
| "JsonContainerIsObject (JsonbArray a vs) = False"
| "JsonContainerIsObject (JsonbRawScalar a v) = False"

fun JsonContainerIsArray :: "JsonbContainer \<Rightarrow> bool" where
  "JsonContainerIsArray (JsonbObject a kvs) = False"
| "JsonContainerIsArray (JsonbArray a vs) = True"
| "JsonContainerIsArray (JsonbRawScalar a v) = True"

fun JsonContainerIsScalar :: "JsonbContainer \<Rightarrow> bool" where
  "JsonContainerIsScalar (JsonbObject a kvs) = False"
| "JsonContainerIsScalar (JsonbArray a vs) = False"
| "JsonContainerIsScalar (JsonbRawScalar a v) = True"

fun JsonContainerSize :: "JsonbContainer \<Rightarrow> int" where
  "JsonContainerSize (JsonbObject a kvs) = int (length kvs)"
| "JsonContainerSize (JsonbArray a vs) = int (length vs)"
| "JsonContainerSize (JsonbRawScalar a v) = 1"

text \<open>The address of a container, as a pointer value (NULL is 0).\<close>

fun JsonContainerAddr :: "JsonbContainer \<Rightarrow> int" where
  "JsonContainerAddr (JsonbObject a kvs) = a"
| "JsonContainerAddr (JsonbArray a vs) = a"
| "JsonContainerAddr (JsonbRawScalar a v) = a"

text \<open>
  \<^verbatim>\<open>JsonbIteratorNext(&it, &v, true)\<close> driven to \<^verbatim>\<open>WJB_DONE\<close>: the values delivered with
  \<^verbatim>\<open>WJB_VALUE\<close> or \<^verbatim>\<open>WJB_ELEM\<close>, and the key/value pairs of an object, in document order.
\<close>

fun JsonContainerValues :: "JsonbContainer \<Rightarrow> JsonbValue list" where
  "JsonContainerValues (JsonbObject a kvs) = map snd kvs"
| "JsonContainerValues (JsonbArray a vs) = vs"
| "JsonContainerValues (JsonbRawScalar a v) = [v]"

fun JsonContainerPairs :: "JsonbContainer \<Rightarrow> (string \<times> JsonbValue) list" where
  "JsonContainerPairs (JsonbObject a kvs) = kvs"
| "JsonContainerPairs (JsonbArray a vs) = []"
| "JsonContainerPairs (JsonbRawScalar a v) = []"

text \<open>\<^verbatim>\<open>findJsonbValueFromContainer(jbc, JB_FOBJECT, &key)\<close>: NULL is \<open>None\<close>.\<close>

fun findJsonbValueFromContainer :: "JsonbContainer \<Rightarrow> string \<Rightarrow> JsonbValue option" where
  "findJsonbValueFromContainer (JsonbObject a kvs) key = map_of kvs key"
| "findJsonbValueFromContainer (JsonbArray a vs) key = None"
| "findJsonbValueFromContainer (JsonbRawScalar a v) key = None"

text \<open>\<^verbatim>\<open>getIthJsonbValueFromContainer(jbc, (uint32) index)\<close>: NULL past the end.\<close>

fun getIthJsonbValueFromContainer :: "JsonbContainer \<Rightarrow> int \<Rightarrow> JsonbValue option" where
  "getIthJsonbValueFromContainer (JsonbArray a vs) i =
     (if 0 \<le> i \<and> nat i < length vs then Some (vs ! nat i) else None)"
| "getIthJsonbValueFromContainer (JsonbRawScalar a v) i = (if i = 0 then Some v else None)"
| "getIthJsonbValueFromContainer (JsonbObject a kvs) i = None"

text \<open>\<^verbatim>\<open>JsonbExtractScalar(&json->root, &jbv)\<close> and \<^verbatim>\<open>JsonbInitBinary(&jbv, json)\<close>.\<close>

fun JsonbExtractScalar :: "JsonbContainer \<Rightarrow> JsonbValue option" where
  "JsonbExtractScalar (JsonbRawScalar a v) = Some v"
| "JsonbExtractScalar (JsonbArray a vs) = None"
| "JsonbExtractScalar (JsonbObject a kvs) = None"

definition JsonbInitBinary :: "Jsonb \<Rightarrow> JsonbValue" where
  "JsonbInitBinary jb = jbvBinary (jsonb_root jb)"

text \<open>Returns the type of an item; never \<open>jsiBinary\<close> as is.\<close>

fun JsonbType :: "'d JsonItem \<Rightarrow> JsonItemType" where
  "JsonbType (Jbv (jbvBinary jbc)) =
     (if JsonContainerIsObject jbc then jsiObject else jsiArray)"
| "JsonbType jb = JsonItemGetType jb"

text \<open>Returns the size of an array item, or -1 if the item is not an array.\<close>

fun JsonbArraySize :: "'d JsonItem \<Rightarrow> int" where
  "JsonbArraySize (Jbv (jbvBinary jbc)) =
     (if JsonContainerIsArray jbc \<and> \<not> JsonContainerIsScalar jbc
      then JsonContainerSize jbc else -1)"
| "JsonbArraySize jb = -1"

text \<open>Get scalar of given type or NULL on type mismatch.\<close>

definition getScalar :: "'d JsonItem \<Rightarrow> JsonItemType \<Rightarrow> 'd JsonItem option" where
  "getScalar scalar ty = (if JsonItemGetType scalar = ty then Some scalar else None)"

definition copyJsonItem :: "'d JsonItem \<Rightarrow> 'd JsonItem" where
  "copyJsonItem src = src"

subsection \<open>Value sequences\<close>

text \<open>
  \<^verbatim>\<open>JsonValueList\<close> keeps one item in \<^verbatim>\<open>singleton\<close> and longer sequences in \<^verbatim>\<open>list\<close>; the
  model is the sequence that \<^verbatim>\<open>JsonValueListGetList\<close> returns.
\<close>

type_synonym 'd JsonValueList = "'d JsonItem list"

definition JsonValueListAppend :: "'d JsonValueList \<Rightarrow> 'd JsonItem \<Rightarrow> 'd JsonValueList" where
  "JsonValueListAppend jvl jbv = jvl @ [jbv]"

definition JsonValueListLength :: "'d JsonValueList \<Rightarrow> int" where
  "JsonValueListLength jvl = int (length jvl)"

definition JsonValueListIsEmpty :: "'d JsonValueList \<Rightarrow> bool" where
  "JsonValueListIsEmpty jvl = (jvl = [])"

definition JsonValueListGetList :: "'d JsonValueList \<Rightarrow> 'd JsonItem list" where
  "JsonValueListGetList jvl = jvl"

subsection \<open>Path items\<close>

datatype JsonPathItemType =
    jpiNull_t | jpiString_t | jpiNumeric_t | jpiBool_t
  | jpiAnd_t | jpiOr_t | jpiNot_t | jpiIsUnknown_t
  | jpiEqual_t | jpiNotEqual_t | jpiLess_t | jpiGreater_t
  | jpiLessOrEqual_t | jpiGreaterOrEqual_t
  | jpiAdd_t | jpiSub_t | jpiMul_t | jpiDiv_t | jpiMod_t | jpiPlus_t | jpiMinus_t
  | jpiAnyArray_t | jpiAnyKey_t | jpiIndexArray_t | jpiAny_t | jpiKey_t
  | jpiCurrent_t | jpiRoot_t | jpiVariable_t | jpiFilter_t | jpiExists_t
  | jpiType_t | jpiSize_t | jpiAbs_t | jpiFloor_t | jpiCeiling_t | jpiDouble_t
  | jpiDatetime_t | jpiKeyValue_t | jpiSubscript_t | jpiLast_t
  | jpiStartsWith_t | jpiLikeRegex_t

text \<open>
  A compiled path node: its kind with the payload of that kind, and the next node of
  the chain as last argument (\<open>None\<close> when \<^verbatim>\<open>nextPos\<close> is 0).  \<^verbatim>\<open>.datetime()\<close> has
  optional arguments; a subscript is \<open>(from, to)\<close> with \<open>to\<close> absent for a single index.
\<close>

datatype JsonPathItem =
    jpiNull (jspGetNext: "JsonPathItem option")
  | jpiString string (jspGetNext: "JsonPathItem option")
  | jpiNumeric Numeric (jspGetNext: "JsonPathItem option")
  | jpiBool bool (jspGetNext: "JsonPathItem option")
  | jpiAnd JsonPathItem JsonPathItem (jspGetNext: "JsonPathItem option")
  | jpiOr JsonPathItem JsonPathItem (jspGetNext: "JsonPathItem option")
  | jpiNot JsonPathItem (jspGetNext: "JsonPathItem option")
  | jpiIsUnknown JsonPathItem (jspGetNext: "JsonPathItem option")
  | jpiEqual JsonPathItem JsonPathItem (jspGetNext: "JsonPathItem option")
  | jpiNotEqual JsonPathItem JsonPathItem (jspGetNext: "JsonPathItem option")
  | jpiLess JsonPathItem JsonPathItem (jspGetNext: "JsonPathItem option")
  | jpiGreater JsonPathItem JsonPathItem (jspGetNext: "JsonPathItem option")
  | jpiLessOrEqual JsonPathItem JsonPathItem (jspGetNext: "JsonPathItem option")
  | jpiGreaterOrEqual JsonPathItem JsonPathItem (jspGetNext: "JsonPathItem option")
  | jpiAdd JsonPathItem JsonPathItem (jspGetNext: "JsonPathItem option")
  | jpiSub JsonPathItem JsonPathItem (jspGetNext: "JsonPathItem option")
  | jpiMul JsonPathItem JsonPathItem (jspGetNext: "JsonPathItem option")
  | jpiDiv JsonPathItem JsonPathItem (jspGetNext: "JsonPathItem option")
  | jpiMod JsonPathItem JsonPathItem (jspGetNext: "JsonPathItem option")
  | jpiPlus JsonPathItem (jspGetNext: "JsonPathItem option")
  | jpiMinus JsonPathItem (jspGetNext: "JsonPathItem option")
  | jpiAnyArray (jspGetNext: "JsonPathItem option")
  | jpiAnyKey (jspGetNext: "JsonPathItem option")
  | jpiIndexArray "(JsonPathItem \<times> JsonPathItem option) list"
      (jspGetNext: "JsonPathItem option")
  | jpiAny nat nat (jspGetNext: "JsonPathItem option")
  | jpiKey string (jspGetNext: "JsonPathItem option")
  | jpiCurrent (jspGetNext: "JsonPathItem option")
  | jpiRoot (jspGetNext: "JsonPathItem option")
  | jpiVariable string (jspGetNext: "JsonPathItem option")
  | jpiFilter JsonPathItem (jspGetNext: "JsonPathItem option")
  | jpiExists JsonPathItem (jspGetNext: "JsonPathItem option")
  | jpiType (jspGetNext: "JsonPathItem option")
  | jpiSize (jspGetNext: "JsonPathItem option")
  | jpiAbs (jspGetNext: "JsonPathItem option")
  | jpiFloor (jspGetNext: "JsonPathItem option")
  | jpiCeiling (jspGetNext: "JsonPathItem option")
  | jpiDouble (jspGetNext: "JsonPathItem option")
  | jpiDatetime "JsonPathItem option" "JsonPathItem option"
      (jspGetNext: "JsonPathItem option")
  | jpiKeyValue (jspGetNext: "JsonPathItem option")
  | jpiSubscript (jspGetNext: "JsonPathItem option")
  | jpiLast (jspGetNext: "JsonPathItem option")
  | jpiStartsWith JsonPathItem JsonPathItem (jspGetNext: "JsonPathItem option")
  | jpiLikeRegex JsonPathItem string "32 word" (jspGetNext: "JsonPathItem option")


fun jsp_type :: "JsonPathItem \<Rightarrow> JsonPathItemType" where
  "jsp_type (jpiNull nx) = jpiNull_t"
| "jsp_type (jpiString s nx) = jpiString_t"
| "jsp_type (jpiNumeric n nx) = jpiNumeric_t"
| "jsp_type (jpiBool b nx) = jpiBool_t"
| "jsp_type (jpiAnd l r nx) = jpiAnd_t"
| "jsp_type (jpiOr l r nx) = jpiOr_t"
| "jsp_type (jpiNot a nx) = jpiNot_t"
| "jsp_type (jpiIsUnknown a nx) = jpiIsUnknown_t"
| "jsp_type (jpiEqual l r nx) = jpiEqual_t"
| "jsp_type (jpiNotEqual l r nx) = jpiNotEqual_t"
| "jsp_type (jpiLess l r nx) = jpiLess_t"
| "jsp_type (jpiGreater l r nx) = jpiGreater_t"
| "jsp_type (jpiLessOrEqual l r nx) = jpiLessOrEqual_t"
| "jsp_type (jpiGreaterOrEqual l r nx) = jpiGreaterOrEqual_t"
| "jsp_type (jpiAdd l r nx) = jpiAdd_t"
| "jsp_type (jpiSub l r nx) = jpiSub_t"
| "jsp_type (jpiMul l r nx) = jpiMul_t"
| "jsp_type (jpiDiv l r nx) = jpiDiv_t"
| "jsp_type (jpiMod l r nx) = jpiMod_t"
| "jsp_type (jpiPlus a nx) = jpiPlus_t"
| "jsp_type (jpiMinus a nx) = jpiMinus_t"
| "jsp_type (jpiAnyArray nx) = jpiAnyArray_t"
| "jsp_type (jpiAnyKey nx) = jpiAnyKey_t"
| "jsp_type (jpiIndexArray subs nx) = jpiIndexArray_t"
| "jsp_type (jpiAny lo hi nx) = jpiAny_t"
| "jsp_type (jpiKey k nx) = jpiKey_t"
| "jsp_type (jpiCurrent nx) = jpiCurrent_t"
| "jsp_type (jpiRoot nx) = jpiRoot_t"
| "jsp_type (jpiVariable v nx) = jpiVariable_t"
| "jsp_type (jpiFilter a nx) = jpiFilter_t"
| "jsp_type (jpiExists a nx) = jpiExists_t"
| "jsp_type (jpiType nx) = jpiType_t"
| "jsp_type (jpiSize nx) = jpiSize_t"
| "jsp_type (jpiAbs nx) = jpiAbs_t"
| "jsp_type (jpiFloor nx) = jpiFloor_t"
| "jsp_type (jpiCeiling nx) = jpiCeiling_t"
| "jsp_type (jpiDouble nx) = jpiDouble_t"
| "jsp_type (jpiDatetime l r nx) = jpiDatetime_t"
| "jsp_type (jpiKeyValue nx) = jpiKeyValue_t"
| "jsp_type (jpiSubscript nx) = jpiSubscript_t"
| "jsp_type (jpiLast nx) = jpiLast_t"
| "jsp_type (jpiStartsWith l r nx) = jpiStartsWith_t"
| "jsp_type (jpiLikeRegex e p f nx) = jpiLikeRegex_t"

definition jspHasNext :: "JsonPathItem \<Rightarrow> bool" where
  "jspHasNext jsp = (jspGetNext jsp \<noteq> None)"

text \<open>The item kinds that the evaluator sends to \<open>executeBoolItem\<close>
  (\<^verbatim>\<open>/* all boolean item types: */\<close>).\<close>

definition jspIsBoolItem :: "JsonPathItemType \<Rightarrow> bool" where
  "jspIsBoolItem t = (t \<in> set [jpiAnd_t, jpiOr_t, jpiNot_t, jpiIsUnknown_t, jpiEqual_t,
     jpiNotEqual_t, jpiLess_t, jpiGreater_t, jpiLessOrEqual_t, jpiGreaterOrEqual_t,
     jpiExists_t, jpiStartsWith_t, jpiLikeRegex_t])"

text \<open>\<^verbatim>\<open>jsp->content.array.nelems\<close> and \<^verbatim>\<open>jspGetArraySubscript(jsp, &from, &to, i)\<close>.\<close>

fun jsp_nelems :: "JsonPathItem \<Rightarrow> nat" where
  "jsp_nelems (jpiIndexArray subs nx) = length subs"
| "jsp_nelems jsp = 0"

fun jspGetArraySubscript ::
  "JsonPathItem \<Rightarrow> nat \<Rightarrow> (JsonPathItem \<times> JsonPathItem option) option" where
  "jspGetArraySubscript (jpiIndexArray subs nx) i =
     (if i < length subs then Some (subs ! i) else None)"
| "jspGetArraySubscript jsp i = None"

datatype JsonPath = JsonPath (header: "32 word") (jspInit: JsonPathItem)

definition JSONPATH_LAX :: "32 word" where
  "JSONPATH_LAX = 0x80000000"

subsection \<open>Results and execution context\<close>

datatype JsonPathBool = jpbFalse | jpbTrue | jpbUnknown

datatype JsonPathExecResult = jperOk | jperNotFound | jperError

definition jperIsError :: "JsonPathExecResult \<Rightarrow> bool" where
  "jperIsError jper = (jper = jperError)"

text \<open>The "base object" and its id for \<^verbatim>\<open>.keyvalue()\<close>; \<open>jbc\<close> is a pointer value.\<close>

record JsonBaseObjectInfo =
  jbc :: int
  base_id :: int

text \<open>
  The variable callback: called with no name it returns the count of base objects;
  called with a name it returns the base object id (negative: not found) with the
  value and the base object.
\<close>

type_synonym 'd JsonPathVarCallback =
  "Jsonb option \<Rightarrow> string option \<Rightarrow> error + (int \<times> ('d JsonItem \<times> JsonbValue) option)"

record 'd JsonPathExecContext =
  vars :: "Jsonb option"
  getVar :: "'d JsonPathVarCallback"
  root :: "'d JsonItem"
  stack :: "'d JsonItem list"
  baseObject :: JsonBaseObjectInfo
  lastGeneratedObjectId :: int
  innermostArraySize :: int
  laxMode :: bool
  ignoreStructuralErrors :: bool
  throwErrors :: bool

definition jspStrictAbsenseOfErrors :: "'d JsonPathExecContext \<Rightarrow> bool" where
  "jspStrictAbsenseOfErrors cxt = (\<not> laxMode cxt)"

definition jspAutoUnwrap :: "'d JsonPathExecContext \<Rightarrow> bool" where
  "jspAutoUnwrap cxt = laxMode cxt"

definition jspAutoWrap :: "'d JsonPathExecContext \<Rightarrow> bool" where
  "jspAutoWrap cxt = laxMode cxt"

definition jspIgnoreStructuralErrors :: "'d JsonPathExecContext \<Rightarrow> bool" where
  "jspIgnoreStructuralErrors cxt = ignoreStructuralErrors cxt"

definition jspThrowErrors :: "'d JsonPathExecContext \<Rightarrow> bool" where
  "jspThrowErrors cxt = throwErrors cxt"

text \<open>What an execution function hands back: the status, the context as it left it,
  and the \<^verbatim>\<open>found\<close> list (\<open>None\<close> when the caller passed NULL).\<close>

type_synonym 'd jper_state =
  "JsonPathExecResult \<times> 'd JsonPathExecContext \<times> 'd JsonValueList option"

text \<open>Convenience macro: return or throw error depending on context.\<close>

definition RETURN_ERROR ::
  "'d JsonPathExecContext \<Rightarrow> 'd JsonValueList option \<Rightarrow> error \<Rightarrow> error + 'd jper_state" where
  "RETURN_ERROR cxt found throw_error =
     (if jspThrowErrors cxt then Inl throw_error else Inr (jperError, cxt, found))"

text \<open>Save base object and its id needed for the execution of \<^verbatim>\<open>.keyvalue()\<close>:
  returns the previous base object and the updated context.\<close>

definition setBaseObject ::
  "'d JsonPathExecContext \<Rightarrow> 'd JsonItem \<Rightarrow> int
     \<Rightarrow> JsonBaseObjectInfo \<times> 'd JsonPathExecContext" where
  "setBaseObject cxt jbv i =
     (baseObject cxt,
      cxt\<lparr>baseObject :=
        \<lparr>jbc = (case jbv of Jbv (jbvBinary c) \<Rightarrow> JsonContainerAddr c | _ \<Rightarrow> 0),
         base_id = i\<rparr>\<rparr>)"

definition pushJsonItem :: "'d JsonItem list \<Rightarrow> 'd JsonItem \<Rightarrow> 'd JsonItem list" where
  "pushJsonItem stk item = item # stk"

definition popJsonItem :: "'d JsonItem list \<Rightarrow> 'd JsonItem list" where
  "popJsonItem stk = tl stk"


subsection \<open>External collaborators\<close>

text \<open>
  Functions of other modules that the executor calls, taken as parameters: collation
  string comparison, decimal arithmetic (\<open>Inl\<close> is the error the function raises, or
  flags when given an error pointer), float parsing, datetime parsing and comparison,
  regular expressions, and the serialisation of a built object into a new binary
  container (which fixes the addresses of the containers inside it).  \<open>'d\<close> is the
  datetime payload (\<^verbatim>\<open>Datum\<close>), \<open>'f\<close> is \<^verbatim>\<open>double\<close>.
\<close>

record ('d, 'f) extern =
  varstr_cmp :: "string \<Rightarrow> string \<Rightarrow> int"
  numeric_add_opt_error :: "Numeric \<Rightarrow> Numeric \<Rightarrow> error + Numeric"
  numeric_sub_opt_error :: "Numeric \<Rightarrow> Numeric \<Rightarrow> error + Numeric"
  numeric_mul_opt_error :: "Numeric \<Rightarrow> Numeric \<Rightarrow> error + Numeric"
  numeric_div_opt_error :: "Numeric \<Rightarrow> Numeric \<Rightarrow> error + Numeric"
  numeric_mod_opt_error :: "Numeric \<Rightarrow> Numeric \<Rightarrow> error + Numeric"
  numeric_out :: "Numeric \<Rightarrow> string"
  float8in_internal_opt_error :: "string \<Rightarrow> 'f option"
  isinf :: "'f \<Rightarrow> bool"
  float8_numeric :: "'f \<Rightarrow> Numeric"
  parse_datetime ::
    "string \<Rightarrow> string \<Rightarrow> string option \<Rightarrow> bool \<Rightarrow> int \<Rightarrow> error + ('d \<times> Oid \<times> int \<times> int)"
  RE_compile_and_execute :: "string \<Rightarrow> string \<Rightarrow> 32 word \<Rightarrow> error + bool"
  date_cmp :: "'d \<Rightarrow> 'd \<Rightarrow> int"
  time_cmp :: "'d \<Rightarrow> 'd \<Rightarrow> int"
  timetz_cmp :: "'d \<Rightarrow> 'd \<Rightarrow> int"
  timestamp_cmp :: "'d \<Rightarrow> 'd \<Rightarrow> int"
  date2timestamp_internal :: "'d \<Rightarrow> 'd option"
  date2timestamptz_internal :: "'d \<Rightarrow> int \<Rightarrow> 'd option"
  timestamp2timestamptz_internal :: "'d \<Rightarrow> int \<Rightarrow> 'd option"
  TimeTzADTPGetDatum :: "'d \<Rightarrow> int \<Rightarrow> 'd"
  JsonbValueToJsonb :: "(string \<times> JsonbValue) list \<Rightarrow> Jsonb"

definition PG_INT32_MIN :: int where
  "PG_INT32_MIN = - 2147483648"

definition PG_INT32_MAX :: int where
  "PG_INT32_MAX = 2147483647"

definition PG_UINT32_MAX :: nat where
  "PG_UINT32_MAX = 4294967295"

text \<open>Modelled from the spec: the type oids of \<^verbatim>\<open>catalog/pg_type.h\<close>, which is not
  among the sources; only their being distinct matters.\<close>

definition DATEOID :: Oid where "DATEOID = 1082"
definition TIMEOID :: Oid where "TIMEOID = 1083"
definition TIMESTAMPOID :: Oid where "TIMESTAMPOID = 1114"
definition TIMESTAMPTZOID :: Oid where "TIMESTAMPTZOID = 1184"
definition TIMETZOID :: Oid where "TIMETZOID = 1266"

text \<open>Modelled from the spec: the decimal functions of \<^verbatim>\<open>numeric.c\<close>, which is not among
  the sources: three-way comparison, conversion from integers, truncation to scale 0,
  and conversion to a 32-bit integer, which rounds and fails out of range.\<close>

definition numeric_cmp :: "Numeric \<Rightarrow> Numeric \<Rightarrow> int" where
  "numeric_cmp a b = (if a < b then - 1 else if a = b then 0 else 1)"

definition int4_numeric :: "int \<Rightarrow> Numeric" where
  "int4_numeric i = of_int i"

definition int8_numeric :: "int \<Rightarrow> Numeric" where
  "int8_numeric i = of_int i"

definition numeric_trunc :: "Numeric \<Rightarrow> Numeric" where
  "numeric_trunc x = of_int (if 0 \<le> x then \<lfloor>x\<rfloor> else \<lceil>x\<rceil>)"

definition numeric_int4_opt_error :: "Numeric \<Rightarrow> int option" where
  "numeric_int4_opt_error x =
     (let r = (if 0 \<le> x then \<lfloor>x + 1 / 2\<rfloor> else \<lceil>x - 1 / 2\<rceil>)
      in if PG_INT32_MIN \<le> r \<and> r \<le> PG_INT32_MAX then Some r else None)"

definition numeric_uminus :: "Numeric \<Rightarrow> Numeric" where
  "numeric_uminus x = - x"

definition numeric_abs :: "Numeric \<Rightarrow> Numeric" where
  "numeric_abs x = \<bar>x\<bar>"

definition numeric_floor :: "Numeric \<Rightarrow> Numeric" where
  "numeric_floor x = of_int \<lfloor>x\<rfloor>"

definition numeric_ceil :: "Numeric \<Rightarrow> Numeric" where
  "numeric_ceil x = of_int \<lceil>x\<rceil>"

text \<open>Compare two numerics.\<close>

definition compareNumeric :: "Numeric \<Rightarrow> Numeric \<Rightarrow> int" where
  "compareNumeric a b = numeric_cmp a b"

subsection \<open>Datetime comparison\<close>

definition time_to_timetz :: "('d, 'f) extern \<Rightarrow> 'd \<Rightarrow> int \<Rightarrow> 'd option" where
  "time_to_timetz env tm tz =
     (if tz = PG_INT32_MIN then None else Some (TimeTzADTPGetDatum env tm tz))"

definition date_to_timestamp :: "('d, 'f) extern \<Rightarrow> 'd \<Rightarrow> 'd option" where
  "date_to_timestamp env dt = date2timestamp_internal env dt"

definition date_to_timestamptz :: "('d, 'f) extern \<Rightarrow> 'd \<Rightarrow> int \<Rightarrow> 'd option" where
  "date_to_timestamptz env dt tz =
     (if tz = PG_INT32_MIN then None else date2timestamptz_internal env dt tz)"

definition timestamp_to_timestamptz :: "('d, 'f) extern \<Rightarrow> 'd \<Rightarrow> int \<Rightarrow> 'd option" where
  "timestamp_to_timestamptz env ts tz =
     (if tz = PG_INT32_MIN then None else timestamp2timestamptz_internal env ts tz)"

text \<open>The tail of \<open>compareDatetime\<close>: return 0 with the error flag set when a conversion
  failed, otherwise call the comparison function.\<close>

definition compareDatetime_call ::
  "('d \<Rightarrow> 'd \<Rightarrow> int) \<Rightarrow> 'd option \<Rightarrow> 'd option \<Rightarrow> error + int option" where
  "compareDatetime_call cmpfunc v1 v2 =
     (case (v1, v2) of
        (Some a, Some b) \<Rightarrow> Inr (Some (cmpfunc a b))
      | _ \<Rightarrow> Inr None)"

text \<open>
  Cross-type comparison of two datetime SQL/JSON items.  If items are uncomparable,
  the error flag is set: the result is \<open>None\<close>.
\<close>

definition compareDatetime ::
  "('d, 'f) extern \<Rightarrow> 'd \<Rightarrow> Oid \<Rightarrow> int \<Rightarrow> 'd \<Rightarrow> Oid \<Rightarrow> int \<Rightarrow> error + int option" where
  "compareDatetime env val1 typid1 tz1 val2 typid2 tz2 =
     (let unrecognized2 = Inl (elog ''unrecognized SQL/JSON datetime type oid: %d'') in
      if typid1 = DATEOID then
        (if typid2 = DATEOID then
           compareDatetime_call (date_cmp env) (Some val1) (Some val2)
         else if typid2 = TIMESTAMPOID then
           compareDatetime_call (timestamp_cmp env) (date_to_timestamp env val1) (Some val2)
         else if typid2 = TIMESTAMPTZOID then
           compareDatetime_call (timestamp_cmp env)
             (date_to_timestamptz env val1 tz1) (Some val2)
         else if typid2 = TIMEOID \<or> typid2 = TIMETZOID then Inr None
         else unrecognized2)
      else if typid1 = TIMEOID then
        (if typid2 = TIMEOID then
           compareDatetime_call (time_cmp env) (Some val1) (Some val2)
         else if typid2 = TIMETZOID then
           compareDatetime_call (timetz_cmp env) (time_to_timetz env val1 tz1) (Some val2)
         else if typid2 = DATEOID \<or> typid2 = TIMESTAMPOID \<or> typid2 = TIMESTAMPTZOID
         then Inr None
         else unrecognized2)
      else if typid1 = TIMETZOID then
        (if typid2 = TIMEOID then
           compareDatetime_call (timetz_cmp env) (Some val1) (time_to_timetz env val2 tz2)
         else if typid2 = TIMETZOID then
           compareDatetime_call (timetz_cmp env) (Some val1) (Some val2)
         else if typid2 = DATEOID \<or> typid2 = TIMESTAMPOID \<or> typid2 = TIMESTAMPTZOID
         then Inr None
         else unrecognized2)
      else if typid1 = TIMESTAMPOID then
        (if typid2 = DATEOID then
           compareDatetime_call (timestamp_cmp env) (Some val1) (date_to_timestamp env val2)
         else if typid2 = TIMESTAMPOID then
           compareDatetime_call (timestamp_cmp env) (Some val1) (Some val2)
         else if typid2 = TIMESTAMPTZOID then
           compareDatetime_call (timestamp_cmp env)
             (timestamp_to_timestamptz env val1 tz1) (Some val2)
         else if typid2 = TIMEOID \<or> typid2 = TIMETZOID then Inr None
         else unrecognized2)
      else if typid1 = TIMESTAMPTZOID then
        (if typid2 = DATEOID then
           compareDatetime_call (timestamp_cmp env)
             (Some val1) (date_to_timestamptz env val2 tz2)
         else if typid2 = TIMESTAMPOID then
           compareDatetime_call (timestamp_cmp env)
             (Some val1) (timestamp_to_timestamptz env val2 tz2)
         else if typid2 = TIMESTAMPTZOID then
           compareDatetime_call (timestamp_cmp env) (Some val1) (Some val2)
         else if typid2 = TIMEOID \<or> typid2 = TIMETZOID then Inr None
         else unrecognized2)
      else Inl (elog ''unrecognized SQL/JSON datetime type oid: %d''))"

subsection \<open>Comparison of items\<close>

text \<open>The second \<^verbatim>\<open>switch\<close> of \<open>compareItems\<close>: apply the operation to the three-way
  comparison result.\<close>

definition compareItems_op :: "JsonPathItemType \<Rightarrow> int \<Rightarrow> error + JsonPathBool" where
  "compareItems_op op cmp =
     (let ret = (\<lambda>res. Inr (if res then jpbTrue else jpbFalse)) in
      if op = jpiEqual_t then ret (cmp = 0)
      else if op = jpiNotEqual_t then ret (cmp \<noteq> 0)
      else if op = jpiLess_t then ret (cmp < 0)
      else if op = jpiGreater_t then ret (cmp > 0)
      else if op = jpiLessOrEqual_t then ret (cmp \<le> 0)
      else if op = jpiGreaterOrEqual_t then ret (cmp \<ge> 0)
      else Inl (elog ''unrecognized jsonpath operation: %d''))"

text \<open>Compare two SQL/JSON items using comparison operation \<open>op\<close>.\<close>

definition compareItems ::
  "('d, 'f) extern \<Rightarrow> JsonPathItemType \<Rightarrow> 'd JsonItem \<Rightarrow> 'd JsonItem
     \<Rightarrow> error + JsonPathBool" where
  "compareItems env op jsi1 jsi2 =
     (if JsonItemGetType jsi1 \<noteq> JsonItemGetType jsi2 then
        (if JsonItemGetType jsi1 = jsiNull \<or> JsonItemGetType jsi2 = jsiNull then
           \<comment> \<open>Equality and order comparison of nulls to non-nulls returns always false,
               but inequality comparison returns true.\<close>
           Inr (if op = jpiNotEqual_t then jpbTrue else jpbFalse)
         else
           \<comment> \<open>Non-null items of different types are not comparable.\<close>
           Inr jpbUnknown)
      else
        (case jsi1 of
           Jbv jbvNull \<Rightarrow> compareItems_op op 0
         | Jbv (jbvBool b1) \<Rightarrow>
             (case jsi2 of
                Jbv (jbvBool b2) \<Rightarrow>
                  compareItems_op op (if b1 = b2 then 0 else if b1 then 1 else - 1)
              | _ \<Rightarrow> Inl (elog ''invalid jsonb value type %d''))
         | Jbv (jbvNumeric n1) \<Rightarrow>
             (case jsi2 of
                Jbv (jbvNumeric n2) \<Rightarrow> compareItems_op op (compareNumeric n1 n2)
              | _ \<Rightarrow> Inl (elog ''invalid jsonb value type %d''))
         | Jbv (jbvString s1) \<Rightarrow>
             (case jsi2 of
                Jbv (jbvString s2) \<Rightarrow>
                  if op = jpiEqual_t then
                    Inr (if length s1 \<noteq> length s2 \<or> s1 \<noteq> s2 then jpbFalse else jpbTrue)
                  else compareItems_op op (varstr_cmp env s1 s2)
              | _ \<Rightarrow> Inl (elog ''invalid jsonb value type %d''))
         | Datetime v1 typid1 typmod1 tz1 \<Rightarrow>
             (case jsi2 of
                Datetime v2 typid2 typmod2 tz2 \<Rightarrow>
                  (case compareDatetime env v1 typid1 tz1 v2 typid2 tz2 of
                     Inl e \<Rightarrow> Inl e
                   | Inr None \<Rightarrow> Inr jpbUnknown
                   | Inr (Some cmp) \<Rightarrow> compareItems_op op cmp)
              | _ \<Rightarrow> Inl (elog ''invalid jsonb value type %d''))
         | Jbv (jbvBinary c) \<Rightarrow> Inr jpbUnknown))"

subsection \<open>Predicate callbacks\<close>

text \<open>Context for \<^verbatim>\<open>LIKE_REGEX\<close> execution: the cached regex text and flags.\<close>

record JsonLikeRegexContext =
  regex :: "string option"
  cflags :: "32 word"

text \<open>
  A predicate callback gets the predicate node, the left item, the right item (NULL
  for a unary predicate) and the \<^verbatim>\<open>void *param\<close>, which it may update.
\<close>

type_synonym 'd JsonPathPredicateCallback =
  "JsonPathItem \<Rightarrow> 'd JsonItem \<Rightarrow> 'd JsonItem option \<Rightarrow> JsonLikeRegexContext option
     \<Rightarrow> error + (JsonPathBool \<times> JsonLikeRegexContext option)"

text \<open>Comparison predicate callback.\<close>

definition executeComparison :: "('d, 'f) extern \<Rightarrow> 'd JsonPathPredicateCallback" where
  "executeComparison env cmp lv rv p =
     (case rv of
        None \<Rightarrow> Inl null_pointer
      | Some rv' \<Rightarrow>
          (case compareItems env (jsp_type cmp) lv rv' of
             Inl e \<Rightarrow> Inl e
           | Inr res \<Rightarrow> Inr (res, p)))"

text \<open>\<^verbatim>\<open>STARTS_WITH\<close> predicate callback: check if the \<open>whole\<close> string starts from the
  \<open>initial\<close> string.\<close>

definition executeStartsWith :: "'d JsonPathPredicateCallback" where
  "executeStartsWith jsp whole initial param =
     (case getScalar whole jsiString of
        Some (Jbv (jbvString w)) \<Rightarrow>
          (case initial of
             None \<Rightarrow> Inl null_pointer
           | Some initial' \<Rightarrow>
               (case getScalar initial' jsiString of
                  Some (Jbv (jbvString i)) \<Rightarrow>
                    if length w \<ge> length i \<and> take (length i) w = i
                    then Inr (jpbTrue, param) else Inr (jpbFalse, param)
                | _ \<Rightarrow> Inr (jpbUnknown, param)))
      | _ \<Rightarrow> Inr (jpbUnknown, param))"

text \<open>Modelled from the spec: the flag bits of \<^verbatim>\<open>regex/regex.h\<close>, which is not among the
  sources.\<close>

definition REG_ADVANCED :: "32 word" where "REG_ADVANCED = 3"
definition REG_ICASE :: "32 word" where "REG_ICASE = 8"
definition REG_EXPANDED :: "32 word" where "REG_EXPANDED = 32"
definition REG_NEWLINE :: "32 word" where "REG_NEWLINE = 192"

definition JSP_REGEX_ICASE :: "32 word" where "JSP_REGEX_ICASE = 0x01"
definition JSP_REGEX_SLINE :: "32 word" where "JSP_REGEX_SLINE = 0x02"
definition JSP_REGEX_MLINE :: "32 word" where "JSP_REGEX_MLINE = 0x04"
definition JSP_REGEX_WSPACE :: "32 word" where "JSP_REGEX_WSPACE = 0x08"
definition JSP_REGEX_QUOTE :: "32 word" where "JSP_REGEX_QUOTE = 0x10"

text \<open>Convert regex flags.\<close>

definition like_regex_cflags :: "32 word \<Rightarrow> 32 word" where
  "like_regex_cflags flags =
     (let c0 = REG_ADVANCED;
          c1 = (if flags AND JSP_REGEX_ICASE \<noteq> 0 then c0 OR REG_ICASE else c0);
          c2 = (if flags AND JSP_REGEX_MLINE \<noteq> 0 then c1 OR REG_NEWLINE else c1);
          c3 = (if flags AND JSP_REGEX_SLINE \<noteq> 0 then c2 AND NOT REG_NEWLINE else c2);
          c4 = (if flags AND JSP_REGEX_WSPACE \<noteq> 0 then c3 OR REG_EXPANDED else c3)
      in c4)"

text \<open>\<^verbatim>\<open>LIKE_REGEX\<close> predicate callback: check if the string matches the regex pattern.
  The regex text and the converted flags are cached in \<open>param\<close> on first use.\<close>

definition executeLikeRegex :: "('d, 'f) extern \<Rightarrow> 'd JsonPathPredicateCallback" where
  "executeLikeRegex env jsp str rarg param =
     (case getScalar str jsiString of
        Some (Jbv (jbvString s)) \<Rightarrow>
          (case param of
             None \<Rightarrow> Inl null_pointer
           | Some cxt \<Rightarrow>
               (case jsp of
                  jpiLikeRegex expr pattern flags nx \<Rightarrow>
                    (let cxt1 = (if regex cxt = None
                                 then cxt\<lparr>regex := Some pattern,
                                          cflags := like_regex_cflags flags\<rparr>
                                 else cxt)
                     in case regex cxt1 of
                          None \<Rightarrow> Inl null_pointer
                        | Some re \<Rightarrow>
                            (case RE_compile_and_execute env re s (cflags cxt1) of
                               Inl e \<Rightarrow> Inl e
                             | Inr True \<Rightarrow> Inr (jpbTrue, Some cxt1)
                             | Inr False \<Rightarrow> Inr (jpbFalse, Some cxt1)))
                | _ \<Rightarrow> Inl (elog ''invalid jsonpath item type for LIKE_REGEX'')))
      | _ \<Rightarrow> Inr (jpbUnknown, param))"

text \<open>
  The pairing loops of \<open>executePredicate\<close>.  The inner loop runs over the right
  sequence, or makes a single pass with a NULL right item when the predicate has no
  right argument; \<open>rvals\<close> is that list of right items.  The loop state is the
  \<^verbatim>\<open>error\<close> flag, the \<^verbatim>\<open>found\<close> flag and the callback parameter; \<open>Some r\<close> in the
  result is a \<^verbatim>\<open>return r\<close> from inside the loop.
\<close>

fun executePredicate_rloop ::
  "bool \<Rightarrow> 'd JsonPathPredicateCallback \<Rightarrow> JsonPathItem \<Rightarrow> 'd JsonItem
     \<Rightarrow> 'd JsonItem option list \<Rightarrow> bool \<Rightarrow> bool \<Rightarrow> JsonLikeRegexContext option
     \<Rightarrow> error + (JsonPathBool option \<times> bool \<times> bool \<times> JsonLikeRegexContext option)" where
  "executePredicate_rloop strict exec pred lval [] error found param =
     Inr (None, error, found, param)"
| "executePredicate_rloop strict exec pred lval (rval # rvals) error found param =
     (case exec pred lval rval param of
        Inl e \<Rightarrow> Inl e
      | Inr (res, param1) \<Rightarrow>
          if res = jpbUnknown then
            (if strict then Inr (Some jpbUnknown, error, found, param1)
             else executePredicate_rloop strict exec pred lval rvals True found param1)
          else if res = jpbTrue then
            (if \<not> strict then Inr (Some jpbTrue, error, found, param1)
             else executePredicate_rloop strict exec pred lval rvals error True param1)
          else executePredicate_rloop strict exec pred lval rvals error found param1)"

fun executePredicate_lloop ::
  "bool \<Rightarrow> 'd JsonPathPredicateCallback \<Rightarrow> JsonPathItem \<Rightarrow> 'd JsonItem list
     \<Rightarrow> 'd JsonItem option list \<Rightarrow> bool \<Rightarrow> bool \<Rightarrow> JsonLikeRegexContext option
     \<Rightarrow> error + (JsonPathBool option \<times> bool \<times> bool \<times> JsonLikeRegexContext option)" where
  "executePredicate_lloop strict exec pred [] rvals error found param =
     Inr (None, error, found, param)"
| "executePredicate_lloop strict exec pred (lval # lvals) rvals error found param =
     (case executePredicate_rloop strict exec pred lval rvals error found param of
        Inl e \<Rightarrow> Inl e
      | Inr (Some r, error1, found1, param1) \<Rightarrow> Inr (Some r, error1, found1, param1)
      | Inr (None, error1, found1, param1) \<Rightarrow>
          executePredicate_lloop strict exec pred lvals rvals error1 found1 param1)"

text \<open>The part of \<open>executePredicate\<close> after both operand sequences are there:
  \<open>rseq\<close> is \<open>None\<close> when the predicate has no right argument.\<close>

definition executePredicate_pairs ::
  "bool \<Rightarrow> 'd JsonPathPredicateCallback \<Rightarrow> JsonPathItem \<Rightarrow> 'd JsonValueList
     \<Rightarrow> 'd JsonValueList option \<Rightarrow> JsonLikeRegexContext option \<Rightarrow> error + JsonPathBool" where
  "executePredicate_pairs strict exec pred lseq rseq param =
     (case executePredicate_lloop strict exec pred lseq
             (case rseq of None \<Rightarrow> [None] | Some rs \<Rightarrow> map Some rs) False False param of
        Inl e \<Rightarrow> Inl e
      | Inr (Some r, error, found, param1) \<Rightarrow> Inr r
      | Inr (None, error, found, param1) \<Rightarrow>
          if found then Inr jpbTrue
          else if error then Inr jpbUnknown
          else Inr jpbFalse)"

subsection \<open>Literals, variables, type names\<close>

definition getJsonPathVariableFromJsonb :: "'d JsonPathVarCallback" where
  "getJsonPathVariableFromJsonb varsJsonb varName =
     (case varName of
        None \<Rightarrow>
          (case varsJsonb of
             None \<Rightarrow> Inr (0, None)
           | Some vs \<Rightarrow>
               if \<not> JsonContainerIsObject (jsonb_root vs) then
                 Inl (ereport ERRCODE_INVALID_PARAMETER_VALUE
                        ''jsonb containing jsonpath variables is not an object'' [] None)
               else Inr (1, None))
      | Some name \<Rightarrow>
          (case varsJsonb of
             None \<Rightarrow> Inl null_pointer
           | Some vs \<Rightarrow>
               (case findJsonbValueFromContainer (jsonb_root vs) name of
                  None \<Rightarrow> Inr (- 1, None)
                | Some v \<Rightarrow> Inr (1, Some (Jbv v, JsonbInitBinary vs)))))"

text \<open>Get the value of variable passed to jsonpath executor.\<close>

definition getJsonPathVariable ::
  "'d JsonPathExecContext \<Rightarrow> string \<Rightarrow> error + ('d JsonItem \<times> 'd JsonPathExecContext)" where
  "getJsonPathVariable cxt varName =
     (let not_found = Inl (ereport ERRCODE_UNDEFINED_OBJECT
                             ''cannot find jsonpath variable %s'' [] None) in
      if vars cxt = None then not_found
      else
        (case getVar cxt (vars cxt) (Some varName) of
           Inl e \<Rightarrow> Inl e
         | Inr (baseObjectId, r) \<Rightarrow>
             if baseObjectId < 0 then not_found
             else
               (case r of
                  None \<Rightarrow> Inl null_pointer
                | Some (val, baseObj) \<Rightarrow>
                    if baseObjectId > 0
                    then Inr (val, snd (setBaseObject cxt (Jbv baseObj) baseObjectId))
                    else Inr (val, cxt))))"

text \<open>Convert jsonpath's scalar or variable node to actual jsonb value.\<close>

definition getJsonPathItem ::
  "'d JsonPathExecContext \<Rightarrow> JsonPathItem \<Rightarrow> error + ('d JsonItem \<times> 'd JsonPathExecContext)" where
  "getJsonPathItem cxt item =
     (case item of
        jpiNull nx \<Rightarrow> Inr (Jbv jbvNull, cxt)
      | jpiBool b nx \<Rightarrow> Inr (Jbv (jbvBool b), cxt)
      | jpiNumeric n nx \<Rightarrow> Inr (Jbv (jbvNumeric n), cxt)
      | jpiString s nx \<Rightarrow> Inr (Jbv (jbvString s), cxt)
      | jpiVariable v nx \<Rightarrow> getJsonPathVariable cxt v
      | _ \<Rightarrow> Inl (elog ''unexpected jsonpath item type''))"

text \<open>Modelled from the spec: \<^verbatim>\<open>JsonbTypeName\<close> of \<^verbatim>\<open>jsonb.c\<close>, which is not among the
  sources; the names are those of the spec's \<^verbatim>\<open>.type()\<close> method.\<close>

fun JsonbTypeName :: "JsonbValue \<Rightarrow> string" where
  "JsonbTypeName jbvNull = ''null''"
| "JsonbTypeName (jbvString s) = ''string''"
| "JsonbTypeName (jbvNumeric n) = ''number''"
| "JsonbTypeName (jbvBool b) = ''boolean''"
| "JsonbTypeName (jbvBinary (JsonbObject a kvs)) = ''object''"
| "JsonbTypeName (jbvBinary (JsonbArray a vs)) = ''array''"
| "JsonbTypeName (jbvBinary (JsonbRawScalar a v)) = JsonbTypeName v"

definition JsonItemTypeName :: "'d JsonItem \<Rightarrow> error + string" where
  "JsonItemTypeName jsi =
     (case jsi of
        Datetime v typid typmod tz \<Rightarrow>
          if typid = DATEOID then Inr ''date''
          else if typid = TIMEOID then Inr ''time without time zone''
          else if typid = TIMETZOID then Inr ''time with time zone''
          else if typid = TIMESTAMPOID then Inr ''timestamp without time zone''
          else if typid = TIMESTAMPTZOID then Inr ''timestamp with time zone''
          else Inl (elog ''unrecognized jsonb value datetime type: %d'')
      | Jbv jbv \<Rightarrow> Inr (JsonbTypeName jbv))"

subsection \<open>Datetime parsing\<close>

text \<open>
  Try to parse datetime text with the specified datetime template and default
  time-zone \<open>tzname\<close>.  \<open>Some (value, typid, typmod, tz)\<close> is success with the new time
  zone; \<open>None\<close> is failure, which leaves the caller's time zone as it was.  A datetime
  error is raised if \<open>throwErrs\<close> is true.
\<close>

definition tryToParseDatetime ::
  "('d, 'f) extern \<Rightarrow> string \<Rightarrow> string \<Rightarrow> string option \<Rightarrow> bool \<Rightarrow> int \<Rightarrow> bool
     \<Rightarrow> error + ('d \<times> Oid \<times> int \<times> int) option" where
  "tryToParseDatetime env fmt datetime tzname strict tz throwErrs =
     (case parse_datetime env datetime fmt tzname strict tz of
        Inl e \<Rightarrow> if throwErrs then Inl e else Inr None
      | Inr r \<Rightarrow> Inr (Some r))"

text \<open>The ISO formats that \<^verbatim>\<open>.datetime()\<close> tries when it has no template.\<close>

definition fmt_str :: "string list" where
  "fmt_str =
     [''yyyy-mm-dd HH24:MI:SS TZH:TZM'',
      ''yyyy-mm-dd HH24:MI:SS TZH'',
      ''yyyy-mm-dd HH24:MI:SS'',
      ''yyyy-mm-dd'',
      ''HH24:MI:SS TZH:TZM'',
      ''HH24:MI:SS TZH'',
      ''HH24:MI:SS'']"

text \<open>The loop over the formats: the first format that parses ends it.\<close>

fun tryISOFormats ::
  "('d, 'f) extern \<Rightarrow> string list \<Rightarrow> string \<Rightarrow> string option \<Rightarrow> int
     \<Rightarrow> error + ('d \<times> Oid \<times> int \<times> int) option" where
  "tryISOFormats env [] datetime tzname tz = Inr None"
| "tryISOFormats env (fmt # fmts) datetime tzname tz =
     (case tryToParseDatetime env fmt datetime tzname True tz False of
        Inl e \<Rightarrow> Inl e
      | Inr (Some r) \<Rightarrow> Inr (Some r)
      | Inr None \<Rightarrow> tryISOFormats env fmts datetime tzname tz)"

section \<open>The evaluator\<close>

subsection \<open>Helpers of the evaluator\<close>

text \<open>\<^verbatim>\<open>jspGetArg\<close>, \<^verbatim>\<open>jspGetLeftArg\<close>, \<^verbatim>\<open>jspGetRightArg\<close>: the operands of a node, \<open>None\<close>
  for a kind that has none (the source asserts the kind).\<close>

fun jspGetArg :: "JsonPathItem \<Rightarrow> JsonPathItem option" where
  "jspGetArg (jpiNot a nx) = Some a"
| "jspGetArg (jpiIsUnknown a nx) = Some a"
| "jspGetArg (jpiPlus a nx) = Some a"
| "jspGetArg (jpiMinus a nx) = Some a"
| "jspGetArg (jpiFilter a nx) = Some a"
| "jspGetArg (jpiExists a nx) = Some a"
| "jspGetArg jsp = None"

fun jspGetLeftArg :: "JsonPathItem \<Rightarrow> JsonPathItem option" where
  "jspGetLeftArg (jpiAnd l r nx) = Some l"
| "jspGetLeftArg (jpiOr l r nx) = Some l"
| "jspGetLeftArg (jpiEqual l r nx) = Some l"
| "jspGetLeftArg (jpiNotEqual l r nx) = Some l"
| "jspGetLeftArg (jpiLess l r nx) = Some l"
| "jspGetLeftArg (jpiGreater l r nx) = Some l"
| "jspGetLeftArg (jpiLessOrEqual l r nx) = Some l"
| "jspGetLeftArg (jpiGreaterOrEqual l r nx) = Some l"
| "jspGetLeftArg (jpiAdd l r nx) = Some l"
| "jspGetLeftArg (jpiSub l r nx) = Some l"
| "jspGetLeftArg (jpiMul l r nx) = Some l"
| "jspGetLeftArg (jpiDiv l r nx) = Some l"
| "jspGetLeftArg (jpiMod l r nx) = Some l"
| "jspGetLeftArg (jpiStartsWith l r nx) = Some l"
| "jspGetLeftArg (jpiDatetime l r nx) = l"
| "jspGetLeftArg jsp = None"

fun jspGetRightArg :: "JsonPathItem \<Rightarrow> JsonPathItem option" where
  "jspGetRightArg (jpiAnd l r nx) = Some r"
| "jspGetRightArg (jpiOr l r nx) = Some r"
| "jspGetRightArg (jpiEqual l r nx) = Some r"
| "jspGetRightArg (jpiNotEqual l r nx) = Some r"
| "jspGetRightArg (jpiLess l r nx) = Some r"
| "jspGetRightArg (jpiGreater l r nx) = Some r"
| "jspGetRightArg (jpiLessOrEqual l r nx) = Some r"
| "jspGetRightArg (jpiGreaterOrEqual l r nx) = Some r"
| "jspGetRightArg (jpiAdd l r nx) = Some r"
| "jspGetRightArg (jpiSub l r nx) = Some r"
| "jspGetRightArg (jpiMul l r nx) = Some r"
| "jspGetRightArg (jpiDiv l r nx) = Some r"
| "jspGetRightArg (jpiMod l r nx) = Some r"
| "jspGetRightArg (jpiStartsWith l r nx) = Some r"
| "jspGetRightArg (jpiDatetime l r nx) = r"
| "jspGetRightArg jsp = None"

text \<open>The literal and variable kinds, which the evaluator handles in one branch.\<close>

definition jspIsLiteralItem :: "JsonPathItemType \<Rightarrow> bool" where
  "jspIsLiteralItem t =
     (t \<in> set [jpiNull_t, jpiBool_t, jpiNumeric_t, jpiString_t, jpiVariable_t])"

text \<open>\<^verbatim>\<open>getScalar(item, jbvNumeric)\<close> with the numeric read from the item that it
  returns (\<^verbatim>\<open>val->val.numeric\<close>).\<close>

definition getScalarNumeric :: "'d JsonItem \<Rightarrow> Numeric option" where
  "getScalarNumeric item =
     (case getScalar item jsiNumeric of
        Some (Jbv (jbvNumeric n)) \<Rightarrow> Some n
      | _ \<Rightarrow> None)"

text \<open>\<^verbatim>\<open>if (found) JsonValueListAppend(found, copy ? copyJsonItem(v) : v)\<close>.\<close>

definition appendFound ::
  "'d JsonValueList option \<Rightarrow> 'd JsonItem \<Rightarrow> bool \<Rightarrow> 'd JsonValueList option" where
  "appendFound found v copy =
     (case found of
        None \<Rightarrow> None
      | Some jvl \<Rightarrow> Some (JsonValueListAppend jvl (if copy then copyJsonItem v else v)))"

text \<open>The content of a local list that was passed by address.\<close>

definition JsonValueListOf :: "'d JsonValueList option \<Rightarrow> 'd JsonValueList" where
  "JsonValueListOf found = (case found of None \<Rightarrow> [] | Some jvl \<Rightarrow> jvl)"

definition JsonValueListHead :: "'d JsonValueList \<Rightarrow> 'd JsonItem option" where
  "JsonValueListHead jvl = (case jvl of [] \<Rightarrow> None | x # xs \<Rightarrow> Some x)"

text \<open>\<^verbatim>\<open>JsonValueListLength(&seq) != 1 || !(val = getScalar(JsonValueListHead(&seq),
  jbvNumeric))\<close>: the number of a singleton numeric sequence, else \<open>None\<close>.\<close>

definition singletonNumeric :: "'d JsonValueList \<Rightarrow> Numeric option" where
  "singletonNumeric seq =
     (if JsonValueListLength seq \<noteq> 1 then None
      else case JsonValueListHead seq of
             Some v \<Rightarrow>
               (case getScalar v jsiNumeric of
                  Some (Jbv (jbvNumeric n)) \<Rightarrow> Some n
                | _ \<Rightarrow> None)
           | None \<Rightarrow> None)"

text \<open>The binary container of an item (\<^verbatim>\<open>jb->jbv.val.binary.data\<close>).\<close>

definition JsonItemBinaryData :: "'d JsonItem \<Rightarrow> JsonbContainer option" where
  "JsonItemBinaryData jb = (case jb of Jbv (jbvBinary c) \<Rightarrow> Some c | _ \<Rightarrow> None)"

text \<open>A value as a signed 64-bit integer.\<close>

definition int64 :: "int \<Rightarrow> int" where
  "int64 x = (x + 2 ^ 63) mod 2 ^ 64 - 2 ^ 63"

text \<open>
  The object id of \<^verbatim>\<open>.keyvalue()\<close>: the offset of the container from the base object's
  container plus 10000000000 times the base object id.
\<close>

definition keyvalue_id :: "'d JsonPathExecContext \<Rightarrow> JsonbContainer \<Rightarrow> int" where
  "keyvalue_id cxt c =
     int64 (int64 (JsonContainerAddr c - jbc (baseObject cxt))
            + int64 (base_id (baseObject cxt) * 10000000000))"

text \<open>The time zone argument of \<^verbatim>\<open>.datetime()\<close>, from the sequence its expression gave:
  \<open>Inr (tzname, tz)\<close>, or \<open>Inl\<close> the state to return.\<close>

definition executeDatetime_tz ::
  "'d JsonPathExecContext \<Rightarrow> 'd JsonValueList option \<Rightarrow> 'd JsonValueList
     \<Rightarrow> error + ('d jper_state + (string option \<times> int))" where
  "executeDatetime_tz cxt found tzlist =
     (let not_singleton =
            (case RETURN_ERROR cxt found
                    (ereport ERRCODE_INVALID_ARGUMENT_FOR_JSON_DATETIME_FUNCTION
                       ERRMSG_INVALID_ARGUMENT_FOR_JSON_DATETIME_FUNCTION
                       ''timezone argument of jsonpath item method .%s() is not a singleton string or number''
                       None) of
               Inl e \<Rightarrow> Inl e | Inr st \<Rightarrow> Inr (Inl st));
          out_of_range =
            (case RETURN_ERROR cxt found
                    (ereport ERRCODE_INVALID_ARGUMENT_FOR_JSON_DATETIME_FUNCTION
                       ERRMSG_INVALID_ARGUMENT_FOR_JSON_DATETIME_FUNCTION
                       ''timezone argument of jsonpath item method .%s() is out of integer range''
                       None) of
               Inl e \<Rightarrow> Inl e | Inr st \<Rightarrow> Inr (Inl st))
      in if JsonValueListLength tzlist \<noteq> 1 then not_singleton
         else case JsonValueListHead tzlist of
                Some (Jbv (jbvString s)) \<Rightarrow> Inr (Inr (Some s, PG_INT32_MIN))
              | Some (Jbv (jbvNumeric n)) \<Rightarrow>
                  (case numeric_int4_opt_error n of
                     None \<Rightarrow> out_of_range
                   | Some tz \<Rightarrow>
                       if tz = PG_INT32_MIN then out_of_range else Inr (Inr (None, - tz)))
              | _ \<Rightarrow> not_singleton)"

text \<open>Parsing in \<^verbatim>\<open>.datetime()\<close>: with a non-empty template, parse by it; otherwise try
  to recognize one of the ISO formats.  \<open>Inr\<close> is the parsed value with its type oid,
  type modifier and time zone; \<open>Inl\<close> is the state to return.\<close>

definition executeDatetime_parse ::
  "('d, 'f) extern \<Rightarrow> 'd JsonPathExecContext \<Rightarrow> 'd JsonValueList option \<Rightarrow> string option
     \<Rightarrow> string \<Rightarrow> string option \<Rightarrow> int
     \<Rightarrow> error + ('d jper_state + ('d \<times> Oid \<times> int \<times> int))" where
  "executeDatetime_parse env cxt found template datetime tzname tz =
     (let iso =
            (case tryISOFormats env fmt_str datetime tzname tz of
               Inl e \<Rightarrow> Inl e
             | Inr (Some r) \<Rightarrow> Inr (Inr r)
             | Inr None \<Rightarrow>
                 (case RETURN_ERROR cxt found
                         (ereport ERRCODE_INVALID_ARGUMENT_FOR_JSON_DATETIME_FUNCTION
                            ERRMSG_INVALID_ARGUMENT_FOR_JSON_DATETIME_FUNCTION
                            ''unrecognized datetime format''
                            (Some ''use datetime template argument for explicit format specification'')) of
                    Inl e \<Rightarrow> Inl e | Inr st \<Rightarrow> Inr (Inl st)))
      in case template of
           None \<Rightarrow> iso
         | Some t \<Rightarrow>
             if length t \<noteq> 0 then
               (case tryToParseDatetime env t datetime tzname False tz (jspThrowErrors cxt) of
                  Inl e \<Rightarrow> Inl e
                | Inr (Some r) \<Rightarrow> Inr (Inr r)
                | Inr None \<Rightarrow> Inr (Inl (jperError, cxt, found)))
             else iso)"

text \<open>The template argument of \<^verbatim>\<open>.datetime()\<close>: absent, or a string literal.\<close>

definition executeDatetime_template :: "JsonPathItem option \<Rightarrow> error + string option" where
  "executeDatetime_template left =
     (case left of
        None \<Rightarrow> Inr None
      | Some elem \<Rightarrow>
          (case elem of
             jpiString template_str nx \<Rightarrow> Inr (Some template_str)
           | _ \<Rightarrow> Inl (elog ''invalid jsonpath item type for .datetime() argument'')))"

subsection \<open>The errors of the evaluator\<close>

text \<open>
  The errors that the execution functions report with \<^verbatim>\<open>ereport\<close> (through
  \<^verbatim>\<open>RETURN_ERROR\<close>, so that they can be suppressed) or raise with \<^verbatim>\<open>elog\<close>, named
  after what they say.  A format directive of a message is kept as it is written.
\<close>

definition err_key_not_found :: error where
  "err_key_not_found =
     ereport ERRCODE_JSON_MEMBER_NOT_FOUND ERRMSG_JSON_MEMBER_NOT_FOUND
       ''JSON object does not contain key %s'' None"

definition err_member_accessor_not_object :: error where
  "err_member_accessor_not_object =
     ereport ERRCODE_JSON_MEMBER_NOT_FOUND ERRMSG_JSON_MEMBER_NOT_FOUND
       ''jsonpath member accessor can only be applied to an object'' None"

definition err_wildcard_array_accessor_not_array :: error where
  "err_wildcard_array_accessor_not_array =
     ereport ERRCODE_JSON_ARRAY_NOT_FOUND ERRMSG_JSON_ARRAY_NOT_FOUND
       ''jsonpath wildcard array accessor can only be applied to an array'' None"

definition err_array_accessor_not_array :: error where
  "err_array_accessor_not_array =
     ereport ERRCODE_JSON_ARRAY_NOT_FOUND ERRMSG_JSON_ARRAY_NOT_FOUND
       ''jsonpath array accessor can only be applied to an array'' None"

definition err_last_outside_subscript :: error where
  "err_last_outside_subscript =
     elog ''evaluating jsonpath LAST outside of array subscript''"

definition err_invalid_object_type :: error where
  "err_invalid_object_type =
     elog ''invalid jsonb object type: %d''"

definition err_wildcard_member_accessor_not_object :: error where
  "err_wildcard_member_accessor_not_object =
     ereport ERRCODE_JSON_OBJECT_NOT_FOUND ERRMSG_JSON_OBJECT_NOT_FOUND
       ''jsonpath wildcard member accessor can only be applied to an object'' None"

definition err_method_not_array :: error where
  "err_method_not_array =
     ereport ERRCODE_JSON_ARRAY_NOT_FOUND ERRMSG_JSON_ARRAY_NOT_FOUND
       ''jsonpath item method .%s() can only be applied to an array'' None"

definition err_method_not_numeric :: error where
  "err_method_not_numeric =
     ereport ERRCODE_NON_NUMERIC_JSON_ITEM ERRMSG_NON_NUMERIC_JSON_ITEM
       ''jsonpath item method .%s() can only be applied to a numeric value'' None"

definition err_method_not_string_or_numeric :: error where
  "err_method_not_string_or_numeric =
     ereport ERRCODE_NON_NUMERIC_JSON_ITEM ERRMSG_NON_NUMERIC_JSON_ITEM
       ''jsonpath item method .%s() can only be applied to a string or numeric value'' None"

definition err_method_not_string :: error where
  "err_method_not_string =
     ereport ERRCODE_INVALID_ARGUMENT_FOR_JSON_DATETIME_FUNCTION ERRMSG_INVALID_ARGUMENT_FOR_JSON_DATETIME_FUNCTION
       ''jsonpath item method .%s() is applied to not a string'' None"

definition err_unrecognized_item_type :: error where
  "err_unrecognized_item_type =
     elog ''unrecognized jsonpath item type: %d''"

definition err_subscript_out_of_bounds :: error where
  "err_subscript_out_of_bounds =
     ereport ERRCODE_INVALID_JSON_SUBSCRIPT ERRMSG_INVALID_JSON_SUBSCRIPT
       ''jsonpath array subscript is out of bounds'' None"

definition err_invalid_array_type :: error where
  "err_invalid_array_type =
     elog ''invalid jsonb array value type: %d''"

definition err_bool_item_has_next :: error where
  "err_bool_item_has_next =
     elog ''boolean jsonpath item cannot have next item''"

definition err_invalid_bool_item_type :: error where
  "err_invalid_bool_item_type =
     elog ''invalid boolean jsonpath item type: %d''"

definition err_left_operand_not_singleton :: error where
  "err_left_operand_not_singleton =
     ereport ERRCODE_SINGLETON_JSON_ITEM_REQUIRED ERRMSG_SINGLETON_JSON_ITEM_REQUIRED
       ''left operand of binary jsonpath operator %s is not a singleton numeric value'' None"

definition err_right_operand_not_singleton :: error where
  "err_right_operand_not_singleton =
     ereport ERRCODE_SINGLETON_JSON_ITEM_REQUIRED ERRMSG_SINGLETON_JSON_ITEM_REQUIRED
       ''right operand of binary jsonpath operator %s is not a singleton numeric value'' None"

definition err_unary_operand_not_numeric :: error where
  "err_unary_operand_not_numeric =
     ereport ERRCODE_JSON_NUMBER_NOT_FOUND ERRMSG_JSON_NUMBER_NOT_FOUND
       ''operand of unary jsonpath operator %s is not a numeric value'' None"

definition err_method_not_object :: error where
  "err_method_not_object =
     ereport ERRCODE_JSON_OBJECT_NOT_FOUND ERRMSG_JSON_OBJECT_NOT_FOUND
       ''jsonpath item method .%s() can only be applied to an object'' None"

definition err_subscript_not_singleton :: error where
  "err_subscript_not_singleton =
     ereport ERRCODE_INVALID_JSON_SUBSCRIPT ERRMSG_INVALID_JSON_SUBSCRIPT
       ''jsonpath array subscript is not a singleton numeric value'' None"

definition err_subscript_out_of_integer_range :: error where
  "err_subscript_out_of_integer_range =
     ereport ERRCODE_INVALID_JSON_SUBSCRIPT ERRMSG_INVALID_JSON_SUBSCRIPT
       ''jsonpath array subscript is out of integer range'' None"

text \<open>The object \<^verbatim>\<open>{ "key": key, "value": value, "id": id }\<close> that \<^verbatim>\<open>.keyvalue()\<close>
  builds for one pair of an object.\<close>

definition keyvalue_object :: "string \<Rightarrow> JsonbValue \<Rightarrow> JsonbValue \<Rightarrow> (string \<times> JsonbValue) list" where
  "keyvalue_object key val idval =
     [(''key'', jbvString key), (''value'', val), (''id'', idval)]"

subsection \<open>Sizes of the operands of a path item\<close>

text \<open>The operands and the next item of a path item are smaller than the item; the
  values inside a container are smaller than the container.\<close>

lemma size_jspGetNext: "jspGetNext jsp = Some n \<Longrightarrow> size n < size jsp"
  by (cases jsp) auto

lemma size_jspGetArg: "jspGetArg jsp = Some a \<Longrightarrow> size a < size jsp"
  by (cases jsp) auto

lemma size_jspGetLeftArg: "jspGetLeftArg jsp = Some a \<Longrightarrow> size a < size jsp"
  by (cases jsp) auto

lemma size_jspGetRightArg: "jspGetRightArg jsp = Some a \<Longrightarrow> size a < size jsp"
  by (cases jsp) auto

lemma size_list_nth_le: "i < length xs \<Longrightarrow> f (xs ! i) < size_list f xs"
proof (induction xs arbitrary: i)
  case Nil
  then show ?case by simp
next
  case (Cons a xs)
  show ?case
  proof (cases i)
    case 0
    then show ?thesis by simp
  next
    case (Suc k)
    with Cons.prems have "k < length xs" by simp
    from Cons.IH[OF this] Suc show ?thesis by simp
  qed
qed

lemma measure_jspGetNext:
  "(case jspGetNext jsp of None \<Rightarrow> 0 | Some n \<Rightarrow> 8 * size n + 6) \<le> 8 * size jsp"
  using size_jspGetNext[of jsp] by (auto split: option.split)

lemma if_binary_data_Some:
  "(if b then JsonItemBinaryData (Jbv v :: 'd JsonItem) else None) = Some c \<Longrightarrow> v = jbvBinary c"
  by (auto simp: JsonItemBinaryData_def split: if_splits JsonbValue.splits)

lemma if_None_else_Some: "(if b then None else x) = Some y \<Longrightarrow> x = Some y"
  by (auto split: if_splits)


lemma size_jspGetArraySubscript:
  "jspGetArraySubscript jsp i = Some (f, t) \<Longrightarrow>
     size f < size jsp \<and> (\<forall>t'. t = Some t' \<longrightarrow> size t' < size jsp)"
proof (cases jsp)
  case (jpiIndexArray subs nx)
  assume a: "jspGetArraySubscript jsp i = Some (f, t)"
  with jpiIndexArray have i: "i < length subs" and e: "subs ! i = (f, t)"
    by (auto split: if_splits)
  from size_list_nth_le[OF i, of "size_prod size (size_option size)"] e
  have "size f + size_option size t + 1 < size_list (size_prod size (size_option size)) subs"
    by simp
  with jpiIndexArray show ?thesis by auto
qed auto

lemma size_JsonContainerValues: "size_list size (JsonContainerValues c) \<le> size c"
proof (cases c)
  case (JsonbObject a kvs)
  have "size_list size (map snd kvs) \<le> size_list (size_prod (\<lambda>x. 0) size) kvs"
    by (induction kvs) auto
  with JsonbObject show ?thesis by simp
qed auto

lemma measure_JsonContainerValues:
  "2 * size_list size (JsonContainerValues c) < Suc (Suc (Suc (2 * size c + n)))"
  using size_JsonContainerValues[of c] by simp

subsection \<open>The calls of the execution functions\<close>

text \<open>
  The execution functions of the source are mutually recursive.  They are defined together,
  as one function \<open>execute\<close> on the calls of these functions: a call is the name of the
  function (a constructor of \<open>call\<close>, the name of the function with a capital) with its
  arguments but the external collaborators, and the result of a call is the result of the
  function (a constructor of \<open>ret\<close> for each result type).  A loop of the source is a
  function of its own, named after the function that contains it; the flag in the result
  of the array-subscript loops says that the loop ended in a \<^verbatim>\<open>return\<close> (which skips the
  code after the loop).
\<close>

datatype 'd call =
    ExecuteItem "'d JsonPathExecContext" JsonPathItem "'d JsonItem" "'d JsonValueList option"
  | ExecuteItemOptUnwrapTarget "'d JsonPathExecContext" JsonPathItem "'d JsonItem"
      "'d JsonValueList option" bool
  | ExecuteIndexArray_loop "'d JsonPathExecContext" JsonPathItem "'d JsonItem"
      "'d JsonValueList option" int bool nat JsonPathExecResult
  | ExecuteIndexArray_range "'d JsonPathExecContext" JsonPathItem "'d JsonItem"
      "'d JsonValueList option" bool int int JsonPathExecResult
  | ExecuteItemUnwrapTargetArray "'d JsonPathExecContext" "JsonPathItem option" "'d JsonItem"
      "'d JsonValueList option" bool
  | ExecuteNextItem "'d JsonPathExecContext" "JsonPathItem option" "JsonPathItem option"
      "'d JsonItem" "'d JsonValueList option" bool
  | ExecuteItemOptUnwrapResult "'d JsonPathExecContext" JsonPathItem "'d JsonItem" bool
      "'d JsonValueList option"
  | ExecuteItemOptUnwrapResult_loop "'d JsonPathExecContext" "'d JsonItem list"
      "'d JsonValueList option"
  | ExecuteItemOptUnwrapResultNoThrow "'d JsonPathExecContext" JsonPathItem "'d JsonItem" bool
      "'d JsonValueList option"
  | ExecuteBoolItem "'d JsonPathExecContext" JsonPathItem "'d JsonItem" bool
  | ExecuteNestedBoolItem "'d JsonPathExecContext" JsonPathItem "'d JsonItem"
  | ExecuteAnyItem "'d JsonPathExecContext" "JsonPathItem option" JsonbContainer
      "'d JsonValueList option" nat nat nat bool bool
  | ExecuteAnyItem_loop "'d JsonPathExecContext" "JsonPathItem option" "JsonbValue list"
      "'d JsonValueList option" nat nat nat bool bool JsonPathExecResult
  | ExecutePredicate "'d JsonPathExecContext" JsonPathItem JsonPathItem "JsonPathItem option"
      "'d JsonItem" bool "'d JsonPathPredicateCallback" "JsonLikeRegexContext option"
  | ExecuteBinaryArithmExpr "'d JsonPathExecContext" JsonPathItem "'d JsonItem"
      "Numeric \<Rightarrow> Numeric \<Rightarrow> error + Numeric" "'d JsonValueList option"
  | ExecuteUnaryArithmExpr "'d JsonPathExecContext" JsonPathItem "'d JsonItem"
      "(Numeric \<Rightarrow> Numeric) option" "'d JsonValueList option"
  | ExecuteUnaryArithmExpr_loop "'d JsonPathExecContext" JsonPathItem "'d JsonItem list"
      "(Numeric \<Rightarrow> Numeric) option" "'d JsonValueList option" JsonPathExecResult
  | ExecuteNumericItemMethod "'d JsonPathExecContext" JsonPathItem "'d JsonItem" bool
      "Numeric \<Rightarrow> Numeric" "'d JsonValueList option"
  | ExecuteKeyValueMethod "'d JsonPathExecContext" JsonPathItem "'d JsonItem"
      "'d JsonValueList option"
  | ExecuteKeyValueMethod_loop "'d JsonPathExecContext" JsonPathItem
      "(string \<times> JsonbValue) list" JsonbValue "'d JsonValueList option" JsonPathExecResult
  | AppendBoolResult "'d JsonPathExecContext" JsonPathItem
      "'d JsonValueList option" JsonPathBool
  | GetArrayIndex "'d JsonPathExecContext" JsonPathItem "'d JsonItem"

datatype 'd ret =
    RetState "'d jper_state"
  | RetLoop "bool \<times> 'd jper_state"
  | RetBool "JsonPathBool \<times> 'd JsonPathExecContext"
  | RetIndex "JsonPathExecResult \<times> int \<times> 'd JsonPathExecContext"

text \<open>A function returns its result as a \<open>ret\<close>, and reads the result of a call of a
  function from the \<open>ret\<close> of that function (no call gives a \<open>ret\<close> of another
  function).\<close>

definition retState :: "error + 'd jper_state \<Rightarrow> error + 'd ret" where
  "retState r = map_sum id RetState r"

definition retLoop :: "error + (bool \<times> 'd jper_state) \<Rightarrow> error + 'd ret" where
  "retLoop r = map_sum id RetLoop r"

definition retBool :: "error + (JsonPathBool \<times> 'd JsonPathExecContext) \<Rightarrow> error + 'd ret" where
  "retBool r = map_sum id RetBool r"

definition retIndex ::
  "error + (JsonPathExecResult \<times> int \<times> 'd JsonPathExecContext) \<Rightarrow> error + 'd ret" where
  "retIndex r = map_sum id RetIndex r"

fun asState :: "error + 'd ret \<Rightarrow> error + 'd jper_state" where
  "asState (Inl e) = Inl e"
| "asState (Inr (RetState s)) = Inr s"
| "asState (Inr r) = Inl null_pointer"

fun asLoop :: "error + 'd ret \<Rightarrow> error + (bool \<times> 'd jper_state)" where
  "asLoop (Inl e) = Inl e"
| "asLoop (Inr (RetLoop s)) = Inr s"
| "asLoop (Inr r) = Inl null_pointer"

fun asBool :: "error + 'd ret \<Rightarrow> error + (JsonPathBool \<times> 'd JsonPathExecContext)" where
  "asBool (Inl e) = Inl e"
| "asBool (Inr (RetBool s)) = Inr s"
| "asBool (Inr r) = Inl null_pointer"

fun asIndex ::
  "error + 'd ret \<Rightarrow> error + (JsonPathExecResult \<times> int \<times> 'd JsonPathExecContext)" where
  "asIndex (Inl e) = Inl e"
| "asIndex (Inr (RetIndex s)) = Inr s"
| "asIndex (Inr r) = Inl null_pointer"

lemma asState_retState: "asState (retState r) = r"
  by (cases r) (simp_all add: retState_def)

lemma asLoop_retLoop: "asLoop (retLoop r) = r"
  by (cases r) (simp_all add: retLoop_def)

lemma asBool_retBool: "asBool (retBool r) = r"
  by (cases r) (simp_all add: retBool_def)

lemma asIndex_retIndex: "asIndex (retIndex r) = r"
  by (cases r) (simp_all add: retIndex_def)

text \<open>
  The measure of a call, for the termination of \<open>execute\<close>: a call goes to a smaller
  path item, or stays at the same path item and moves down a fixed order of the functions,
  or (inside the loops) to a shorter rest of the data.
\<close>

fun call_measure :: "'d call \<Rightarrow> nat \<times> nat \<times> nat" where
  "call_measure (ExecuteItem cxt jsp jb found) =
     (8 * size jsp + 5, 0, 0)"
| "call_measure (ExecuteItemOptUnwrapTarget cxt jsp jb found unwrap) =
     (8 * size jsp + 3 + (if unwrap then 1 else 0), 10, 0)"
| "call_measure (ExecuteIndexArray_loop cxt jsp jb found asize singleton i res) =
     (8 * size jsp + 2, 8, jsp_nelems jsp - i)"
| "call_measure (ExecuteIndexArray_range cxt jsp jb found singleton index index_to res) =
     (8 * size jsp + 2, 7, nat (index_to - index + 1))"
| "call_measure (ExecuteItemUnwrapTargetArray cxt jsp jb found unwrapElements) =
     ((case jsp of None \<Rightarrow> 0 | Some j \<Rightarrow> 8 * size j) + 3 + (if unwrapElements then 1 else 0), 13, 0)"
| "call_measure (ExecuteNextItem cxt cur next v found copy) =
     (max (case cur of None \<Rightarrow> 0 | Some c \<Rightarrow> 8 * size c + 2)
          (case next of None \<Rightarrow> 0 | Some n \<Rightarrow> 8 * size n + 6), 5, 0)"
| "call_measure (ExecuteItemOptUnwrapResult cxt jsp jb unwrap found) =
     (8 * size jsp + 6, 3, 0)"
| "call_measure (ExecuteItemOptUnwrapResult_loop cxt items found) =
     (5, 0, length items)"
| "call_measure (ExecuteItemOptUnwrapResultNoThrow cxt jsp jb unwrap found) =
     (8 * size jsp + 7, 0, 0)"
| "call_measure (ExecuteBoolItem cxt jsp jb canHaveNext) =
     (8 * size jsp + 2, 4, 0)"
| "call_measure (ExecuteNestedBoolItem cxt jsp jb) =
     (8 * size jsp + 2, 5, 0)"
| "call_measure (ExecuteAnyItem cxt jsp c found level first lastLevel ign unwrapNext) =
     ((case jsp of None \<Rightarrow> 0 | Some j \<Rightarrow> 8 * size j) + 3 + (if unwrapNext then 1 else 0), 12,
      2 * size_list size (JsonContainerValues c) + 1)"
| "call_measure (ExecuteAnyItem_loop cxt jsp vs found level first lastLevel ign unwrapNext res) =
     ((case jsp of None \<Rightarrow> 0 | Some j \<Rightarrow> 8 * size j) + 3 + (if unwrapNext then 1 else 0), 12,
      2 * size_list size vs)"
| "call_measure (ExecutePredicate cxt pred larg rarg jb unwrapRightArg exec param) =
     (max (8 * size larg) (case rarg of None \<Rightarrow> 0 | Some r \<Rightarrow> 8 * size r) + 8, 0, 0)"
| "call_measure (ExecuteBinaryArithmExpr cxt jsp jb func found) =
     (8 * size jsp + 2, 6, 0)"
| "call_measure (ExecuteUnaryArithmExpr cxt jsp jb func found) =
     (8 * size jsp + 2, 8, 0)"
| "call_measure (ExecuteUnaryArithmExpr_loop cxt jsp vals func found jper) =
     (8 * size jsp + 2, 7, length vals)"
| "call_measure (ExecuteNumericItemMethod cxt jsp jb unwrap func found) =
     (8 * size jsp + 3 + (if unwrap then 1 else 0), 9, 0)"
| "call_measure (ExecuteKeyValueMethod cxt jsp jb found) =
     (8 * size jsp + 2, 8, 0)"
| "call_measure (ExecuteKeyValueMethod_loop cxt jsp pairs idval found res) =
     (8 * size jsp + 2, 7, length pairs)"
| "call_measure (AppendBoolResult cxt jsp found res) =
     (8 * size jsp + 2, 6, 0)"
| "call_measure (GetArrayIndex cxt jsp jb) =
     (8 * size jsp + 6, 0, 0)"

subsection \<open>The mutually recursive execution functions\<close>

function execute :: "('d, 'f) extern \<Rightarrow> 'd call \<Rightarrow> error + 'd ret" where
  \<comment> \<open>Execute jsonpath with automatic unwrapping of current item in lax mode.\<close>
  "execute env (ExecuteItem cxt jsp jb found) =
     retState
     (asState (execute env (ExecuteItemOptUnwrapTarget cxt jsp jb found (jspAutoUnwrap cxt))))"

  \<comment> \<open>Main jsonpath executor function: walks on jsonpath structure, finds relevant parts
      of jsonb and evaluates expressions over them.  When \<open>unwrap\<close> is true the current
      SQL/JSON item is unwrapped if it is an array.\<close>
| "execute env (ExecuteItemOptUnwrapTarget cxt jsp jb found unwrap) =
     retState
     (if jspIsBoolItem (jsp_type jsp) then
        (case asBool (execute env (ExecuteBoolItem cxt jsp jb True)) of
           Inl e \<Rightarrow> Inl e
         | Inr (st, cxt1) \<Rightarrow> asState (execute env (AppendBoolResult cxt1 jsp found st)))
      else if jspIsLiteralItem (jsp_type jsp) then
        (if jspGetNext jsp = None \<and> found = None then Inr (jperOk, cxt, found)
         else
           (case getJsonPathItem cxt jsp of
              Inl e \<Rightarrow> Inl e
            | Inr (v, cxt1) \<Rightarrow>
                (case asState (execute env (ExecuteNextItem cxt1 (Some jsp) (jspGetNext jsp) v found
                        (jspGetNext jsp \<noteq> None))) of
                   Inl e \<Rightarrow> Inl e
                 | Inr (res, cxt2, found2) \<Rightarrow>
                     Inr (res, cxt2\<lparr>baseObject := baseObject cxt\<rparr>, found2))))
      else
        (case jsp of
           jpiKey key nx \<Rightarrow>
             if JsonbType jb = jsiObject then
               (case JsonItemBinaryData jb of
                  None \<Rightarrow> Inl null_pointer
                | Some c \<Rightarrow>
                    (case findJsonbValueFromContainer c key of
                       Some v \<Rightarrow> asState (execute env
                                              (ExecuteNextItem cxt (Some jsp) None (Jbv v) found False))
                     | None \<Rightarrow>
                         if \<not> jspIgnoreStructuralErrors cxt then
                           (if \<not> jspThrowErrors cxt then Inr (jperError, cxt, found)
                            else Inl err_key_not_found)
                         else Inr (jperNotFound, cxt, found)))
             else if unwrap \<and> JsonbType jb = jsiArray then
               asState (execute env (ExecuteItemUnwrapTargetArray cxt (Some jsp) jb found False))
             else if \<not> jspIgnoreStructuralErrors cxt then
               RETURN_ERROR cxt found err_member_accessor_not_object
             else Inr (jperNotFound, cxt, found)

         | jpiRoot nx \<Rightarrow>
             (case asState (execute env
                     (ExecuteNextItem (snd (setBaseObject cxt (root cxt) 0)) (Some jsp) None
                     (root cxt) found True)) of
                Inl e \<Rightarrow> Inl e
              | Inr (res, cxt1, found1) \<Rightarrow>
                  Inr (res, cxt1\<lparr>baseObject := fst (setBaseObject cxt (root cxt) 0)\<rparr>, found1))

         | jpiCurrent nx \<Rightarrow>
             (case stack cxt of
                [] \<Rightarrow> Inl null_pointer
              | item # parent \<Rightarrow> asState (execute env
                                              (ExecuteNextItem cxt (Some jsp) None item found True)))

         | jpiAnyArray nx \<Rightarrow>
             if JsonbType jb = jsiArray then
               asState (execute env (ExecuteItemUnwrapTargetArray cxt (jspGetNext jsp) jb found
                 (jspAutoUnwrap cxt)))
             else if jspAutoWrap cxt then
               asState (execute env (ExecuteNextItem cxt (Some jsp) None jb found True))
             else if \<not> jspIgnoreStructuralErrors cxt then
               RETURN_ERROR cxt found err_wildcard_array_accessor_not_array
             else Inr (jperNotFound, cxt, found)

         | jpiIndexArray subs nx \<Rightarrow>
             if JsonbType jb = jsiArray \<or> jspAutoWrap cxt then
               (let singleton = (JsonbArraySize jb < 0);
                    asize = (if singleton then 1 else JsonbArraySize jb)
                in case asLoop (execute env
                          (ExecuteIndexArray_loop (cxt\<lparr>innermostArraySize := asize\<rparr>) jsp jb
                          found asize singleton 0 jperNotFound)) of
                     Inl e \<Rightarrow> Inl e
                   | Inr (True, st) \<Rightarrow> Inr st
                   | Inr (False, res, cxt1, found1) \<Rightarrow>
                       Inr (res, cxt1\<lparr>innermostArraySize := innermostArraySize cxt\<rparr>, found1))
             else if \<not> jspIgnoreStructuralErrors cxt then
               RETURN_ERROR cxt found err_array_accessor_not_array
             else Inr (jperNotFound, cxt, found)

         | jpiLast nx \<Rightarrow>
             if innermostArraySize cxt < 0 then
               Inl err_last_outside_subscript
             else if jspGetNext jsp = None \<and> found = None then Inr (jperOk, cxt, found)
             else
               asState (execute env (ExecuteNextItem cxt (Some jsp) (jspGetNext jsp)
                 (Jbv (jbvNumeric (int4_numeric (innermostArraySize cxt - 1)))) found
                 (jspGetNext jsp \<noteq> None)))

         | jpiAnyKey nx \<Rightarrow>
             if JsonbType jb = jsiObject then
               (case JsonItemBinaryData jb of
                  None \<Rightarrow> Inl err_invalid_object_type
                | Some c \<Rightarrow>
                    asState (execute env (ExecuteAnyItem cxt (jspGetNext jsp) c found 1 1 1 False
                      (jspAutoUnwrap cxt))))
             else if unwrap \<and> JsonbType jb = jsiArray then
               asState (execute env (ExecuteItemUnwrapTargetArray cxt (Some jsp) jb found False))
             else if \<not> jspIgnoreStructuralErrors cxt then
               RETURN_ERROR cxt found err_wildcard_member_accessor_not_object
             else Inr (jperNotFound, cxt, found)

         | jpiAdd l r nx \<Rightarrow>
             asState (execute env
               (ExecuteBinaryArithmExpr cxt jsp jb (numeric_add_opt_error env) found))
         | jpiSub l r nx \<Rightarrow>
             asState (execute env
               (ExecuteBinaryArithmExpr cxt jsp jb (numeric_sub_opt_error env) found))
         | jpiMul l r nx \<Rightarrow>
             asState (execute env
               (ExecuteBinaryArithmExpr cxt jsp jb (numeric_mul_opt_error env) found))
         | jpiDiv l r nx \<Rightarrow>
             asState (execute env
               (ExecuteBinaryArithmExpr cxt jsp jb (numeric_div_opt_error env) found))
         | jpiMod l r nx \<Rightarrow>
             asState (execute env
               (ExecuteBinaryArithmExpr cxt jsp jb (numeric_mod_opt_error env) found))
         | jpiPlus a nx \<Rightarrow> asState (execute env
                                        (ExecuteUnaryArithmExpr cxt jsp jb None found))
         | jpiMinus a nx \<Rightarrow> asState (execute env
                                         (ExecuteUnaryArithmExpr cxt jsp jb (Some numeric_uminus) found))

         | jpiFilter a nx \<Rightarrow>
             if unwrap \<and> JsonbType jb = jsiArray then
               asState (execute env (ExecuteItemUnwrapTargetArray cxt (Some jsp) jb found False))
             else
               (case asBool (execute env (ExecuteNestedBoolItem cxt a jb)) of
                  Inl e \<Rightarrow> Inl e
                | Inr (st, cxt1) \<Rightarrow>
                    if st \<noteq> jpbTrue then Inr (jperNotFound, cxt1, found)
                    else asState (execute env (ExecuteNextItem cxt1 (Some jsp) None jb found True)))

         | jpiAny first lastLevel nx \<Rightarrow>
             (case (if first = 0 then
                      \<comment> \<open>first try without any intermediate steps\<close>
                      (case asState (execute env
                              (ExecuteNextItem (cxt\<lparr>ignoreStructuralErrors := True\<rparr>)
                              (Some jsp) (jspGetNext jsp) jb found True)) of
                         Inl e \<Rightarrow> Inl e
                       | Inr (res, cxt1, found1) \<Rightarrow>
                           Inr (res,
                                cxt1\<lparr>ignoreStructuralErrors := ignoreStructuralErrors cxt\<rparr>,
                                found1))
                    else Inr (jperNotFound, cxt, found)) of
                Inl e \<Rightarrow> Inl e
              | Inr (res, cxt1, found1) \<Rightarrow>
                  if first = 0 \<and> res = jperOk \<and> found = None then Inr (res, cxt1, found1)
                  else
                    (case JsonItemBinaryData jb of
                       Some c \<Rightarrow>
                         asState (execute env
                           (ExecuteAnyItem cxt1 (jspGetNext jsp) c found1 1 first lastLevel True
                           (jspAutoUnwrap cxt1)))
                     | None \<Rightarrow> Inr (res, cxt1, found1)))

         | jpiType nx \<Rightarrow>
             (case JsonItemTypeName jb of
                Inl e \<Rightarrow> Inl e
              | Inr name \<Rightarrow>
                  asState (execute env
                    (ExecuteNextItem cxt (Some jsp) None (Jbv (jbvString name)) found True)))

         | jpiSize nx \<Rightarrow>
             if JsonbArraySize jb < 0 then
               (if \<not> jspAutoWrap cxt then
                  (if \<not> jspIgnoreStructuralErrors cxt then
                     RETURN_ERROR cxt found err_method_not_array
                   else Inr (jperNotFound, cxt, found))
                else
                  asState (execute env (ExecuteNextItem cxt (Some jsp) None
                    (Jbv (jbvNumeric (int4_numeric 1))) found False)))
             else
               asState (execute env (ExecuteNextItem cxt (Some jsp) None
                 (Jbv (jbvNumeric (int4_numeric (JsonbArraySize jb)))) found False))

         | jpiAbs nx \<Rightarrow> asState (execute env
                                     (ExecuteNumericItemMethod cxt jsp jb unwrap numeric_abs found))
         | jpiFloor nx \<Rightarrow> asState (execute env
                                       (ExecuteNumericItemMethod cxt jsp jb unwrap numeric_floor found))
         | jpiCeiling nx \<Rightarrow> asState (execute env
                                         (ExecuteNumericItemMethod cxt jsp jb unwrap numeric_ceil found))

         | jpiDouble nx \<Rightarrow>
             if unwrap \<and> JsonbType jb = jsiArray then
               asState (execute env (ExecuteItemUnwrapTargetArray cxt (Some jsp) jb found False))
             else
               (case jb of
                  Jbv (jbvNumeric n) \<Rightarrow>
                    (case float8in_internal_opt_error env (numeric_out env n) of
                       None \<Rightarrow>
                         RETURN_ERROR cxt found err_method_not_numeric
                     | Some val \<Rightarrow> asState (execute env
                                                (ExecuteNextItem cxt (Some jsp) None jb found True)))
                | Jbv (jbvString s) \<Rightarrow>
                    (case float8in_internal_opt_error env s of
                       None \<Rightarrow>
                         RETURN_ERROR cxt found err_method_not_numeric
                     | Some val \<Rightarrow>
                         if isinf env val then
                           RETURN_ERROR cxt found err_method_not_numeric
                         else
                           asState (execute env (ExecuteNextItem cxt (Some jsp) None
                             (Jbv (jbvNumeric (float8_numeric env val))) found True)))
                | _ \<Rightarrow>
                    RETURN_ERROR cxt found err_method_not_string_or_numeric)

         | jpiDatetime left right nx \<Rightarrow>
             if unwrap \<and> JsonbType jb = jsiArray then
               asState (execute env (ExecuteItemUnwrapTargetArray cxt (Some jsp) jb found False))
             else
               (case getScalar jb jsiString of
                  Some (Jbv (jbvString datetime)) \<Rightarrow>
                    (case executeDatetime_template left of
                       Inl e \<Rightarrow> Inl e
                     | Inr template \<Rightarrow>
                         (case (case (if template = None then None else right) of
                                  None \<Rightarrow> Inr (Inr (None, PG_INT32_MIN), cxt)
                                | Some relem \<Rightarrow>
                                    (case asState (execute env
                                            (ExecuteItem cxt relem jb (Some []))) of
                                       Inl e \<Rightarrow> Inl e
                                     | Inr (tzres, cxt1, tzlist) \<Rightarrow>
                                         if jperIsError tzres
                                         then Inr (Inl (tzres, cxt1, found), cxt1)
                                         else
                                           (case executeDatetime_tz cxt1 found
                                                   (JsonValueListOf tzlist) of
                                              Inl e \<Rightarrow> Inl e
                                            | Inr r \<Rightarrow> Inr (r, cxt1)))) of
                            Inl e \<Rightarrow> Inl e
                          | Inr (Inl st, cxt1) \<Rightarrow> Inr st
                          | Inr (Inr (tzname, tz), cxt1) \<Rightarrow>
                              (case executeDatetime_parse env cxt1 found template datetime
                                      tzname tz of
                                 Inl e \<Rightarrow> Inl e
                               | Inr (Inl st) \<Rightarrow> Inr st
                               | Inr (Inr (val, typid, typmod, tz1)) \<Rightarrow>
                                   if jspGetNext jsp = None \<and> found = None
                                   then Inr (jperOk, cxt1, found)
                                   else
                                     asState (execute env
                                       (ExecuteNextItem cxt1 (Some jsp) (jspGetNext jsp)
                                       (Datetime val typid typmod tz1) found
                                       (jspGetNext jsp \<noteq> None))))))
                | _ \<Rightarrow>
                    RETURN_ERROR cxt found err_method_not_string)

         | jpiKeyValue nx \<Rightarrow>
             if unwrap \<and> JsonbType jb = jsiArray then
               asState (execute env (ExecuteItemUnwrapTargetArray cxt (Some jsp) jb found False))
             else asState (execute env (ExecuteKeyValueMethod cxt jsp jb found))

         | _ \<Rightarrow> Inl err_unrecognized_item_type))"

  \<comment> \<open>The loop over the subscripts of \<^verbatim>\<open>[subscript, ...]\<close>, from subscript \<open>i\<close> on.\<close>
| "execute env (ExecuteIndexArray_loop cxt jsp jb found asize singleton i res) =
     retLoop
     (if i < jsp_nelems jsp then
        (case jspGetArraySubscript jsp i of
           None \<Rightarrow> Inl null_pointer
         | Some (fromItem, toItem) \<Rightarrow>
             (case asIndex (execute env (GetArrayIndex cxt fromItem jb)) of
                Inl e \<Rightarrow> Inl e
              | Inr (res1, index_from, cxt1) \<Rightarrow>
                  if jperIsError res1 then Inr (False, res1, cxt1, found)
                  else
                    (case (case toItem of
                             Some t \<Rightarrow> asIndex (execute env (GetArrayIndex cxt1 t jb))
                           | None \<Rightarrow> Inr (res1, index_from, cxt1)) of
                       Inl e \<Rightarrow> Inl e
                     | Inr (res2, index_to, cxt2) \<Rightarrow>
                         if jperIsError res2 then Inr (False, res2, cxt2, found)
                         else if \<not> jspIgnoreStructuralErrors cxt2 \<and>
                                 (index_from < 0 \<or> index_from > index_to \<or> index_to \<ge> asize)
                         then
                           (case RETURN_ERROR cxt2 found err_subscript_out_of_bounds of
                              Inl e \<Rightarrow> Inl e
                            | Inr st \<Rightarrow> Inr (True, st))
                         else
                           (case asLoop (execute env
                                   (ExecuteIndexArray_range cxt2 jsp jb found singleton
                                   (if index_from < 0 then 0 else index_from)
                                   (if index_to \<ge> asize then asize - 1 else index_to)
                                   jperNotFound)) of
                              Inl e \<Rightarrow> Inl e
                            | Inr (True, st) \<Rightarrow> Inr (True, st)
                            | Inr (False, res3, cxt3, found3) \<Rightarrow>
                                if jperIsError res3 then Inr (False, res3, cxt3, found3)
                                else if res3 = jperOk \<and> found = None
                                then Inr (False, res3, cxt3, found3)
                                else
                                  asLoop (execute env
                                    (ExecuteIndexArray_loop cxt3 jsp jb found3 asize singleton
                                    (Suc i) res3))))))
      else Inr (False, res, cxt, found))"

  \<comment> \<open>The loop over the indices \<open>index..index_to\<close> of one subscript.\<close>
| "execute env (ExecuteIndexArray_range cxt jsp jb found singleton index index_to res) =
     retLoop
     (if index \<le> index_to then
        (case (if singleton then Some (jb, True)
               else
                 (case JsonItemBinaryData jb of
                    None \<Rightarrow> None
                  | Some c \<Rightarrow>
                      (case getIthJsonbValueFromContainer c index of
                         None \<Rightarrow> None
                       | Some v \<Rightarrow> Some (Jbv v, False)))) of
           None \<Rightarrow>
             asLoop (execute env
               (ExecuteIndexArray_range cxt jsp jb found singleton (index + 1) index_to res))
         | Some (jsi, copy) \<Rightarrow>
             if jspGetNext jsp = None \<and> found = None then Inr (True, jperOk, cxt, found)
             else
               (case asState (execute env
                       (ExecuteNextItem cxt (Some jsp) (jspGetNext jsp) jsi found copy)) of
                  Inl e \<Rightarrow> Inl e
                | Inr (res1, cxt1, found1) \<Rightarrow>
                    if jperIsError res1 then Inr (False, res1, cxt1, found1)
                    else if res1 = jperOk \<and> found = None then Inr (False, res1, cxt1, found1)
                    else
                      asLoop (execute env
                        (ExecuteIndexArray_range cxt1 jsp jb found1 singleton (index + 1)
                        index_to res1))))
      else Inr (False, res, cxt, found))"

  \<comment> \<open>Unwrap current array item and execute jsonpath for each of its elements.\<close>
| "execute env (ExecuteItemUnwrapTargetArray cxt jsp jb found unwrapElements) =
     retState
     (case JsonItemBinaryData jb of
        None \<Rightarrow> Inl err_invalid_array_type
      | Some c \<Rightarrow> asState (execute env
                               (ExecuteAnyItem cxt jsp c found 1 1 1 False unwrapElements)))"

  \<comment> \<open>Execute next jsonpath item if exists.  Otherwise put \<open>v\<close> to the \<open>found\<close> list if
      provided.\<close>
| "execute env (ExecuteNextItem cxt cur next v found copy) =
     retState
     (case cur of
        None \<Rightarrow>
          (case next of
             Some n \<Rightarrow> asState (execute env (ExecuteItem cxt n v found))
           | None \<Rightarrow> Inr (jperOk, cxt, appendFound found v copy))
      | Some c \<Rightarrow>
          (case next of
             Some n \<Rightarrow>
               if jspHasNext c then asState (execute env (ExecuteItem cxt n v found))
               else Inr (jperOk, cxt, appendFound found v copy)
           | None \<Rightarrow>
               (case jspGetNext c of
                  Some n \<Rightarrow> asState (execute env (ExecuteItem cxt n v found))
                | None \<Rightarrow> Inr (jperOk, cxt, appendFound found v copy))))"

  \<comment> \<open>Same as \<open>executeItem\<close>, but when \<open>unwrap\<close> is true automatically unwraps each
      array item from the resulting sequence in lax mode.\<close>
| "execute env (ExecuteItemOptUnwrapResult cxt jsp jb unwrap found) =
     retState
     (if unwrap \<and> jspAutoUnwrap cxt then
        (case asState (execute env (ExecuteItem cxt jsp jb (Some []))) of
           Inl e \<Rightarrow> Inl e
         | Inr (res, cxt1, seq) \<Rightarrow>
             if jperIsError res then Inr (res, cxt1, found)
             else asState (execute env
                    (ExecuteItemOptUnwrapResult_loop cxt1 (JsonValueListOf seq) found)))
      else asState (execute env (ExecuteItem cxt jsp jb found)))"

| "execute env (ExecuteItemOptUnwrapResult_loop cxt items found) =
     retState
     (case items of
        [] \<Rightarrow> Inr (jperOk, cxt, found)
      | item # rest \<Rightarrow>
          if JsonbType item = jsiArray then
            (case asState (execute env (ExecuteItemUnwrapTargetArray cxt None item found False)) of
               Inl e \<Rightarrow> Inl e
             | Inr (res, cxt1, found1) \<Rightarrow>
                 asState (execute env (ExecuteItemOptUnwrapResult_loop cxt1 rest found1)))
          else
            (case found of
               None \<Rightarrow> Inl null_pointer
             | Some jvl \<Rightarrow>
                 asState (execute env (ExecuteItemOptUnwrapResult_loop cxt rest
                   (Some (JsonValueListAppend jvl item))))))"

  \<comment> \<open>Same as \<open>executeItemOptUnwrapResult\<close>, but with error suppression.\<close>
| "execute env (ExecuteItemOptUnwrapResultNoThrow cxt jsp jb unwrap found) =
     retState
     (case asState (execute env
             (ExecuteItemOptUnwrapResult (cxt\<lparr>throwErrors := False\<rparr>) jsp jb unwrap found)) of
        Inl e \<Rightarrow> Inl e
      | Inr (res, cxt1, found1) \<Rightarrow> Inr (res, cxt1\<lparr>throwErrors := throwErrors cxt\<rparr>, found1))"

  \<comment> \<open>Execute boolean-valued jsonpath expression.\<close>
| "execute env (ExecuteBoolItem cxt jsp jb canHaveNext) =
     retBool
     (if \<not> canHaveNext \<and> jspHasNext jsp then
        Inl err_bool_item_has_next
      else
        (case jsp of
           jpiAnd larg rarg nx \<Rightarrow>
             (case asBool (execute env (ExecuteBoolItem cxt larg jb False)) of
                Inl e \<Rightarrow> Inl e
              | Inr (res, cxt1) \<Rightarrow>
                  if res = jpbFalse then Inr (jpbFalse, cxt1)
                  else
                    \<comment> \<open>SQL/JSON says that we should check second arg in case of jperError\<close>
                    (case asBool (execute env (ExecuteBoolItem cxt1 rarg jb False)) of
                       Inl e \<Rightarrow> Inl e
                     | Inr (res2, cxt2) \<Rightarrow> Inr (if res2 = jpbTrue then res else res2, cxt2)))

         | jpiOr larg rarg nx \<Rightarrow>
             (case asBool (execute env (ExecuteBoolItem cxt larg jb False)) of
                Inl e \<Rightarrow> Inl e
              | Inr (res, cxt1) \<Rightarrow>
                  if res = jpbTrue then Inr (jpbTrue, cxt1)
                  else
                    (case asBool (execute env (ExecuteBoolItem cxt1 rarg jb False)) of
                       Inl e \<Rightarrow> Inl e
                     | Inr (res2, cxt2) \<Rightarrow> Inr (if res2 = jpbFalse then res else res2, cxt2)))

         | jpiNot larg nx \<Rightarrow>
             (case asBool (execute env (ExecuteBoolItem cxt larg jb False)) of
                Inl e \<Rightarrow> Inl e
              | Inr (res, cxt1) \<Rightarrow>
                  if res = jpbUnknown then Inr (jpbUnknown, cxt1)
                  else Inr (if res = jpbTrue then jpbFalse else jpbTrue, cxt1))

         | jpiIsUnknown larg nx \<Rightarrow>
             (case asBool (execute env (ExecuteBoolItem cxt larg jb False)) of
                Inl e \<Rightarrow> Inl e
              | Inr (res, cxt1) \<Rightarrow> Inr (if res = jpbUnknown then jpbTrue else jpbFalse, cxt1))

         | jpiEqual larg rarg nx \<Rightarrow>
             asBool (execute env
               (ExecutePredicate cxt jsp larg (Some rarg) jb True (executeComparison env) None))
         | jpiNotEqual larg rarg nx \<Rightarrow>
             asBool (execute env
               (ExecutePredicate cxt jsp larg (Some rarg) jb True (executeComparison env) None))
         | jpiLess larg rarg nx \<Rightarrow>
             asBool (execute env
               (ExecutePredicate cxt jsp larg (Some rarg) jb True (executeComparison env) None))
         | jpiGreater larg rarg nx \<Rightarrow>
             asBool (execute env
               (ExecutePredicate cxt jsp larg (Some rarg) jb True (executeComparison env) None))
         | jpiLessOrEqual larg rarg nx \<Rightarrow>
             asBool (execute env
               (ExecutePredicate cxt jsp larg (Some rarg) jb True (executeComparison env) None))
         | jpiGreaterOrEqual larg rarg nx \<Rightarrow>
             asBool (execute env
               (ExecutePredicate cxt jsp larg (Some rarg) jb True (executeComparison env) None))

         | jpiStartsWith larg rarg nx \<Rightarrow>
             asBool (execute env
               (ExecutePredicate cxt jsp larg (Some rarg) jb False executeStartsWith None))

         | jpiLikeRegex expr pattern flags nx \<Rightarrow>
             asBool (execute env (ExecutePredicate cxt jsp expr None jb False (executeLikeRegex env)
               (Some \<lparr>regex = None, cflags = 0\<rparr>)))

         | jpiExists larg nx \<Rightarrow>
             if jspStrictAbsenseOfErrors cxt then
               \<comment> \<open>In strict mode we must get a complete list of values to check that there
                   are no errors at all.\<close>
               (case asState (execute env
                       (ExecuteItemOptUnwrapResultNoThrow cxt larg jb False (Some []))) of
                  Inl e \<Rightarrow> Inl e
                | Inr (res, cxt1, vals) \<Rightarrow>
                    if jperIsError res then Inr (jpbUnknown, cxt1)
                    else Inr (if JsonValueListIsEmpty (JsonValueListOf vals)
                              then jpbFalse else jpbTrue, cxt1))
             else
               (case asState (execute env
                       (ExecuteItemOptUnwrapResultNoThrow cxt larg jb False None)) of
                  Inl e \<Rightarrow> Inl e
                | Inr (res, cxt1, vals) \<Rightarrow>
                    if jperIsError res then Inr (jpbUnknown, cxt1)
                    else Inr (if res = jperOk then jpbTrue else jpbFalse, cxt1))

         | _ \<Rightarrow> Inl err_invalid_bool_item_type))"

  \<comment> \<open>Execute nested (filters etc.) boolean expression pushing current SQL/JSON item
      onto the stack.\<close>
| "execute env (ExecuteNestedBoolItem cxt jsp jb) =
     retBool
     (case asBool (execute env
             (ExecuteBoolItem (cxt\<lparr>stack := pushJsonItem (stack cxt) jb\<rparr>) jsp jb False)) of
        Inl e \<Rightarrow> Inl e
      | Inr (res, cxt1) \<Rightarrow> Inr (res, cxt1\<lparr>stack := popJsonItem (stack cxt1)\<rparr>))"

  \<comment> \<open>Implementation of several jsonpath nodes: \<^verbatim>\<open>.**\<close>, \<^verbatim>\<open>.*\<close> and \<^verbatim>\<open>[*]\<close>.\<close>
| "execute env (ExecuteAnyItem cxt jsp c found level first lastLevel ignoreStructuralErrs unwrapNext) =
     retState
     (if level > lastLevel then Inr (jperNotFound, cxt, found)
      else
        asState (execute env
          (ExecuteAnyItem_loop cxt jsp (JsonContainerValues c) found level first lastLevel
          ignoreStructuralErrs unwrapNext jperNotFound)))"

| "execute env (ExecuteAnyItem_loop cxt jsp vs found level first lastLevel ignoreStructuralErrs unwrapNext res) =
     retState
     (case vs of
        [] \<Rightarrow> Inr (res, cxt, found)
      | v # rest \<Rightarrow>
          (case (if level \<ge> first \<or>
                    (first = PG_UINT32_MAX \<and> lastLevel = PG_UINT32_MAX \<and>
                     JsonItemGetType (Jbv v :: 'd JsonItem) \<noteq> jsiBinary)
                 then
                   \<comment> \<open>check expression\<close>
                   (case jsp of
                      Some j \<Rightarrow>
                        (case asState (execute env (ExecuteItemOptUnwrapTarget
                                (if ignoreStructuralErrs
                                 then cxt\<lparr>ignoreStructuralErrors := True\<rparr> else cxt)
                                j (Jbv v) found unwrapNext)) of
                           Inl e \<Rightarrow> Inl e
                         | Inr (res1, cxt1, found1) \<Rightarrow>
                             Inr (jperIsError res1 \<or> (res1 = jperOk \<and> found = None),
                                  res1,
                                  (if ignoreStructuralErrs
                                   then cxt1\<lparr>ignoreStructuralErrors :=
                                               ignoreStructuralErrors cxt\<rparr>
                                   else cxt1),
                                  found1))
                    | None \<Rightarrow>
                        (case found of
                           Some jvl \<Rightarrow>
                             Inr (False, res, cxt,
                                  Some (JsonValueListAppend jvl (copyJsonItem (Jbv v))))
                         | None \<Rightarrow> Inr (True, jperOk, cxt, found)))
                 else Inr (False, res, cxt, found)) of
             Inl e \<Rightarrow> Inl e
           | Inr (True, st) \<Rightarrow> Inr st
           | Inr (False, res1, cxt1, found1) \<Rightarrow>
               (case (if level < lastLevel then JsonItemBinaryData (Jbv v :: 'd JsonItem)
                      else None) of
                  Some c \<Rightarrow>
                    (case asState (execute env
                            (ExecuteAnyItem cxt1 jsp c found1 (level + 1) first lastLevel
                            ignoreStructuralErrs unwrapNext)) of
                       Inl e \<Rightarrow> Inl e
                     | Inr (res2, cxt2, found2) \<Rightarrow>
                         if jperIsError res2 then Inr (res2, cxt2, found2)
                         else if res2 = jperOk \<and> found = None then Inr (res2, cxt2, found2)
                         else
                           asState (execute env
                             (ExecuteAnyItem_loop cxt2 jsp rest found2 level first lastLevel
                             ignoreStructuralErrs unwrapNext res2)))
                | None \<Rightarrow>
                    asState (execute env
                      (ExecuteAnyItem_loop cxt1 jsp rest found1 level first lastLevel
                      ignoreStructuralErrs unwrapNext res1)))))"

  \<comment> \<open>Execute unary or binary predicate.  Predicates have existence semantics, because
      their operands are item sequences.  Pairs of items from the left and right
      operand's sequences are checked.\<close>
| "execute env (ExecutePredicate cxt pred larg rarg jb unwrapRightArg exec param) =
     retBool
     (\<comment> \<open>Left argument is always auto-unwrapped.\<close>
     (case asState (execute env (ExecuteItemOptUnwrapResultNoThrow cxt larg jb True (Some []))) of
        Inl e \<Rightarrow> Inl e
      | Inr (res, cxt1, lseq) \<Rightarrow>
          if jperIsError res then Inr (jpbUnknown, cxt1)
          else
            (case rarg of
               None \<Rightarrow>
                 (case executePredicate_pairs (jspStrictAbsenseOfErrors cxt1) exec pred
                         (JsonValueListOf lseq) None param of
                    Inl e \<Rightarrow> Inl e
                  | Inr r \<Rightarrow> Inr (r, cxt1))
             | Some ra \<Rightarrow>
                 \<comment> \<open>Right argument is conditionally auto-unwrapped.\<close>
                 (case asState (execute env
                         (ExecuteItemOptUnwrapResultNoThrow cxt1 ra jb unwrapRightArg
                         (Some []))) of
                    Inl e \<Rightarrow> Inl e
                  | Inr (res2, cxt2, rseq) \<Rightarrow>
                      if jperIsError res2 then Inr (jpbUnknown, cxt2)
                      else
                        (case executePredicate_pairs (jspStrictAbsenseOfErrors cxt2) exec pred
                                (JsonValueListOf lseq) (Some (JsonValueListOf rseq)) param of
                           Inl e \<Rightarrow> Inl e
                         | Inr r \<Rightarrow> Inr (r, cxt2))))))"

  \<comment> \<open>Execute binary arithmetic expression on singleton numeric operands.  Array
      operands are automatically unwrapped in lax mode.\<close>
| "execute env (ExecuteBinaryArithmExpr cxt jsp jb func found) =
     retState
     (case jspGetLeftArg jsp of
        None \<Rightarrow> Inl null_pointer
      | Some larg \<Rightarrow>
          (case asState (execute env (ExecuteItemOptUnwrapResult cxt larg jb True (Some []))) of
             Inl e \<Rightarrow> Inl e
           | Inr (jper, cxt1, lseq) \<Rightarrow>
               if jperIsError jper then Inr (jper, cxt1, found)
               else
                 (case jspGetRightArg jsp of
                    None \<Rightarrow> Inl null_pointer
                  | Some rarg \<Rightarrow>
                      (case asState (execute env
                              (ExecuteItemOptUnwrapResult cxt1 rarg jb True (Some []))) of
                         Inl e \<Rightarrow> Inl e
                       | Inr (jper2, cxt2, rseq) \<Rightarrow>
                           if jperIsError jper2 then Inr (jper2, cxt2, found)
                           else
                             (case singletonNumeric (JsonValueListOf lseq) of
                                None \<Rightarrow>
                                  RETURN_ERROR cxt2 found err_left_operand_not_singleton
                              | Some lval \<Rightarrow>
                                  (case singletonNumeric (JsonValueListOf rseq) of
                                     None \<Rightarrow>
                                       RETURN_ERROR cxt2 found err_right_operand_not_singleton
                                   | Some rval \<Rightarrow>
                                       (case func lval rval of
                                          Inl e \<Rightarrow>
                                            if jspThrowErrors cxt2 then Inl e
                                            else Inr (jperError, cxt2, found)
                                        | Inr res \<Rightarrow>
                                            if jspGetNext jsp = None \<and> found = None
                                            then Inr (jperOk, cxt2, found)
                                            else
                                              asState (execute env (ExecuteNextItem cxt2 (Some jsp)
                                                (jspGetNext jsp) (Jbv (jbvNumeric res)) found
                                                False)))))))))"

  \<comment> \<open>Execute unary arithmetic expression for each numeric item in its operand's
      sequence.  Array operand is automatically unwrapped in lax mode.\<close>
| "execute env (ExecuteUnaryArithmExpr cxt jsp jb func found) =
     retState
     (case jspGetArg jsp of
        None \<Rightarrow> Inl null_pointer
      | Some elem \<Rightarrow>
          (case asState (execute env (ExecuteItemOptUnwrapResult cxt elem jb True (Some []))) of
             Inl e \<Rightarrow> Inl e
           | Inr (jper, cxt1, seq) \<Rightarrow>
               if jperIsError jper then Inr (jper, cxt1, found)
               else
                 asState (execute env
                   (ExecuteUnaryArithmExpr_loop cxt1 jsp (JsonValueListOf seq) func found
                   jperNotFound))))"

| "execute env (ExecuteUnaryArithmExpr_loop cxt jsp vals func found jper) =
     retState
     (case vals of
        [] \<Rightarrow> Inr (jper, cxt, found)
      | val # rest \<Rightarrow>
          (case getScalarNumeric val of
             Some n \<Rightarrow>
               if found = None \<and> jspGetNext jsp = None then Inr (jperOk, cxt, found)
               else
                 (case asState (execute env (ExecuteNextItem cxt (Some jsp) (jspGetNext jsp)
                         (Jbv (jbvNumeric (case func of None \<Rightarrow> n | Some f \<Rightarrow> f n)))
                         found False)) of
                    Inl e \<Rightarrow> Inl e
                  | Inr (jper2, cxt1, found1) \<Rightarrow>
                      if jperIsError jper2 then Inr (jper2, cxt1, found1)
                      else if jper2 = jperOk then
                        (if found = None then Inr (jperOk, cxt1, found1)
                         else
                           asState (execute env
                             (ExecuteUnaryArithmExpr_loop cxt1 jsp rest func found1 jperOk)))
                      else asState (execute env
                             (ExecuteUnaryArithmExpr_loop cxt1 jsp rest func found1 jper)))
           | None \<Rightarrow>
               if found = None \<and> jspGetNext jsp = None then
                 \<comment> \<open>skip non-numerics processing\<close>
                 asState (execute env (ExecuteUnaryArithmExpr_loop cxt jsp rest func found jper))
               else
                 RETURN_ERROR cxt found err_unary_operand_not_numeric))"

  \<comment> \<open>Execute numeric item methods (\<^verbatim>\<open>.abs()\<close>, \<^verbatim>\<open>.floor()\<close>, \<^verbatim>\<open>.ceil()\<close>) using the
      specified function \<open>func\<close>.\<close>
| "execute env (ExecuteNumericItemMethod cxt jsp jb unwrap func found) =
     retState
     (if unwrap \<and> JsonbType jb = jsiArray then
        asState (execute env (ExecuteItemUnwrapTargetArray cxt (Some jsp) jb found False))
      else
        (case getScalarNumeric jb of
           Some n \<Rightarrow>
             if jspGetNext jsp = None \<and> found = None then Inr (jperOk, cxt, found)
             else
               asState (execute env
                 (ExecuteNextItem cxt (Some jsp) (jspGetNext jsp) (Jbv (jbvNumeric (func n)))
                 found False))
         | None \<Rightarrow> RETURN_ERROR cxt found err_method_not_numeric))"

  \<comment> \<open>Implementation of the \<^verbatim>\<open>.keyvalue()\<close> method: a sequence of the object's key-value
      pairs in the format \<^verbatim>\<open>{ "key": key, "value": value, "id": id }\<close>.\<close>
| "execute env (ExecuteKeyValueMethod cxt jsp jb found) =
     retState
     (case (if JsonbType jb \<noteq> jsiObject then None else JsonItemBinaryData jb) of
        None \<Rightarrow>
          RETURN_ERROR cxt found err_method_not_object
      | Some c \<Rightarrow>
          if JsonContainerSize c = 0 then Inr (jperNotFound, cxt, found)
          else
            asState (execute env (ExecuteKeyValueMethod_loop cxt jsp (JsonContainerPairs c)
              (jbvNumeric (int8_numeric (keyvalue_id cxt c))) found jperNotFound)))"

  \<comment> \<open>The loop over the keys of the object; \<open>idval\<close> was computed before the loop.\<close>
| "execute env (ExecuteKeyValueMethod_loop cxt jsp pairs idval found res) =
     retState
     (case pairs of
        [] \<Rightarrow> Inr (res, cxt, found)
      | (key, val) # rest \<Rightarrow>
          if jspGetNext jsp = None \<and> found = None then Inr (jperOk, cxt, found)
          else
            (case asState (execute env (ExecuteNextItem
                    (snd (setBaseObject (cxt\<lparr>lastGeneratedObjectId :=
                                                lastGeneratedObjectId cxt + 1\<rparr>)
                            (Jbv (JsonbInitBinary (JsonbValueToJsonb env
                               (keyvalue_object key val idval))))
                            (lastGeneratedObjectId cxt)))
                    (Some jsp) (jspGetNext jsp)
                    (Jbv (JsonbInitBinary (JsonbValueToJsonb env
                       (keyvalue_object key val idval))))
                    found True)) of
               Inl e \<Rightarrow> Inl e
             | Inr (res1, cxt1, found1) \<Rightarrow>
                 if jperIsError res1
                 then Inr (res1, cxt1\<lparr>baseObject := baseObject cxt\<rparr>, found1)
                 else if res1 = jperOk \<and> found = None
                 then Inr (res1, cxt1\<lparr>baseObject := baseObject cxt\<rparr>, found1)
                 else
                   asState (execute env
                     (ExecuteKeyValueMethod_loop (cxt1\<lparr>baseObject := baseObject cxt\<rparr>) jsp
                     rest idval found1 res1))))"

  \<comment> \<open>Convert boolean execution status \<open>res\<close> to a boolean JSON item and execute next
      jsonpath.\<close>
| "execute env (AppendBoolResult cxt jsp found res) =
     retState
     (if jspGetNext jsp = None \<and> found = None then Inr (jperOk, cxt, found)
      else
        asState (execute env (ExecuteNextItem cxt (Some jsp) (jspGetNext jsp)
          (if res = jpbUnknown then Jbv jbvNull else Jbv (jbvBool (res = jpbTrue)))
          found True)))"

  \<comment> \<open>Execute array subscript expression and convert resulting numeric item to the
      integer type with truncation.\<close>
| "execute env (GetArrayIndex cxt jsp jb) =
     retIndex
     (case asState (execute env (ExecuteItem cxt jsp jb (Some []))) of
        Inl e \<Rightarrow> Inl e
      | Inr (res, cxt1, found) \<Rightarrow>
          if jperIsError res then Inr (res, 0, cxt1)
          else
            (case singletonNumeric (JsonValueListOf found) of
               None \<Rightarrow>
                 if jspThrowErrors cxt1 then
                   Inl err_subscript_not_singleton
                 else Inr (jperError, 0, cxt1)
             | Some n \<Rightarrow>
                 (case numeric_int4_opt_error (numeric_trunc n) of
                    None \<Rightarrow>
                      if jspThrowErrors cxt1 then
                        Inl err_subscript_out_of_integer_range
                      else Inr (jperError, 0, cxt1)
                  | Some index \<Rightarrow> Inr (jperOk, index, cxt1))))"
  by pat_completeness auto

termination execute
  apply (relation "inv_image (less_than <*lex*> less_than <*lex*> less_than)
                     (\<lambda>(env, c). call_measure c)")
    apply simp_all
    apply (auto simp: max_def measure_JsonContainerValues dest!: if_binary_data_Some if_None_else_Some
               dest: size_jspGetNext size_jspGetArg size_jspGetLeftArg size_jspGetRightArg
                 size_jspGetArraySubscript
               split: option.split)
  done

subsection \<open>The execution functions\<close>

text \<open>
  Each execution function of the source is \<open>execute\<close> on its calls.  The lemma that
  follows the definition of a function is its recursion equation: the body of the function
  in the source.
\<close>

definition executeItem ::
    "('d, 'f) extern \<Rightarrow> 'd JsonPathExecContext \<Rightarrow> JsonPathItem \<Rightarrow> 'd JsonItem
       \<Rightarrow> 'd JsonValueList option \<Rightarrow> error + 'd jper_state" where
  "executeItem env cxt jsp jb found =
     asState (execute env (ExecuteItem cxt jsp jb found))"

definition executeItemOptUnwrapTarget ::
    "('d, 'f) extern \<Rightarrow> 'd JsonPathExecContext \<Rightarrow> JsonPathItem \<Rightarrow> 'd JsonItem
       \<Rightarrow> 'd JsonValueList option \<Rightarrow> bool \<Rightarrow> error + 'd jper_state" where
  "executeItemOptUnwrapTarget env cxt jsp jb found unwrap =
     asState (execute env (ExecuteItemOptUnwrapTarget cxt jsp jb found unwrap))"

definition executeIndexArray_loop ::
    "('d, 'f) extern \<Rightarrow> 'd JsonPathExecContext \<Rightarrow> JsonPathItem \<Rightarrow> 'd JsonItem
       \<Rightarrow> 'd JsonValueList option \<Rightarrow> int \<Rightarrow> bool \<Rightarrow> nat \<Rightarrow> JsonPathExecResult
       \<Rightarrow> error + (bool \<times> 'd jper_state)" where
  "executeIndexArray_loop env cxt jsp jb found asize singleton i res =
     asLoop (execute env (ExecuteIndexArray_loop cxt jsp jb found asize singleton i res))"

definition executeIndexArray_range ::
    "('d, 'f) extern \<Rightarrow> 'd JsonPathExecContext \<Rightarrow> JsonPathItem \<Rightarrow> 'd JsonItem
       \<Rightarrow> 'd JsonValueList option \<Rightarrow> bool \<Rightarrow> int \<Rightarrow> int \<Rightarrow> JsonPathExecResult
       \<Rightarrow> error + (bool \<times> 'd jper_state)" where
  "executeIndexArray_range env cxt jsp jb found singleton index index_to res =
     asLoop (execute env (ExecuteIndexArray_range cxt jsp jb found singleton index index_to res))"

definition executeItemUnwrapTargetArray ::
    "('d, 'f) extern \<Rightarrow> 'd JsonPathExecContext \<Rightarrow> JsonPathItem option \<Rightarrow> 'd JsonItem
       \<Rightarrow> 'd JsonValueList option \<Rightarrow> bool \<Rightarrow> error + 'd jper_state" where
  "executeItemUnwrapTargetArray env cxt jsp jb found unwrapElements =
     asState (execute env (ExecuteItemUnwrapTargetArray cxt jsp jb found unwrapElements))"

definition executeNextItem ::
    "('d, 'f) extern \<Rightarrow> 'd JsonPathExecContext \<Rightarrow> JsonPathItem option
       \<Rightarrow> JsonPathItem option \<Rightarrow> 'd JsonItem \<Rightarrow> 'd JsonValueList option \<Rightarrow> bool
       \<Rightarrow> error + 'd jper_state" where
  "executeNextItem env cxt cur next v found copy =
     asState (execute env (ExecuteNextItem cxt cur next v found copy))"

definition executeItemOptUnwrapResult ::
    "('d, 'f) extern \<Rightarrow> 'd JsonPathExecContext \<Rightarrow> JsonPathItem \<Rightarrow> 'd JsonItem \<Rightarrow> bool
       \<Rightarrow> 'd JsonValueList option \<Rightarrow> error + 'd jper_state" where
  "executeItemOptUnwrapResult env cxt jsp jb unwrap found =
     asState (execute env (ExecuteItemOptUnwrapResult cxt jsp jb unwrap found))"

definition executeItemOptUnwrapResult_loop ::
    "('d, 'f) extern \<Rightarrow> 'd JsonPathExecContext \<Rightarrow> 'd JsonItem list
       \<Rightarrow> 'd JsonValueList option \<Rightarrow> error + 'd jper_state" where
  "executeItemOptUnwrapResult_loop env cxt items found =
     asState (execute env (ExecuteItemOptUnwrapResult_loop cxt items found))"

definition executeItemOptUnwrapResultNoThrow ::
    "('d, 'f) extern \<Rightarrow> 'd JsonPathExecContext \<Rightarrow> JsonPathItem \<Rightarrow> 'd JsonItem \<Rightarrow> bool
       \<Rightarrow> 'd JsonValueList option \<Rightarrow> error + 'd jper_state" where
  "executeItemOptUnwrapResultNoThrow env cxt jsp jb unwrap found =
     asState (execute env (ExecuteItemOptUnwrapResultNoThrow cxt jsp jb unwrap found))"

definition executeBoolItem ::
    "('d, 'f) extern \<Rightarrow> 'd JsonPathExecContext \<Rightarrow> JsonPathItem \<Rightarrow> 'd JsonItem \<Rightarrow> bool
       \<Rightarrow> error + (JsonPathBool \<times> 'd JsonPathExecContext)" where
  "executeBoolItem env cxt jsp jb canHaveNext =
     asBool (execute env (ExecuteBoolItem cxt jsp jb canHaveNext))"

definition executeNestedBoolItem ::
    "('d, 'f) extern \<Rightarrow> 'd JsonPathExecContext \<Rightarrow> JsonPathItem \<Rightarrow> 'd JsonItem
       \<Rightarrow> error + (JsonPathBool \<times> 'd JsonPathExecContext)" where
  "executeNestedBoolItem env cxt jsp jb =
     asBool (execute env (ExecuteNestedBoolItem cxt jsp jb))"

definition executeAnyItem ::
    "('d, 'f) extern \<Rightarrow> 'd JsonPathExecContext \<Rightarrow> JsonPathItem option \<Rightarrow> JsonbContainer
       \<Rightarrow> 'd JsonValueList option \<Rightarrow> nat \<Rightarrow> nat \<Rightarrow> nat \<Rightarrow> bool \<Rightarrow> bool
       \<Rightarrow> error + 'd jper_state" where
  "executeAnyItem env cxt jsp c found level first lastLevel ignoreStructuralErrs unwrapNext =
     asState (execute env (ExecuteAnyItem cxt jsp c found level first lastLevel ignoreStructuralErrs unwrapNext))"

definition executeAnyItem_loop ::
    "('d, 'f) extern \<Rightarrow> 'd JsonPathExecContext \<Rightarrow> JsonPathItem option \<Rightarrow> JsonbValue list
       \<Rightarrow> 'd JsonValueList option \<Rightarrow> nat \<Rightarrow> nat \<Rightarrow> nat \<Rightarrow> bool \<Rightarrow> bool
       \<Rightarrow> JsonPathExecResult \<Rightarrow> error + 'd jper_state" where
  "executeAnyItem_loop env cxt jsp vs found level first lastLevel ignoreStructuralErrs unwrapNext res =
     asState (execute env (ExecuteAnyItem_loop cxt jsp vs found level first lastLevel ignoreStructuralErrs unwrapNext res))"

definition executePredicate ::
    "('d, 'f) extern \<Rightarrow> 'd JsonPathExecContext \<Rightarrow> JsonPathItem \<Rightarrow> JsonPathItem
       \<Rightarrow> JsonPathItem option \<Rightarrow> 'd JsonItem \<Rightarrow> bool \<Rightarrow> 'd JsonPathPredicateCallback
       \<Rightarrow> JsonLikeRegexContext option \<Rightarrow> error + (JsonPathBool \<times> 'd JsonPathExecContext)" where
  "executePredicate env cxt pred larg rarg jb unwrapRightArg exec param =
     asBool (execute env (ExecutePredicate cxt pred larg rarg jb unwrapRightArg exec param))"

definition executeBinaryArithmExpr ::
    "('d, 'f) extern \<Rightarrow> 'd JsonPathExecContext \<Rightarrow> JsonPathItem \<Rightarrow> 'd JsonItem
       \<Rightarrow> (Numeric \<Rightarrow> Numeric \<Rightarrow> error + Numeric) \<Rightarrow> 'd JsonValueList option
       \<Rightarrow> error + 'd jper_state" where
  "executeBinaryArithmExpr env cxt jsp jb func found =
     asState (execute env (ExecuteBinaryArithmExpr cxt jsp jb func found))"

definition executeUnaryArithmExpr ::
    "('d, 'f) extern \<Rightarrow> 'd JsonPathExecContext \<Rightarrow> JsonPathItem \<Rightarrow> 'd JsonItem
       \<Rightarrow> (Numeric \<Rightarrow> Numeric) option \<Rightarrow> 'd JsonValueList option \<Rightarrow> error + 'd jper_state" where
  "executeUnaryArithmExpr env cxt jsp jb func found =
     asState (execute env (ExecuteUnaryArithmExpr cxt jsp jb func found))"

definition executeUnaryArithmExpr_loop ::
    "('d, 'f) extern \<Rightarrow> 'd JsonPathExecContext \<Rightarrow> JsonPathItem \<Rightarrow> 'd JsonItem list
       \<Rightarrow> (Numeric \<Rightarrow> Numeric) option \<Rightarrow> 'd JsonValueList option \<Rightarrow> JsonPathExecResult
       \<Rightarrow> error + 'd jper_state" where
  "executeUnaryArithmExpr_loop env cxt jsp vals func found jper =
     asState (execute env (ExecuteUnaryArithmExpr_loop cxt jsp vals func found jper))"

definition executeNumericItemMethod ::
    "('d, 'f) extern \<Rightarrow> 'd JsonPathExecContext \<Rightarrow> JsonPathItem \<Rightarrow> 'd JsonItem \<Rightarrow> bool
       \<Rightarrow> (Numeric \<Rightarrow> Numeric) \<Rightarrow> 'd JsonValueList option \<Rightarrow> error + 'd jper_state" where
  "executeNumericItemMethod env cxt jsp jb unwrap func found =
     asState (execute env (ExecuteNumericItemMethod cxt jsp jb unwrap func found))"

definition executeKeyValueMethod ::
    "('d, 'f) extern \<Rightarrow> 'd JsonPathExecContext \<Rightarrow> JsonPathItem \<Rightarrow> 'd JsonItem
       \<Rightarrow> 'd JsonValueList option \<Rightarrow> error + 'd jper_state" where
  "executeKeyValueMethod env cxt jsp jb found =
     asState (execute env (ExecuteKeyValueMethod cxt jsp jb found))"

definition executeKeyValueMethod_loop ::
    "('d, 'f) extern \<Rightarrow> 'd JsonPathExecContext \<Rightarrow> JsonPathItem
       \<Rightarrow> (string \<times> JsonbValue) list \<Rightarrow> JsonbValue \<Rightarrow> 'd JsonValueList option
       \<Rightarrow> JsonPathExecResult \<Rightarrow> error + 'd jper_state" where
  "executeKeyValueMethod_loop env cxt jsp pairs idval found res =
     asState (execute env (ExecuteKeyValueMethod_loop cxt jsp pairs idval found res))"

definition appendBoolResult ::
    "('d, 'f) extern \<Rightarrow> 'd JsonPathExecContext \<Rightarrow> JsonPathItem
       \<Rightarrow> 'd JsonValueList option \<Rightarrow> JsonPathBool \<Rightarrow> error + 'd jper_state" where
  "appendBoolResult env cxt jsp found res =
     asState (execute env (AppendBoolResult cxt jsp found res))"

definition getArrayIndex ::
    "('d, 'f) extern \<Rightarrow> 'd JsonPathExecContext \<Rightarrow> JsonPathItem \<Rightarrow> 'd JsonItem
       \<Rightarrow> error + (JsonPathExecResult \<times> int \<times> 'd JsonPathExecContext)" where
  "getArrayIndex env cxt jsp jb =
     asIndex (execute env (GetArrayIndex cxt jsp jb))"

text \<open>Execute jsonpath with automatic unwrapping of current item in lax mode.\<close>

lemma executeItem_eq:
  fixes env :: "('d, 'f) extern"
  shows "executeItem env cxt jsp jb found =
     executeItemOptUnwrapTarget env cxt jsp jb found (jspAutoUnwrap cxt)"
  by (simp only: executeItem_def executeItemOptUnwrapTarget_def
        execute.simps(1)[of env cxt jsp jb found] asState_retState)

text \<open>Main jsonpath executor function: walks on jsonpath structure, finds relevant
  parts of jsonb and evaluates expressions over them. When \<open>unwrap\<close> is true the
  current SQL/JSON item is unwrapped if it is an array.\<close>

lemma executeItemOptUnwrapTarget_eq:
  fixes env :: "('d, 'f) extern"
  shows "executeItemOptUnwrapTarget env cxt jsp jb found unwrap =
     (if jspIsBoolItem (jsp_type jsp) then
        (case executeBoolItem env cxt jsp jb True of
           Inl e \<Rightarrow> Inl e
         | Inr (st, cxt1) \<Rightarrow> appendBoolResult env cxt1 jsp found st)
      else if jspIsLiteralItem (jsp_type jsp) then
        (if jspGetNext jsp = None \<and> found = None then Inr (jperOk, cxt, found)
         else
           (case getJsonPathItem cxt jsp of
              Inl e \<Rightarrow> Inl e
            | Inr (v, cxt1) \<Rightarrow>
                (case executeNextItem env cxt1 (Some jsp) (jspGetNext jsp) v found
                        (jspGetNext jsp \<noteq> None) of
                   Inl e \<Rightarrow> Inl e
                 | Inr (res, cxt2, found2) \<Rightarrow>
                     Inr (res, cxt2\<lparr>baseObject := baseObject cxt\<rparr>, found2))))
      else
        (case jsp of
           jpiKey key nx \<Rightarrow>
             if JsonbType jb = jsiObject then
               (case JsonItemBinaryData jb of
                  None \<Rightarrow> Inl null_pointer
                | Some c \<Rightarrow>
                    (case findJsonbValueFromContainer c key of
                       Some v \<Rightarrow> executeNextItem env cxt (Some jsp) None (Jbv v) found False
                     | None \<Rightarrow>
                         if \<not> jspIgnoreStructuralErrors cxt then
                           (if \<not> jspThrowErrors cxt then Inr (jperError, cxt, found)
                            else Inl err_key_not_found)
                         else Inr (jperNotFound, cxt, found)))
             else if unwrap \<and> JsonbType jb = jsiArray then
               executeItemUnwrapTargetArray env cxt (Some jsp) jb found False
             else if \<not> jspIgnoreStructuralErrors cxt then
               RETURN_ERROR cxt found err_member_accessor_not_object
             else Inr (jperNotFound, cxt, found)

         | jpiRoot nx \<Rightarrow>
             (case executeNextItem env (snd (setBaseObject cxt (root cxt) 0)) (Some jsp) None
                     (root cxt) found True of
                Inl e \<Rightarrow> Inl e
              | Inr (res, cxt1, found1) \<Rightarrow>
                  Inr (res, cxt1\<lparr>baseObject := fst (setBaseObject cxt (root cxt) 0)\<rparr>, found1))

         | jpiCurrent nx \<Rightarrow>
             (case stack cxt of
                [] \<Rightarrow> Inl null_pointer
              | item # parent \<Rightarrow> executeNextItem env cxt (Some jsp) None item found True)

         | jpiAnyArray nx \<Rightarrow>
             if JsonbType jb = jsiArray then
               executeItemUnwrapTargetArray env cxt (jspGetNext jsp) jb found
                 (jspAutoUnwrap cxt)
             else if jspAutoWrap cxt then
               executeNextItem env cxt (Some jsp) None jb found True
             else if \<not> jspIgnoreStructuralErrors cxt then
               RETURN_ERROR cxt found err_wildcard_array_accessor_not_array
             else Inr (jperNotFound, cxt, found)

         | jpiIndexArray subs nx \<Rightarrow>
             if JsonbType jb = jsiArray \<or> jspAutoWrap cxt then
               (let singleton = (JsonbArraySize jb < 0);
                    asize = (if singleton then 1 else JsonbArraySize jb)
                in case executeIndexArray_loop env (cxt\<lparr>innermostArraySize := asize\<rparr>) jsp jb
                          found asize singleton 0 jperNotFound of
                     Inl e \<Rightarrow> Inl e
                   | Inr (True, st) \<Rightarrow> Inr st
                   | Inr (False, res, cxt1, found1) \<Rightarrow>
                       Inr (res, cxt1\<lparr>innermostArraySize := innermostArraySize cxt\<rparr>, found1))
             else if \<not> jspIgnoreStructuralErrors cxt then
               RETURN_ERROR cxt found err_array_accessor_not_array
             else Inr (jperNotFound, cxt, found)

         | jpiLast nx \<Rightarrow>
             if innermostArraySize cxt < 0 then
               Inl err_last_outside_subscript
             else if jspGetNext jsp = None \<and> found = None then Inr (jperOk, cxt, found)
             else
               executeNextItem env cxt (Some jsp) (jspGetNext jsp)
                 (Jbv (jbvNumeric (int4_numeric (innermostArraySize cxt - 1)))) found
                 (jspGetNext jsp \<noteq> None)

         | jpiAnyKey nx \<Rightarrow>
             if JsonbType jb = jsiObject then
               (case JsonItemBinaryData jb of
                  None \<Rightarrow> Inl err_invalid_object_type
                | Some c \<Rightarrow>
                    executeAnyItem env cxt (jspGetNext jsp) c found 1 1 1 False
                      (jspAutoUnwrap cxt))
             else if unwrap \<and> JsonbType jb = jsiArray then
               executeItemUnwrapTargetArray env cxt (Some jsp) jb found False
             else if \<not> jspIgnoreStructuralErrors cxt then
               RETURN_ERROR cxt found err_wildcard_member_accessor_not_object
             else Inr (jperNotFound, cxt, found)

         | jpiAdd l r nx \<Rightarrow>
             executeBinaryArithmExpr env cxt jsp jb (numeric_add_opt_error env) found
         | jpiSub l r nx \<Rightarrow>
             executeBinaryArithmExpr env cxt jsp jb (numeric_sub_opt_error env) found
         | jpiMul l r nx \<Rightarrow>
             executeBinaryArithmExpr env cxt jsp jb (numeric_mul_opt_error env) found
         | jpiDiv l r nx \<Rightarrow>
             executeBinaryArithmExpr env cxt jsp jb (numeric_div_opt_error env) found
         | jpiMod l r nx \<Rightarrow>
             executeBinaryArithmExpr env cxt jsp jb (numeric_mod_opt_error env) found
         | jpiPlus a nx \<Rightarrow> executeUnaryArithmExpr env cxt jsp jb None found
         | jpiMinus a nx \<Rightarrow> executeUnaryArithmExpr env cxt jsp jb (Some numeric_uminus) found

         | jpiFilter a nx \<Rightarrow>
             if unwrap \<and> JsonbType jb = jsiArray then
               executeItemUnwrapTargetArray env cxt (Some jsp) jb found False
             else
               (case executeNestedBoolItem env cxt a jb of
                  Inl e \<Rightarrow> Inl e
                | Inr (st, cxt1) \<Rightarrow>
                    if st \<noteq> jpbTrue then Inr (jperNotFound, cxt1, found)
                    else executeNextItem env cxt1 (Some jsp) None jb found True)

         | jpiAny first lastLevel nx \<Rightarrow>
             (case (if first = 0 then
                      \<comment> \<open>first try without any intermediate steps\<close>
                      (case executeNextItem env (cxt\<lparr>ignoreStructuralErrors := True\<rparr>)
                              (Some jsp) (jspGetNext jsp) jb found True of
                         Inl e \<Rightarrow> Inl e
                       | Inr (res, cxt1, found1) \<Rightarrow>
                           Inr (res,
                                cxt1\<lparr>ignoreStructuralErrors := ignoreStructuralErrors cxt\<rparr>,
                                found1))
                    else Inr (jperNotFound, cxt, found)) of
                Inl e \<Rightarrow> Inl e
              | Inr (res, cxt1, found1) \<Rightarrow>
                  if first = 0 \<and> res = jperOk \<and> found = None then Inr (res, cxt1, found1)
                  else
                    (case JsonItemBinaryData jb of
                       Some c \<Rightarrow>
                         executeAnyItem env cxt1 (jspGetNext jsp) c found1 1 first lastLevel True
                           (jspAutoUnwrap cxt1)
                     | None \<Rightarrow> Inr (res, cxt1, found1)))

         | jpiType nx \<Rightarrow>
             (case JsonItemTypeName jb of
                Inl e \<Rightarrow> Inl e
              | Inr name \<Rightarrow>
                  executeNextItem env cxt (Some jsp) None (Jbv (jbvString name)) found True)

         | jpiSize nx \<Rightarrow>
             if JsonbArraySize jb < 0 then
               (if \<not> jspAutoWrap cxt then
                  (if \<not> jspIgnoreStructuralErrors cxt then
                     RETURN_ERROR cxt found err_method_not_array
                   else Inr (jperNotFound, cxt, found))
                else
                  executeNextItem env cxt (Some jsp) None
                    (Jbv (jbvNumeric (int4_numeric 1))) found False)
             else
               executeNextItem env cxt (Some jsp) None
                 (Jbv (jbvNumeric (int4_numeric (JsonbArraySize jb)))) found False

         | jpiAbs nx \<Rightarrow> executeNumericItemMethod env cxt jsp jb unwrap numeric_abs found
         | jpiFloor nx \<Rightarrow> executeNumericItemMethod env cxt jsp jb unwrap numeric_floor found
         | jpiCeiling nx \<Rightarrow> executeNumericItemMethod env cxt jsp jb unwrap numeric_ceil found

         | jpiDouble nx \<Rightarrow>
             if unwrap \<and> JsonbType jb = jsiArray then
               executeItemUnwrapTargetArray env cxt (Some jsp) jb found False
             else
               (case jb of
                  Jbv (jbvNumeric n) \<Rightarrow>
                    (case float8in_internal_opt_error env (numeric_out env n) of
                       None \<Rightarrow>
                         RETURN_ERROR cxt found err_method_not_numeric
                     | Some val \<Rightarrow> executeNextItem env cxt (Some jsp) None jb found True)
                | Jbv (jbvString s) \<Rightarrow>
                    (case float8in_internal_opt_error env s of
                       None \<Rightarrow>
                         RETURN_ERROR cxt found err_method_not_numeric
                     | Some val \<Rightarrow>
                         if isinf env val then
                           RETURN_ERROR cxt found err_method_not_numeric
                         else
                           executeNextItem env cxt (Some jsp) None
                             (Jbv (jbvNumeric (float8_numeric env val))) found True)
                | _ \<Rightarrow>
                    RETURN_ERROR cxt found err_method_not_string_or_numeric)

         | jpiDatetime left right nx \<Rightarrow>
             if unwrap \<and> JsonbType jb = jsiArray then
               executeItemUnwrapTargetArray env cxt (Some jsp) jb found False
             else
               (case getScalar jb jsiString of
                  Some (Jbv (jbvString datetime)) \<Rightarrow>
                    (case executeDatetime_template left of
                       Inl e \<Rightarrow> Inl e
                     | Inr template \<Rightarrow>
                         (case (case (if template = None then None else right) of
                                  None \<Rightarrow> Inr (Inr (None, PG_INT32_MIN), cxt)
                                | Some relem \<Rightarrow>
                                    (case executeItem env cxt relem jb (Some []) of
                                       Inl e \<Rightarrow> Inl e
                                     | Inr (tzres, cxt1, tzlist) \<Rightarrow>
                                         if jperIsError tzres
                                         then Inr (Inl (tzres, cxt1, found), cxt1)
                                         else
                                           (case executeDatetime_tz cxt1 found
                                                   (JsonValueListOf tzlist) of
                                              Inl e \<Rightarrow> Inl e
                                            | Inr r \<Rightarrow> Inr (r, cxt1)))) of
                            Inl e \<Rightarrow> Inl e
                          | Inr (Inl st, cxt1) \<Rightarrow> Inr st
                          | Inr (Inr (tzname, tz), cxt1) \<Rightarrow>
                              (case executeDatetime_parse env cxt1 found template datetime
                                      tzname tz of
                                 Inl e \<Rightarrow> Inl e
                               | Inr (Inl st) \<Rightarrow> Inr st
                               | Inr (Inr (val, typid, typmod, tz1)) \<Rightarrow>
                                   if jspGetNext jsp = None \<and> found = None
                                   then Inr (jperOk, cxt1, found)
                                   else
                                     executeNextItem env cxt1 (Some jsp) (jspGetNext jsp)
                                       (Datetime val typid typmod tz1) found
                                       (jspGetNext jsp \<noteq> None))))
                | _ \<Rightarrow>
                    RETURN_ERROR cxt found err_method_not_string)

         | jpiKeyValue nx \<Rightarrow>
             if unwrap \<and> JsonbType jb = jsiArray then
               executeItemUnwrapTargetArray env cxt (Some jsp) jb found False
             else executeKeyValueMethod env cxt jsp jb found

         | _ \<Rightarrow> Inl err_unrecognized_item_type))"
  by (simp only: executeItem_def executeItemOptUnwrapTarget_def executeIndexArray_loop_def 
        executeItemUnwrapTargetArray_def executeNextItem_def executeBoolItem_def 
        executeNestedBoolItem_def executeAnyItem_def executeBinaryArithmExpr_def 
        executeUnaryArithmExpr_def executeNumericItemMethod_def executeKeyValueMethod_def 
        appendBoolResult_def
        execute.simps(2)[of env cxt jsp jb found unwrap] asState_retState)

text \<open>The loop over the subscripts of \<^verbatim>\<open>[subscript, ...]\<close>,
  from subscript \<open>i\<close> on.\<close>

lemma executeIndexArray_loop_eq:
  fixes env :: "('d, 'f) extern"
  shows "executeIndexArray_loop env cxt jsp jb found asize singleton i res =
     (if i < jsp_nelems jsp then
        (case jspGetArraySubscript jsp i of
           None \<Rightarrow> Inl null_pointer
         | Some (fromItem, toItem) \<Rightarrow>
             (case getArrayIndex env cxt fromItem jb of
                Inl e \<Rightarrow> Inl e
              | Inr (res1, index_from, cxt1) \<Rightarrow>
                  if jperIsError res1 then Inr (False, res1, cxt1, found)
                  else
                    (case (case toItem of
                             Some t \<Rightarrow> getArrayIndex env cxt1 t jb
                           | None \<Rightarrow> Inr (res1, index_from, cxt1)) of
                       Inl e \<Rightarrow> Inl e
                     | Inr (res2, index_to, cxt2) \<Rightarrow>
                         if jperIsError res2 then Inr (False, res2, cxt2, found)
                         else if \<not> jspIgnoreStructuralErrors cxt2 \<and>
                                 (index_from < 0 \<or> index_from > index_to \<or> index_to \<ge> asize)
                         then
                           (case RETURN_ERROR cxt2 found err_subscript_out_of_bounds of
                              Inl e \<Rightarrow> Inl e
                            | Inr st \<Rightarrow> Inr (True, st))
                         else
                           (case executeIndexArray_range env cxt2 jsp jb found singleton
                                   (if index_from < 0 then 0 else index_from)
                                   (if index_to \<ge> asize then asize - 1 else index_to)
                                   jperNotFound of
                              Inl e \<Rightarrow> Inl e
                            | Inr (True, st) \<Rightarrow> Inr (True, st)
                            | Inr (False, res3, cxt3, found3) \<Rightarrow>
                                if jperIsError res3 then Inr (False, res3, cxt3, found3)
                                else if res3 = jperOk \<and> found = None
                                then Inr (False, res3, cxt3, found3)
                                else
                                  executeIndexArray_loop env cxt3 jsp jb found3 asize singleton
                                    (Suc i) res3))))
      else Inr (False, res, cxt, found))"
  by (simp only: executeIndexArray_loop_def executeIndexArray_range_def getArrayIndex_def
        execute.simps(3)[of env cxt jsp jb found asize singleton i res] asLoop_retLoop)

text \<open>The loop over the indices \<open>index..index_to\<close> of one subscript.\<close>

lemma executeIndexArray_range_eq:
  fixes env :: "('d, 'f) extern"
  shows "executeIndexArray_range env cxt jsp jb found singleton index index_to res =
     (if index \<le> index_to then
        (case (if singleton then Some (jb, True)
               else
                 (case JsonItemBinaryData jb of
                    None \<Rightarrow> None
                  | Some c \<Rightarrow>
                      (case getIthJsonbValueFromContainer c index of
                         None \<Rightarrow> None
                       | Some v \<Rightarrow> Some (Jbv v, False)))) of
           None \<Rightarrow>
             executeIndexArray_range env cxt jsp jb found singleton (index + 1) index_to res
         | Some (jsi, copy) \<Rightarrow>
             if jspGetNext jsp = None \<and> found = None then Inr (True, jperOk, cxt, found)
             else
               (case executeNextItem env cxt (Some jsp) (jspGetNext jsp) jsi found copy of
                  Inl e \<Rightarrow> Inl e
                | Inr (res1, cxt1, found1) \<Rightarrow>
                    if jperIsError res1 then Inr (False, res1, cxt1, found1)
                    else if res1 = jperOk \<and> found = None then Inr (False, res1, cxt1, found1)
                    else
                      executeIndexArray_range env cxt1 jsp jb found1 singleton (index + 1)
                        index_to res1))
      else Inr (False, res, cxt, found))"
  by (simp only: executeIndexArray_range_def executeNextItem_def
        execute.simps(4)[of env cxt jsp jb found singleton index index_to res] asLoop_retLoop)

text \<open>Unwrap current array item and execute jsonpath for each of its elements.\<close>

lemma executeItemUnwrapTargetArray_eq:
  fixes env :: "('d, 'f) extern"
  shows "executeItemUnwrapTargetArray env cxt jsp jb found unwrapElements =
     (case JsonItemBinaryData jb of
        None \<Rightarrow> Inl err_invalid_array_type
      | Some c \<Rightarrow> executeAnyItem env cxt jsp c found 1 1 1 False unwrapElements)"
  by (simp only: executeItemUnwrapTargetArray_def executeAnyItem_def
        execute.simps(5)[of env cxt jsp jb found unwrapElements] asState_retState)

text \<open>Execute next jsonpath item if exists. Otherwise put \<open>v\<close> to the
  \<open>found\<close> list if provided.\<close>

lemma executeNextItem_eq:
  fixes env :: "('d, 'f) extern"
  shows "executeNextItem env cxt cur next v found copy =
     (case cur of
        None \<Rightarrow>
          (case next of
             Some n \<Rightarrow> executeItem env cxt n v found
           | None \<Rightarrow> Inr (jperOk, cxt, appendFound found v copy))
      | Some c \<Rightarrow>
          (case next of
             Some n \<Rightarrow>
               if jspHasNext c then executeItem env cxt n v found
               else Inr (jperOk, cxt, appendFound found v copy)
           | None \<Rightarrow>
               (case jspGetNext c of
                  Some n \<Rightarrow> executeItem env cxt n v found
                | None \<Rightarrow> Inr (jperOk, cxt, appendFound found v copy))))"
  by (simp only: executeItem_def executeNextItem_def
        execute.simps(6)[of env cxt cur "next" v found copy] asState_retState)

text \<open>Same as \<open>executeItem\<close>, but when \<open>unwrap\<close> is true
  automatically unwraps each array item from the resulting sequence in lax mode.\<close>

lemma executeItemOptUnwrapResult_eq:
  fixes env :: "('d, 'f) extern"
  shows "executeItemOptUnwrapResult env cxt jsp jb unwrap found =
     (if unwrap \<and> jspAutoUnwrap cxt then
        (case executeItem env cxt jsp jb (Some []) of
           Inl e \<Rightarrow> Inl e
         | Inr (res, cxt1, seq) \<Rightarrow>
             if jperIsError res then Inr (res, cxt1, found)
             else executeItemOptUnwrapResult_loop env cxt1 (JsonValueListOf seq) found)
      else executeItem env cxt jsp jb found)"
  by (simp only: executeItem_def executeItemOptUnwrapResult_def executeItemOptUnwrapResult_loop_def
        execute.simps(7)[of env cxt jsp jb unwrap found] asState_retState)

lemma executeItemOptUnwrapResult_loop_eq:
  fixes env :: "('d, 'f) extern"
  shows "executeItemOptUnwrapResult_loop env cxt items found =
     (case items of
        [] \<Rightarrow> Inr (jperOk, cxt, found)
      | item # rest \<Rightarrow>
          if JsonbType item = jsiArray then
            (case executeItemUnwrapTargetArray env cxt None item found False of
               Inl e \<Rightarrow> Inl e
             | Inr (res, cxt1, found1) \<Rightarrow>
                 executeItemOptUnwrapResult_loop env cxt1 rest found1)
          else
            (case found of
               None \<Rightarrow> Inl null_pointer
             | Some jvl \<Rightarrow>
                 executeItemOptUnwrapResult_loop env cxt rest
                   (Some (JsonValueListAppend jvl item))))"
  by (simp only: executeItemUnwrapTargetArray_def executeItemOptUnwrapResult_loop_def
        execute.simps(8)[of env cxt items found] asState_retState)

text \<open>Same as \<open>executeItemOptUnwrapResult\<close>, but with error suppression.\<close>

lemma executeItemOptUnwrapResultNoThrow_eq:
  fixes env :: "('d, 'f) extern"
  shows "executeItemOptUnwrapResultNoThrow env cxt jsp jb unwrap found =
     (case executeItemOptUnwrapResult env (cxt\<lparr>throwErrors := False\<rparr>) jsp jb unwrap found of
        Inl e \<Rightarrow> Inl e
      | Inr (res, cxt1, found1) \<Rightarrow> Inr (res, cxt1\<lparr>throwErrors := throwErrors cxt\<rparr>, found1))"
  by (simp only: executeItemOptUnwrapResult_def executeItemOptUnwrapResultNoThrow_def
        execute.simps(9)[of env cxt jsp jb unwrap found] asState_retState)

text \<open>Execute boolean-valued jsonpath expression.\<close>

lemma executeBoolItem_eq:
  fixes env :: "('d, 'f) extern"
  shows "executeBoolItem env cxt jsp jb canHaveNext =
     (if \<not> canHaveNext \<and> jspHasNext jsp then
        Inl err_bool_item_has_next
      else
        (case jsp of
           jpiAnd larg rarg nx \<Rightarrow>
             (case executeBoolItem env cxt larg jb False of
                Inl e \<Rightarrow> Inl e
              | Inr (res, cxt1) \<Rightarrow>
                  if res = jpbFalse then Inr (jpbFalse, cxt1)
                  else
                    \<comment> \<open>SQL/JSON says that we should check second arg in case of jperError\<close>
                    (case executeBoolItem env cxt1 rarg jb False of
                       Inl e \<Rightarrow> Inl e
                     | Inr (res2, cxt2) \<Rightarrow> Inr (if res2 = jpbTrue then res else res2, cxt2)))

         | jpiOr larg rarg nx \<Rightarrow>
             (case executeBoolItem env cxt larg jb False of
                Inl e \<Rightarrow> Inl e
              | Inr (res, cxt1) \<Rightarrow>
                  if res = jpbTrue then Inr (jpbTrue, cxt1)
                  else
                    (case executeBoolItem env cxt1 rarg jb False of
                       Inl e \<Rightarrow> Inl e
                     | Inr (res2, cxt2) \<Rightarrow> Inr (if res2 = jpbFalse then res else res2, cxt2)))

         | jpiNot larg nx \<Rightarrow>
             (case executeBoolItem env cxt larg jb False of
                Inl e \<Rightarrow> Inl e
              | Inr (res, cxt1) \<Rightarrow>
                  if res = jpbUnknown then Inr (jpbUnknown, cxt1)
                  else Inr (if res = jpbTrue then jpbFalse else jpbTrue, cxt1))

         | jpiIsUnknown larg nx \<Rightarrow>
             (case executeBoolItem env cxt larg jb False of
                Inl e \<Rightarrow> Inl e
              | Inr (res, cxt1) \<Rightarrow> Inr (if res = jpbUnknown then jpbTrue else jpbFalse, cxt1))

         | jpiEqual larg rarg nx \<Rightarrow>
             executePredicate env cxt jsp larg (Some rarg) jb True (executeComparison env) None
         | jpiNotEqual larg rarg nx \<Rightarrow>
             executePredicate env cxt jsp larg (Some rarg) jb True (executeComparison env) None
         | jpiLess larg rarg nx \<Rightarrow>
             executePredicate env cxt jsp larg (Some rarg) jb True (executeComparison env) None
         | jpiGreater larg rarg nx \<Rightarrow>
             executePredicate env cxt jsp larg (Some rarg) jb True (executeComparison env) None
         | jpiLessOrEqual larg rarg nx \<Rightarrow>
             executePredicate env cxt jsp larg (Some rarg) jb True (executeComparison env) None
         | jpiGreaterOrEqual larg rarg nx \<Rightarrow>
             executePredicate env cxt jsp larg (Some rarg) jb True (executeComparison env) None

         | jpiStartsWith larg rarg nx \<Rightarrow>
             executePredicate env cxt jsp larg (Some rarg) jb False executeStartsWith None

         | jpiLikeRegex expr pattern flags nx \<Rightarrow>
             executePredicate env cxt jsp expr None jb False (executeLikeRegex env)
               (Some \<lparr>regex = None, cflags = 0\<rparr>)

         | jpiExists larg nx \<Rightarrow>
             if jspStrictAbsenseOfErrors cxt then
               \<comment> \<open>In strict mode we must get a complete list of values to check that there
                   are no errors at all.\<close>
               (case executeItemOptUnwrapResultNoThrow env cxt larg jb False (Some []) of
                  Inl e \<Rightarrow> Inl e
                | Inr (res, cxt1, vals) \<Rightarrow>
                    if jperIsError res then Inr (jpbUnknown, cxt1)
                    else Inr (if JsonValueListIsEmpty (JsonValueListOf vals)
                              then jpbFalse else jpbTrue, cxt1))
             else
               (case executeItemOptUnwrapResultNoThrow env cxt larg jb False None of
                  Inl e \<Rightarrow> Inl e
                | Inr (res, cxt1, vals) \<Rightarrow>
                    if jperIsError res then Inr (jpbUnknown, cxt1)
                    else Inr (if res = jperOk then jpbTrue else jpbFalse, cxt1))

         | _ \<Rightarrow> Inl err_invalid_bool_item_type))"
  by (simp only: executeItemOptUnwrapResultNoThrow_def executeBoolItem_def executePredicate_def
        execute.simps(10)[of env cxt jsp jb canHaveNext] asBool_retBool)

text \<open>Execute nested (filters etc.) boolean expression pushing current SQL/JSON item
  onto the stack.\<close>

lemma executeNestedBoolItem_eq:
  fixes env :: "('d, 'f) extern"
  shows "executeNestedBoolItem env cxt jsp jb =
     (case executeBoolItem env (cxt\<lparr>stack := pushJsonItem (stack cxt) jb\<rparr>) jsp jb False of
        Inl e \<Rightarrow> Inl e
      | Inr (res, cxt1) \<Rightarrow> Inr (res, cxt1\<lparr>stack := popJsonItem (stack cxt1)\<rparr>))"
  by (simp only: executeBoolItem_def executeNestedBoolItem_def
        execute.simps(11)[of env cxt jsp jb] asBool_retBool)

text \<open>Implementation of several jsonpath nodes: \<^verbatim>\<open>.**\<close>,
  \<^verbatim>\<open>.*\<close> and \<^verbatim>\<open>[*]\<close>.\<close>

lemma executeAnyItem_eq:
  fixes env :: "('d, 'f) extern"
  shows "executeAnyItem env cxt jsp c found level first lastLevel ignoreStructuralErrs unwrapNext =
     (if level > lastLevel then Inr (jperNotFound, cxt, found)
      else
        executeAnyItem_loop env cxt jsp (JsonContainerValues c) found level first lastLevel
          ignoreStructuralErrs unwrapNext jperNotFound)"
  by (simp only: executeAnyItem_def executeAnyItem_loop_def
        execute.simps(12)[of env cxt jsp c found level first lastLevel ignoreStructuralErrs unwrapNext] asState_retState)

lemma executeAnyItem_loop_eq:
  fixes env :: "('d, 'f) extern"
  shows "executeAnyItem_loop env cxt jsp vs found level first lastLevel ignoreStructuralErrs unwrapNext res =
     (case vs of
        [] \<Rightarrow> Inr (res, cxt, found)
      | v # rest \<Rightarrow>
          (case (if level \<ge> first \<or>
                    (first = PG_UINT32_MAX \<and> lastLevel = PG_UINT32_MAX \<and>
                     JsonItemGetType (Jbv v :: 'd JsonItem) \<noteq> jsiBinary)
                 then
                   \<comment> \<open>check expression\<close>
                   (case jsp of
                      Some j \<Rightarrow>
                        (case executeItemOptUnwrapTarget env
                                (if ignoreStructuralErrs
                                 then cxt\<lparr>ignoreStructuralErrors := True\<rparr> else cxt)
                                j (Jbv v) found unwrapNext of
                           Inl e \<Rightarrow> Inl e
                         | Inr (res1, cxt1, found1) \<Rightarrow>
                             Inr (jperIsError res1 \<or> (res1 = jperOk \<and> found = None),
                                  res1,
                                  (if ignoreStructuralErrs
                                   then cxt1\<lparr>ignoreStructuralErrors :=
                                               ignoreStructuralErrors cxt\<rparr>
                                   else cxt1),
                                  found1))
                    | None \<Rightarrow>
                        (case found of
                           Some jvl \<Rightarrow>
                             Inr (False, res, cxt,
                                  Some (JsonValueListAppend jvl (copyJsonItem (Jbv v))))
                         | None \<Rightarrow> Inr (True, jperOk, cxt, found)))
                 else Inr (False, res, cxt, found)) of
             Inl e \<Rightarrow> Inl e
           | Inr (True, st) \<Rightarrow> Inr st
           | Inr (False, res1, cxt1, found1) \<Rightarrow>
               (case (if level < lastLevel then JsonItemBinaryData (Jbv v :: 'd JsonItem)
                      else None) of
                  Some c \<Rightarrow>
                    (case executeAnyItem env cxt1 jsp c found1 (level + 1) first lastLevel
                            ignoreStructuralErrs unwrapNext of
                       Inl e \<Rightarrow> Inl e
                     | Inr (res2, cxt2, found2) \<Rightarrow>
                         if jperIsError res2 then Inr (res2, cxt2, found2)
                         else if res2 = jperOk \<and> found = None then Inr (res2, cxt2, found2)
                         else
                           executeAnyItem_loop env cxt2 jsp rest found2 level first lastLevel
                             ignoreStructuralErrs unwrapNext res2)
                | None \<Rightarrow>
                    executeAnyItem_loop env cxt1 jsp rest found1 level first lastLevel
                      ignoreStructuralErrs unwrapNext res1)))"
  by (simp only: executeItemOptUnwrapTarget_def executeAnyItem_def executeAnyItem_loop_def
        execute.simps(13)[of env cxt jsp vs found level first lastLevel ignoreStructuralErrs unwrapNext res] asState_retState)

text \<open>Execute unary or binary predicate. Predicates have existence semantics, because
  their operands are item sequences. Pairs of items from the left and right operand's
  sequences are checked.\<close>

lemma executePredicate_eq:
  fixes env :: "('d, 'f) extern"
  shows "executePredicate env cxt pred larg rarg jb unwrapRightArg exec param =
     \<comment> \<open>Left argument is always auto-unwrapped.\<close>
     (case executeItemOptUnwrapResultNoThrow env cxt larg jb True (Some []) of
        Inl e \<Rightarrow> Inl e
      | Inr (res, cxt1, lseq) \<Rightarrow>
          if jperIsError res then Inr (jpbUnknown, cxt1)
          else
            (case rarg of
               None \<Rightarrow>
                 (case executePredicate_pairs (jspStrictAbsenseOfErrors cxt1) exec pred
                         (JsonValueListOf lseq) None param of
                    Inl e \<Rightarrow> Inl e
                  | Inr r \<Rightarrow> Inr (r, cxt1))
             | Some ra \<Rightarrow>
                 \<comment> \<open>Right argument is conditionally auto-unwrapped.\<close>
                 (case executeItemOptUnwrapResultNoThrow env cxt1 ra jb unwrapRightArg
                         (Some []) of
                    Inl e \<Rightarrow> Inl e
                  | Inr (res2, cxt2, rseq) \<Rightarrow>
                      if jperIsError res2 then Inr (jpbUnknown, cxt2)
                      else
                        (case executePredicate_pairs (jspStrictAbsenseOfErrors cxt2) exec pred
                                (JsonValueListOf lseq) (Some (JsonValueListOf rseq)) param of
                           Inl e \<Rightarrow> Inl e
                         | Inr r \<Rightarrow> Inr (r, cxt2)))))"
  by (simp only: executeItemOptUnwrapResultNoThrow_def executePredicate_def
        execute.simps(14)[of env cxt pred larg rarg jb unwrapRightArg exec param] asBool_retBool)

text \<open>Execute binary arithmetic expression on singleton numeric operands. Array
  operands are automatically unwrapped in lax mode.\<close>

lemma executeBinaryArithmExpr_eq:
  fixes env :: "('d, 'f) extern"
  shows "executeBinaryArithmExpr env cxt jsp jb func found =
     (case jspGetLeftArg jsp of
        None \<Rightarrow> Inl null_pointer
      | Some larg \<Rightarrow>
          (case executeItemOptUnwrapResult env cxt larg jb True (Some []) of
             Inl e \<Rightarrow> Inl e
           | Inr (jper, cxt1, lseq) \<Rightarrow>
               if jperIsError jper then Inr (jper, cxt1, found)
               else
                 (case jspGetRightArg jsp of
                    None \<Rightarrow> Inl null_pointer
                  | Some rarg \<Rightarrow>
                      (case executeItemOptUnwrapResult env cxt1 rarg jb True (Some []) of
                         Inl e \<Rightarrow> Inl e
                       | Inr (jper2, cxt2, rseq) \<Rightarrow>
                           if jperIsError jper2 then Inr (jper2, cxt2, found)
                           else
                             (case singletonNumeric (JsonValueListOf lseq) of
                                None \<Rightarrow>
                                  RETURN_ERROR cxt2 found err_left_operand_not_singleton
                              | Some lval \<Rightarrow>
                                  (case singletonNumeric (JsonValueListOf rseq) of
                                     None \<Rightarrow>
                                       RETURN_ERROR cxt2 found err_right_operand_not_singleton
                                   | Some rval \<Rightarrow>
                                       (case func lval rval of
                                          Inl e \<Rightarrow>
                                            if jspThrowErrors cxt2 then Inl e
                                            else Inr (jperError, cxt2, found)
                                        | Inr res \<Rightarrow>
                                            if jspGetNext jsp = None \<and> found = None
                                            then Inr (jperOk, cxt2, found)
                                            else
                                              executeNextItem env cxt2 (Some jsp)
                                                (jspGetNext jsp) (Jbv (jbvNumeric res)) found
                                                False)))))))"
  by (simp only: executeNextItem_def executeItemOptUnwrapResult_def executeBinaryArithmExpr_def
        execute.simps(15)[of env cxt jsp jb func found] asState_retState)

text \<open>Execute unary arithmetic expression for each numeric item in its operand's
  sequence. Array operand is automatically unwrapped in lax mode.\<close>

lemma executeUnaryArithmExpr_eq:
  fixes env :: "('d, 'f) extern"
  shows "executeUnaryArithmExpr env cxt jsp jb func found =
     (case jspGetArg jsp of
        None \<Rightarrow> Inl null_pointer
      | Some elem \<Rightarrow>
          (case executeItemOptUnwrapResult env cxt elem jb True (Some []) of
             Inl e \<Rightarrow> Inl e
           | Inr (jper, cxt1, seq) \<Rightarrow>
               if jperIsError jper then Inr (jper, cxt1, found)
               else
                 executeUnaryArithmExpr_loop env cxt1 jsp (JsonValueListOf seq) func found
                   jperNotFound))"
  by (simp only: executeItemOptUnwrapResult_def executeUnaryArithmExpr_def 
        executeUnaryArithmExpr_loop_def
        execute.simps(16)[of env cxt jsp jb func found] asState_retState)

lemma executeUnaryArithmExpr_loop_eq:
  fixes env :: "('d, 'f) extern"
  shows "executeUnaryArithmExpr_loop env cxt jsp vals func found jper =
     (case vals of
        [] \<Rightarrow> Inr (jper, cxt, found)
      | val # rest \<Rightarrow>
          (case getScalarNumeric val of
             Some n \<Rightarrow>
               if found = None \<and> jspGetNext jsp = None then Inr (jperOk, cxt, found)
               else
                 (case executeNextItem env cxt (Some jsp) (jspGetNext jsp)
                         (Jbv (jbvNumeric (case func of None \<Rightarrow> n | Some f \<Rightarrow> f n)))
                         found False of
                    Inl e \<Rightarrow> Inl e
                  | Inr (jper2, cxt1, found1) \<Rightarrow>
                      if jperIsError jper2 then Inr (jper2, cxt1, found1)
                      else if jper2 = jperOk then
                        (if found = None then Inr (jperOk, cxt1, found1)
                         else
                           executeUnaryArithmExpr_loop env cxt1 jsp rest func found1 jperOk)
                      else executeUnaryArithmExpr_loop env cxt1 jsp rest func found1 jper)
           | None \<Rightarrow>
               if found = None \<and> jspGetNext jsp = None then
                 \<comment> \<open>skip non-numerics processing\<close>
                 executeUnaryArithmExpr_loop env cxt jsp rest func found jper
               else
                 RETURN_ERROR cxt found err_unary_operand_not_numeric))"
  by (simp only: executeNextItem_def executeUnaryArithmExpr_loop_def
        execute.simps(17)[of env cxt jsp vals func found jper] asState_retState)

text \<open>Execute numeric item methods (\<^verbatim>\<open>.abs()\<close>,
  \<^verbatim>\<open>.floor()\<close>, \<^verbatim>\<open>.ceil()\<close>) using the
  specified function \<open>func\<close>.\<close>

lemma executeNumericItemMethod_eq:
  fixes env :: "('d, 'f) extern"
  shows "executeNumericItemMethod env cxt jsp jb unwrap func found =
     (if unwrap \<and> JsonbType jb = jsiArray then
        executeItemUnwrapTargetArray env cxt (Some jsp) jb found False
      else
        (case getScalarNumeric jb of
           Some n \<Rightarrow>
             if jspGetNext jsp = None \<and> found = None then Inr (jperOk, cxt, found)
             else
               executeNextItem env cxt (Some jsp) (jspGetNext jsp) (Jbv (jbvNumeric (func n)))
                 found False
         | None \<Rightarrow> RETURN_ERROR cxt found err_method_not_numeric))"
  by (simp only: executeItemUnwrapTargetArray_def executeNextItem_def executeNumericItemMethod_def
        execute.simps(18)[of env cxt jsp jb unwrap func found] asState_retState)

text \<open>Implementation of the \<^verbatim>\<open>.keyvalue()\<close> method: a sequence
  of the object's key-value pairs in the format \<^verbatim>\<open>{ "key": key, "value":
  value, "id": id }\<close>.\<close>

lemma executeKeyValueMethod_eq:
  fixes env :: "('d, 'f) extern"
  shows "executeKeyValueMethod env cxt jsp jb found =
     (case (if JsonbType jb \<noteq> jsiObject then None else JsonItemBinaryData jb) of
        None \<Rightarrow>
          RETURN_ERROR cxt found err_method_not_object
      | Some c \<Rightarrow>
          if JsonContainerSize c = 0 then Inr (jperNotFound, cxt, found)
          else
            executeKeyValueMethod_loop env cxt jsp (JsonContainerPairs c)
              (jbvNumeric (int8_numeric (keyvalue_id cxt c))) found jperNotFound)"
  by (simp only: executeKeyValueMethod_def executeKeyValueMethod_loop_def
        execute.simps(19)[of env cxt jsp jb found] asState_retState)

text \<open>The loop over the keys of the object; \<open>idval\<close> was computed before
  the loop.\<close>

lemma executeKeyValueMethod_loop_eq:
  fixes env :: "('d, 'f) extern"
  shows "executeKeyValueMethod_loop env cxt jsp pairs idval found res =
     (case pairs of
        [] \<Rightarrow> Inr (res, cxt, found)
      | (key, val) # rest \<Rightarrow>
          if jspGetNext jsp = None \<and> found = None then Inr (jperOk, cxt, found)
          else
            (case executeNextItem env
                    (snd (setBaseObject (cxt\<lparr>lastGeneratedObjectId :=
                                                lastGeneratedObjectId cxt + 1\<rparr>)
                            (Jbv (JsonbInitBinary (JsonbValueToJsonb env
                               (keyvalue_object key val idval))))
                            (lastGeneratedObjectId cxt)))
                    (Some jsp) (jspGetNext jsp)
                    (Jbv (JsonbInitBinary (JsonbValueToJsonb env
                       (keyvalue_object key val idval))))
                    found True of
               Inl e \<Rightarrow> Inl e
             | Inr (res1, cxt1, found1) \<Rightarrow>
                 if jperIsError res1
                 then Inr (res1, cxt1\<lparr>baseObject := baseObject cxt\<rparr>, found1)
                 else if res1 = jperOk \<and> found = None
                 then Inr (res1, cxt1\<lparr>baseObject := baseObject cxt\<rparr>, found1)
                 else
                   executeKeyValueMethod_loop env (cxt1\<lparr>baseObject := baseObject cxt\<rparr>) jsp
                     rest idval found1 res1))"
  by (simp only: executeNextItem_def executeKeyValueMethod_loop_def
        execute.simps(20)[of env cxt jsp pairs idval found res] asState_retState)

text \<open>Convert boolean execution status \<open>res\<close> to a boolean JSON item and
  execute next jsonpath.\<close>

lemma appendBoolResult_eq:
  fixes env :: "('d, 'f) extern"
  shows "appendBoolResult env cxt jsp found res =
     (if jspGetNext jsp = None \<and> found = None then Inr (jperOk, cxt, found)
      else
        executeNextItem env cxt (Some jsp) (jspGetNext jsp)
          (if res = jpbUnknown then Jbv jbvNull else Jbv (jbvBool (res = jpbTrue)))
          found True)"
  by (simp only: executeNextItem_def appendBoolResult_def
        execute.simps(21)[of env cxt jsp found res] asState_retState)

text \<open>Execute array subscript expression and convert resulting numeric item to the
  integer type with truncation.\<close>

lemma getArrayIndex_eq:
  fixes env :: "('d, 'f) extern"
  shows "getArrayIndex env cxt jsp jb =
     (case executeItem env cxt jsp jb (Some []) of
        Inl e \<Rightarrow> Inl e
      | Inr (res, cxt1, found) \<Rightarrow>
          if jperIsError res then Inr (res, 0, cxt1)
          else
            (case singletonNumeric (JsonValueListOf found) of
               None \<Rightarrow>
                 if jspThrowErrors cxt1 then
                   Inl err_subscript_not_singleton
                 else Inr (jperError, 0, cxt1)
             | Some n \<Rightarrow>
                 (case numeric_int4_opt_error (numeric_trunc n) of
                    None \<Rightarrow>
                      if jspThrowErrors cxt1 then
                        Inl err_subscript_out_of_integer_range
                      else Inr (jperError, 0, cxt1)
                  | Some index \<Rightarrow> Inr (jperOk, index, cxt1))))"
  by (simp only: executeItem_def getArrayIndex_def
        execute.simps(22)[of env cxt jsp jb] asIndex_retIndex)

section \<open>Interface of the executor\<close>

text \<open>
  Interface to jsonpath executor: \<open>path\<close> is the jsonpath to be executed, \<open>vs\<close> the
  variables, \<open>json\<close> the target document, \<open>throwErrs\<close> whether suppressible errors
  are thrown, \<open>result\<close> the list to store result items into (\<open>None\<close> when the caller
  only wants to know whether the result is empty).  The result is the status with the
  result list.
\<close>

definition executeJsonPath ::
  "('d, 'f) extern \<Rightarrow> JsonPath \<Rightarrow> Jsonb option \<Rightarrow> 'd JsonPathVarCallback \<Rightarrow> Jsonb \<Rightarrow> bool
     \<Rightarrow> 'd JsonValueList option \<Rightarrow> error + (JsonPathExecResult \<times> 'd JsonValueList option)" where
  "executeJsonPath env path vs getVarFn json throwErrs result =
     (let jsi = (case JsonbExtractScalar (jsonb_root json) of
                   Some v \<Rightarrow> Jbv v
                 | None \<Rightarrow> Jbv (JsonbInitBinary json))
      in case getVarFn vs None of
           Inl e \<Rightarrow> Inl e
         | Inr (nbase, r) \<Rightarrow>
             (let cxt = \<lparr>vars = vs, getVar = getVarFn, root = jsi,
                         stack = pushJsonItem [] jsi,
                         baseObject = \<lparr>jbc = 0, base_id = 0\<rparr>,
                         lastGeneratedObjectId = 1 + nbase,
                         innermostArraySize = - 1,
                         laxMode = (header path AND JSONPATH_LAX \<noteq> 0),
                         ignoreStructuralErrors = (header path AND JSONPATH_LAX \<noteq> 0),
                         throwErrors = throwErrs\<rparr>
              in if jspStrictAbsenseOfErrors cxt \<and> result = None then
                   \<comment> \<open>In strict mode we must get a complete list of values to check that
                       there are no errors at all.\<close>
                   (case executeItem env cxt (jspInit path) jsi (Some []) of
                      Inl e \<Rightarrow> Inl e
                    | Inr (res, cxt1, vals) \<Rightarrow>
                        if jperIsError res then Inr (res, result)
                        else Inr (if JsonValueListIsEmpty (JsonValueListOf vals)
                                  then jperNotFound else jperOk, result))
                 else
                   (case executeItem env cxt (jspInit path) jsi result of
                      Inl e \<Rightarrow> Inl e
                    | Inr (res, cxt1, found) \<Rightarrow> Inr (res, found))))"

text \<open>The arguments of a call of one of the user functions
  \<^verbatim>\<open>jsonb_path_*(jsonb, jsonpath [, vars jsonb, silent boolean])\<close>: the third and the
  fourth are there only when \<open>nargs\<close> is 4.\<close>

record FunctionCallInfo =
  nargs :: nat
  arg_jb :: Jsonb
  arg_jp :: JsonPath
  arg_vars :: Jsonb
  arg_silent :: bool

text \<open>Context for execution of the user functions.\<close>

record 'd JsonPathUserFuncContext =
  ufc_jb :: Jsonb
  ufc_jp :: JsonPath
  ufc_vars :: "Jsonb option"
  ufc_found :: "'d JsonValueList"
  ufc_silent :: bool

text \<open>
  Common code for the user functions.  \<open>with_cxt\<close> says that the caller passed a
  context to fill (then the result items are collected); the \<open>copy\<close> flag only
  concerns memory.
\<close>

definition executeUserFunc ::
  "('d, 'f) extern \<Rightarrow> FunctionCallInfo \<Rightarrow> bool \<Rightarrow> bool
     \<Rightarrow> error + (JsonPathExecResult \<times> 'd JsonPathUserFuncContext option)" where
  "executeUserFunc env fcinfo with_cxt copy =
     (let vs = (if nargs fcinfo = 4 then Some (arg_vars fcinfo) else None);
          silent = (if nargs fcinfo = 4 then arg_silent fcinfo else True)
      in case executeJsonPath env (arg_jp fcinfo) vs getJsonPathVariableFromJsonb
                (arg_jb fcinfo) (\<not> silent) (if with_cxt then Some [] else None) of
           Inl e \<Rightarrow> Inl e
         | Inr (res, found) \<Rightarrow>
             Inr (res,
                  if with_cxt
                  then Some \<lparr>ufc_jb = arg_jb fcinfo, ufc_jp = arg_jp fcinfo, ufc_vars = vs,
                             ufc_found = JsonValueListOf found, ufc_silent = silent\<rparr>
                  else None))"

text \<open>The user functions.  A result \<open>None\<close> is SQL NULL; the functions that return
  jsonb return the items it is made of.\<close>

definition jsonb_path_exists :: "('d, 'f) extern \<Rightarrow> FunctionCallInfo \<Rightarrow> error + bool option" where
  "jsonb_path_exists env fcinfo =
     (case (executeUserFunc env fcinfo False False
              :: error + (JsonPathExecResult \<times> 'd JsonPathUserFuncContext option)) of
        Inl e \<Rightarrow> Inl e
      | Inr (res, cxt) \<Rightarrow> if jperIsError res then Inr None else Inr (Some (res = jperOk)))"


definition jsonb_path_match :: "('d, 'f) extern \<Rightarrow> FunctionCallInfo \<Rightarrow> error + bool option" where
  "jsonb_path_match env fcinfo =
     (case (executeUserFunc env fcinfo True False
              :: error + (JsonPathExecResult \<times> 'd JsonPathUserFuncContext option)) of
        Inl e \<Rightarrow> Inl e
      | Inr (res, None) \<Rightarrow> Inl null_pointer
      | Inr (res, Some cxt) \<Rightarrow>
          (case (if JsonValueListLength (ufc_found cxt) = 1
                 then (case JsonValueListHead (ufc_found cxt) of
                         Some (Jbv (jbvBool b)) \<Rightarrow> Some (Some b)
                       | Some (Jbv jbvNull) \<Rightarrow> Some None
                       | _ \<Rightarrow> None)
                 else None) of
             Some r \<Rightarrow> Inr r
           | None \<Rightarrow>
               if \<not> ufc_silent cxt then
                 Inl (ereport ERRCODE_SINGLETON_JSON_ITEM_REQUIRED
                        ERRMSG_SINGLETON_JSON_ITEM_REQUIRED
                        ''expression should return a singleton boolean'' None)
               else Inr None))"


definition jsonb_path_query ::
  "('d, 'f) extern \<Rightarrow> FunctionCallInfo \<Rightarrow> error + 'd JsonItem list" where
  "jsonb_path_query env fcinfo =
     (case executeUserFunc env fcinfo True True of
        Inl e \<Rightarrow> Inl e
      | Inr (res, None) \<Rightarrow> Inl null_pointer
      | Inr (res, Some cxt) \<Rightarrow> Inr (JsonValueListGetList (ufc_found cxt)))"

definition jsonb_path_query_array ::
  "('d, 'f) extern \<Rightarrow> FunctionCallInfo \<Rightarrow> error + 'd JsonItem list" where
  "jsonb_path_query_array env fcinfo =
     (case executeUserFunc env fcinfo True False of
        Inl e \<Rightarrow> Inl e
      | Inr (res, None) \<Rightarrow> Inl null_pointer
      | Inr (res, Some cxt) \<Rightarrow> Inr (ufc_found cxt))"

definition jsonb_path_query_first ::
  "('d, 'f) extern \<Rightarrow> FunctionCallInfo \<Rightarrow> error + 'd JsonItem option" where
  "jsonb_path_query_first env fcinfo =
     (case executeUserFunc env fcinfo True False of
        Inl e \<Rightarrow> Inl e
      | Inr (res, None) \<Rightarrow> Inl null_pointer
      | Inr (res, Some cxt) \<Rightarrow>
          if JsonValueListLength (ufc_found cxt) \<ge> 1
          then Inr (JsonValueListHead (ufc_found cxt)) else Inr None)"

section \<open>An instance of the external collaborators\<close>

text \<open>
  A plain instance, to run the evaluator on concrete documents: byte-wise string
  comparison, exact decimal arithmetic with division by zero as its only error, no
  floats and no regular expressions, a datetime parser that knows dates of the form
  \<^verbatim>\<open>yyyy-mm-dd\<close> by their length only, datetime payloads as integers, and a serialiser
  that puts a built object at address 0.
\<close>

fun plain_strcmp :: "string \<Rightarrow> string \<Rightarrow> int" where
  "plain_strcmp [] [] = 0"
| "plain_strcmp [] (y # ys) = - 1"
| "plain_strcmp (x # xs) [] = 1"
| "plain_strcmp (x # xs) (y # ys) =
     (if (of_char x :: nat) < of_char y then - 1
      else if (of_char x :: nat) > of_char y then 1
      else plain_strcmp xs ys)"

definition plain_cmp :: "int \<Rightarrow> int \<Rightarrow> int" where
  "plain_cmp a b = (if a < b then - 1 else if a = b then 0 else 1)"

definition plain_division_by_zero :: error where
  "plain_division_by_zero = ereport ERRCODE_NUMERIC_ERROR ''division by zero'' [] None"

definition plain_extern :: "(int, rat) extern" where
  "plain_extern =
     \<lparr>varstr_cmp = plain_strcmp,
      numeric_add_opt_error = (\<lambda>a b. Inr (a + b)),
      numeric_sub_opt_error = (\<lambda>a b. Inr (a - b)),
      numeric_mul_opt_error = (\<lambda>a b. Inr (a * b)),
      numeric_div_opt_error =
        (\<lambda>a b. if b = 0 then Inl plain_division_by_zero else Inr (a / b)),
      numeric_mod_opt_error =
        (\<lambda>a b. if b = 0 then Inl plain_division_by_zero
               else Inr (a - b * numeric_trunc (a / b))),
      numeric_out = (\<lambda>n. []),
      float8in_internal_opt_error = (\<lambda>s. None),
      isinf = (\<lambda>x. False),
      float8_numeric = (\<lambda>x. x),
      parse_datetime =
        (\<lambda>datetime fmt tzname strict tz.
           if fmt = ''yyyy-mm-dd'' \<and> length datetime = 10
           then Inr (0, DATEOID, - 1, tz)
           else Inl (ereport ERRCODE_INVALID_ARGUMENT_FOR_JSON_DATETIME_FUNCTION
                       ERRMSG_INVALID_ARGUMENT_FOR_JSON_DATETIME_FUNCTION
                       ''datetime does not match the template'' None)),
      RE_compile_and_execute =
        (\<lambda>re s flags. Inl (ereport ERRCODE_INVALID_REGULAR_EXPRESSION
                              ''invalid regular expression'' [] None)),
      date_cmp = plain_cmp,
      time_cmp = plain_cmp,
      timetz_cmp = plain_cmp,
      timestamp_cmp = plain_cmp,
      date2timestamp_internal = Some,
      date2timestamptz_internal = (\<lambda>d tz. Some d),
      timestamp2timestamptz_internal = (\<lambda>t tz. Some t),
      TimeTzADTPGetDatum = (\<lambda>t tz. t),
      JsonbValueToJsonb = (\<lambda>pairs. Jsonb (JsonbObject 0 pairs))\<rparr>"

section \<open>Running the evaluator\<close>

text \<open>The floor of a quotient of numerals, for the numerics of the plain instance.\<close>

lemma floor_rat_divide_numeral:
  "\<lfloor>numeral a / numeral b :: rat\<rfloor> = numeral a div numeral b"
  using floor_divide_of_int_eq [of "numeral a" "numeral b", where ?'a = rat] by simp

lemma floor_rat_one_divide_numeral:
  "\<lfloor>1 / numeral b :: rat\<rfloor> = 1 div numeral b"
  using floor_divide_of_int_eq [of 1 "numeral b", where ?'a = rat] by simp

text \<open>
  The recursion equations of the execution functions and the definitions of the functions
  around them: with them the simplifier runs the evaluator on a concrete path and document.
\<close>

lemmas exec_eqs =
  executeItem_eq executeItemOptUnwrapTarget_eq executeIndexArray_loop_eq
  executeIndexArray_range_eq executeItemUnwrapTargetArray_eq executeNextItem_eq
  executeItemOptUnwrapResult_eq executeItemOptUnwrapResult_loop_eq
  executeItemOptUnwrapResultNoThrow_eq executeBoolItem_eq executeNestedBoolItem_eq
  executeAnyItem_eq executeAnyItem_loop_eq executePredicate_eq executeBinaryArithmExpr_eq
  executeUnaryArithmExpr_eq executeUnaryArithmExpr_loop_eq executeNumericItemMethod_eq
  executeKeyValueMethod_eq executeKeyValueMethod_loop_eq appendBoolResult_eq
  getArrayIndex_eq

lemmas model_defs =
  floor_rat_divide_numeral floor_rat_one_divide_numeral
  JsonbInitBinary_def getScalar_def copyJsonItem_def JsonValueListAppend_def
  JsonValueListLength_def JsonValueListIsEmpty_def JsonValueListGetList_def jspHasNext_def
  jspIsBoolItem_def JSONPATH_LAX_def jperIsError_def jspStrictAbsenseOfErrors_def
  jspAutoUnwrap_def jspAutoWrap_def jspIgnoreStructuralErrors_def jspThrowErrors_def
  RETURN_ERROR_def setBaseObject_def pushJsonItem_def popJsonItem_def PG_INT32_MIN_def
  PG_INT32_MAX_def PG_UINT32_MAX_def DATEOID_def TIMEOID_def TIMESTAMPOID_def
  TIMESTAMPTZOID_def TIMETZOID_def numeric_cmp_def int4_numeric_def int8_numeric_def
  numeric_trunc_def numeric_int4_opt_error_def numeric_uminus_def numeric_abs_def
  numeric_floor_def numeric_ceil_def compareNumeric_def time_to_timetz_def
  date_to_timestamp_def date_to_timestamptz_def timestamp_to_timestamptz_def
  compareDatetime_call_def compareDatetime_def compareItems_op_def compareItems_def
  executeComparison_def executeStartsWith_def like_regex_cflags_def executeLikeRegex_def
  executePredicate_pairs_def getJsonPathVariableFromJsonb_def getJsonPathVariable_def
  getJsonPathItem_def JsonItemTypeName_def tryToParseDatetime_def fmt_str_def
  jspIsLiteralItem_def getScalarNumeric_def appendFound_def JsonValueListOf_def
  JsonValueListHead_def singletonNumeric_def JsonItemBinaryData_def int64_def
  keyvalue_id_def executeDatetime_tz_def executeDatetime_parse_def
  executeDatetime_template_def keyvalue_object_def executeJsonPath_def executeUserFunc_def
  jsonb_path_exists_def jsonb_path_match_def jsonb_path_query_def jsonb_path_query_array_def
  jsonb_path_query_first_def plain_cmp_def plain_extern_def Let_def

text \<open>
  The context that \<open>executeJsonPath\<close> sets up for a path without variables on the document
  item \<open>jsi\<close>, in lax or strict mode, with suppressible errors thrown or not.
\<close>

definition example_cxt :: "bool \<Rightarrow> bool \<Rightarrow> int JsonItem \<Rightarrow> int JsonPathExecContext" where
  "example_cxt lax throwErrs jsi =
     \<lparr>vars = None, getVar = getJsonPathVariableFromJsonb, root = jsi,
      stack = pushJsonItem [] jsi,
      baseObject = \<lparr>jbc = 0, base_id = 0\<rparr>,
      lastGeneratedObjectId = 1,
      innermostArraySize = - 1,
      laxMode = lax,
      ignoreStructuralErrors = lax,
      throwErrors = throwErrs\<rparr>"

section \<open>Properties of the executor\<close>

subsection \<open>Comparison of a null with a non-null item\<close>

text \<open>
  Claim C8.  When exactly one of the two compared items is null, \<open>compareItems\<close> returns
  true for the operation \<^verbatim>\<open>!=\<close> and false for every other operation (so for \<^verbatim>\<open>==\<close>, \<^verbatim>\<open><\<close>,
  \<^verbatim>\<open>>\<close>, \<^verbatim>\<open><=\<close> and \<^verbatim>\<open>>=\<close>); it never returns unknown and never raises an error.
\<close>

theorem compareItems_null_nonnull:
  assumes "(JsonItemGetType a = jsiNull) \<noteq> (JsonItemGetType b = jsiNull)"
  shows "compareItems env op a b = Inr (if op = jpiNotEqual_t then jpbTrue else jpbFalse)"
proof -
  from assms have "JsonItemGetType a \<noteq> JsonItemGetType b"
    by auto
  moreover from assms have "JsonItemGetType a = jsiNull \<or> JsonItemGetType b = jsiNull"
    by auto
  ultimately show ?thesis
    by (simp add: compareItems_def)
qed

theorem compareItems_null_nonnull_witness:
  "(JsonItemGetType (Jbv jbvNull :: int JsonItem) = jsiNull)
     \<noteq> (JsonItemGetType (Jbv (jbvNumeric 1) :: int JsonItem) = jsiNull)
   \<and> compareItems plain_extern jpiLess_t (Jbv jbvNull) (Jbv (jbvNumeric 1)) = Inr jpbFalse
   \<and> compareItems plain_extern jpiNotEqual_t (Jbv (jbvString ''a'')) (Jbv jbvNull) = Inr jpbTrue"
  using compareItems_null_nonnull [of "Jbv jbvNull" "Jbv (jbvNumeric 1)" plain_extern jpiLess_t]
    compareItems_null_nonnull [of "Jbv (jbvString ''a'')" "Jbv jbvNull" plain_extern
      jpiNotEqual_t]
  by simp

subsection \<open>Negation\<close>

text \<open>
  Claim C9.  Evaluating \<^verbatim>\<open>!!P\<close> gives what evaluating the predicate \<open>P\<close> gives: the same
  tri-state result (and the same context), or the same error.
\<close>

theorem executeBoolItem_not_not:
  fixes env :: "('d, 'f) extern"
  shows "executeBoolItem env cxt (jpiNot (jpiNot P None) None) jb canHaveNext =
         executeBoolItem env cxt P jb False"
proof (cases "executeBoolItem env cxt P jb False")
  case (Inl e)
  then show ?thesis
    by (simp add: executeBoolItem_eq [of env cxt "jpiNot x None" for x] jspHasNext_def)
next
  case (Inr r)
  obtain res cxt1 where r: "r = (res, cxt1)"
    by (cases r)
  from Inr r show ?thesis
    by (cases res)
       (simp_all add: executeBoolItem_eq [of env cxt "jpiNot x None" for x] jspHasNext_def)
qed

subsection \<open>Conjunction\<close>

text \<open>
  Claim C3, as the code has it.  When the left operand of \<^verbatim>\<open>&&\<close> evaluates to false the
  result is false and the right operand is not evaluated.  Otherwise the right operand is
  evaluated, and the result is false when it is false, else unknown when one of the two
  operands is unknown, else true: the conjunction of the three-valued logic.  (The claim
  has "the value of the left operand" where the right operand is false.)
\<close>

theorem executeBoolItem_and:
  fixes env :: "('d, 'f) extern"
  assumes "executeBoolItem env cxt L jb False = Inr (l, cxt1)"
  shows "executeBoolItem env cxt (jpiAnd L R None) jb canHaveNext =
     (if l = jpbFalse then Inr (jpbFalse, cxt1)
      else
        (case executeBoolItem env cxt1 R jb False of
           Inl e \<Rightarrow> Inl e
         | Inr (r, cxt2) \<Rightarrow>
             Inr (if r = jpbFalse then jpbFalse
                  else if l = jpbUnknown \<or> r = jpbUnknown then jpbUnknown
                  else jpbTrue, cxt2)))"
proof (cases "executeBoolItem env cxt1 R jb False")
  case (Inl e)
  with assms show ?thesis
    by (simp add: executeBoolItem_eq [of env cxt "jpiAnd L R None"] jspHasNext_def)
next
  case (Inr p)
  obtain r cxt2 where p: "p = (r, cxt2)"
    by (cases p)
  from assms Inr p show ?thesis
    by (cases l; cases r)
       (simp_all add: executeBoolItem_eq [of env cxt "jpiAnd L R None"] jspHasNext_def)
qed

text \<open>The predicates \<^verbatim>\<open>1 == "a"\<close> (unknown), \<^verbatim>\<open>1 == 2\<close> (false) and \<^verbatim>\<open>1 == 1\<close> (true).\<close>

definition pred_unknown :: JsonPathItem where
  "pred_unknown = jpiEqual (jpiNumeric 1 None) (jpiString ''a'' None) None"

definition pred_false :: JsonPathItem where
  "pred_false = jpiEqual (jpiNumeric 1 None) (jpiNumeric 2 None) None"

definition pred_true :: JsonPathItem where
  "pred_true = jpiEqual (jpiNumeric 1 None) (jpiNumeric 1 None) None"

lemma pred_unknown_run:
  "executeBoolItem plain_extern (example_cxt lax False (Jbv jbvNull)) pred_unknown (Jbv jbvNull)
     False = Inr (jpbUnknown, example_cxt lax False (Jbv jbvNull))"
  by (simp add: pred_unknown_def example_cxt_def exec_eqs model_defs)

lemma pred_false_run:
  "executeBoolItem plain_extern (example_cxt lax False (Jbv jbvNull)) pred_false (Jbv jbvNull)
     False = Inr (jpbFalse, example_cxt lax False (Jbv jbvNull))"
  by (simp add: pred_false_def example_cxt_def exec_eqs model_defs)

lemma pred_true_run:
  "executeBoolItem plain_extern (example_cxt lax False (Jbv jbvNull)) pred_true (Jbv jbvNull)
     False = Inr (jpbTrue, example_cxt lax False (Jbv jbvNull))"
  by (simp add: pred_true_def example_cxt_def exec_eqs model_defs)

theorem executeBoolItem_and_witness:
  "executeBoolItem plain_extern (example_cxt True False (Jbv jbvNull)) pred_unknown
       (Jbv jbvNull) False = Inr (jpbUnknown, example_cxt True False (Jbv jbvNull))
   \<and> executeBoolItem plain_extern (example_cxt True False (Jbv jbvNull))
         (jpiAnd pred_unknown pred_true None) (Jbv jbvNull) False
       = Inr (jpbUnknown, example_cxt True False (Jbv jbvNull))"
  using executeBoolItem_and [OF pred_unknown_run [of True], of pred_true False]
  by (simp add: pred_true_run pred_unknown_run)

text \<open>
  Against claim C3 as it is written: with the left operand unknown and the right operand
  false the result is false, not unknown; with the left operand true and the right
  operand false the result is false, not the value of the left operand.
\<close>

theorem executeBoolItem_and_counterexample:
  "executeBoolItem plain_extern (example_cxt True False (Jbv jbvNull)) pred_unknown
       (Jbv jbvNull) False = Inr (jpbUnknown, example_cxt True False (Jbv jbvNull))
   \<and> executeBoolItem plain_extern (example_cxt True False (Jbv jbvNull)) pred_false
         (Jbv jbvNull) False = Inr (jpbFalse, example_cxt True False (Jbv jbvNull))
   \<and> executeBoolItem plain_extern (example_cxt True False (Jbv jbvNull)) pred_true
         (Jbv jbvNull) False = Inr (jpbTrue, example_cxt True False (Jbv jbvNull))
   \<and> executeBoolItem plain_extern (example_cxt True False (Jbv jbvNull))
         (jpiAnd pred_unknown pred_false None) (Jbv jbvNull) False
       = Inr (jpbFalse, example_cxt True False (Jbv jbvNull))
   \<and> executeBoolItem plain_extern (example_cxt True False (Jbv jbvNull))
         (jpiAnd pred_true pred_false None) (Jbv jbvNull) False
       = Inr (jpbFalse, example_cxt True False (Jbv jbvNull))"
  by (simp add: pred_unknown_def pred_false_def pred_true_def example_cxt_def exec_eqs
        model_defs)

subsection \<open>Predicates over sequences\<close>

text \<open>
  The two loops of \<open>executePredicate\<close> over the pairs of a left and a right item, for a
  callback that gives \<open>cmp l r\<close> on a pair and leaves its parameter alone.  In strict mode
  the inner loop returns unknown when a pair of its row is unknown; otherwise it goes
  through the row and sets the \<^verbatim>\<open>found\<close> flag when a pair is true.
\<close>

lemma executePredicate_rloop_strict:
  assumes "\<forall>r\<in>set rs. exec pred l (Some r) p = Inr (cmp l r, p)"
  shows "\<exists>e' f'. executePredicate_rloop True exec pred l (map Some rs) e f p =
           Inr (if \<exists>r\<in>set rs. cmp l r = jpbUnknown then Some jpbUnknown else None, e', f', p)
         \<and> ((\<forall>r\<in>set rs. cmp l r \<noteq> jpbUnknown)
              \<longrightarrow> e' = e \<and> f' = (f \<or> (\<exists>r\<in>set rs. cmp l r = jpbTrue)))"
  using assms
proof (induction rs arbitrary: e f)
  case Nil
  then show ?case by simp
next
  case (Cons a rs)
  from Cons.prems have a: "exec pred l (Some a) p = Inr (cmp l a, p)"
    and rest: "\<forall>r\<in>set rs. exec pred l (Some r) p = Inr (cmp l r, p)"
    by simp_all
  show ?case
  proof (cases "cmp l a")
    case jpbUnknown
    with a show ?thesis by simp
  next
    case jpbTrue
    from Cons.IH [OF rest, of e True] a jpbTrue show ?thesis by auto
  next
    case jpbFalse
    from Cons.IH [OF rest, of e f] a jpbFalse show ?thesis by auto
  qed
qed

text \<open>In lax mode the inner loop returns true when a pair of its row is true; otherwise it
  goes through the row and sets the \<^verbatim>\<open>error\<close> flag when a pair is unknown.\<close>

lemma executePredicate_rloop_lax:
  assumes "\<forall>r\<in>set rs. exec pred l (Some r) p = Inr (cmp l r, p)"
  shows "\<exists>e' f'. executePredicate_rloop False exec pred l (map Some rs) e f p =
           Inr (if \<exists>r\<in>set rs. cmp l r = jpbTrue then Some jpbTrue else None, e', f', p)
         \<and> ((\<forall>r\<in>set rs. cmp l r \<noteq> jpbTrue)
              \<longrightarrow> f' = f \<and> e' = (e \<or> (\<exists>r\<in>set rs. cmp l r = jpbUnknown)))"
  using assms
proof (induction rs arbitrary: e f)
  case Nil
  then show ?case by simp
next
  case (Cons a rs)
  from Cons.prems have a: "exec pred l (Some a) p = Inr (cmp l a, p)"
    and rest: "\<forall>r\<in>set rs. exec pred l (Some r) p = Inr (cmp l r, p)"
    by simp_all
  show ?case
  proof (cases "cmp l a")
    case jpbTrue
    with a show ?thesis by simp
  next
    case jpbUnknown
    from Cons.IH [OF rest, of True f] a jpbUnknown show ?thesis by auto
  next
    case jpbFalse
    from Cons.IH [OF rest, of e f] a jpbFalse show ?thesis by auto
  qed
qed

lemma executePredicate_lloop_strict:
  assumes "\<forall>l\<in>set ls. \<forall>r\<in>set rs. exec pred l (Some r) p = Inr (cmp l r, p)"
  shows "\<exists>e' f'. executePredicate_lloop True exec pred ls (map Some rs) e f p =
           Inr (if \<exists>l\<in>set ls. \<exists>r\<in>set rs. cmp l r = jpbUnknown
                then Some jpbUnknown else None, e', f', p)
         \<and> ((\<forall>l\<in>set ls. \<forall>r\<in>set rs. cmp l r \<noteq> jpbUnknown)
              \<longrightarrow> e' = e \<and> f' = (f \<or> (\<exists>l\<in>set ls. \<exists>r\<in>set rs. cmp l r = jpbTrue)))"
  using assms
proof (induction ls arbitrary: e f)
  case Nil
  then show ?case by simp
next
  case (Cons a ls)
  from Cons.prems have row: "\<forall>r\<in>set rs. exec pred a (Some r) p = Inr (cmp a r, p)"
    and rest: "\<forall>l\<in>set ls. \<forall>r\<in>set rs. exec pred l (Some r) p = Inr (cmp l r, p)"
    by simp_all
  from executePredicate_rloop_strict [where cmp = cmp and exec = exec and pred = pred and l = a
      and rs = rs and p = p and e = e and f = f, OF row]
  obtain e1 f1 where r1: "executePredicate_rloop True exec pred a (map Some rs) e f p =
        Inr (if \<exists>r\<in>set rs. cmp a r = jpbUnknown then Some jpbUnknown else None, e1, f1, p)"
    and r2: "(\<forall>r\<in>set rs. cmp a r \<noteq> jpbUnknown)
        \<longrightarrow> e1 = e \<and> f1 = (f \<or> (\<exists>r\<in>set rs. cmp a r = jpbTrue))"
    by blast
  show ?case
  proof (cases "\<exists>r\<in>set rs. cmp a r = jpbUnknown")
    case True
    with r1 show ?thesis by auto
  next
    case False
    with r2 have e1: "e1 = e" and f1: "f1 = (f \<or> (\<exists>r\<in>set rs. cmp a r = jpbTrue))"
      by auto
    from Cons.IH [OF rest, of e1 f1] r1 False e1 f1 show ?thesis
      by auto
  qed
qed

lemma executePredicate_lloop_lax:
  assumes "\<forall>l\<in>set ls. \<forall>r\<in>set rs. exec pred l (Some r) p = Inr (cmp l r, p)"
  shows "\<exists>e' f'. executePredicate_lloop False exec pred ls (map Some rs) e f p =
           Inr (if \<exists>l\<in>set ls. \<exists>r\<in>set rs. cmp l r = jpbTrue
                then Some jpbTrue else None, e', f', p)
         \<and> ((\<forall>l\<in>set ls. \<forall>r\<in>set rs. cmp l r \<noteq> jpbTrue)
              \<longrightarrow> f' = f \<and> e' = (e \<or> (\<exists>l\<in>set ls. \<exists>r\<in>set rs. cmp l r = jpbUnknown)))"
  using assms
proof (induction ls arbitrary: e f)
  case Nil
  then show ?case by simp
next
  case (Cons a ls)
  from Cons.prems have row: "\<forall>r\<in>set rs. exec pred a (Some r) p = Inr (cmp a r, p)"
    and rest: "\<forall>l\<in>set ls. \<forall>r\<in>set rs. exec pred l (Some r) p = Inr (cmp l r, p)"
    by simp_all
  from executePredicate_rloop_lax [where cmp = cmp and exec = exec and pred = pred and l = a
      and rs = rs and p = p and e = e and f = f, OF row]
  obtain e1 f1 where r1: "executePredicate_rloop False exec pred a (map Some rs) e f p =
        Inr (if \<exists>r\<in>set rs. cmp a r = jpbTrue then Some jpbTrue else None, e1, f1, p)"
    and r2: "(\<forall>r\<in>set rs. cmp a r \<noteq> jpbTrue)
        \<longrightarrow> f1 = f \<and> e1 = (e \<or> (\<exists>r\<in>set rs. cmp a r = jpbUnknown))"
    by blast
  show ?case
  proof (cases "\<exists>r\<in>set rs. cmp a r = jpbTrue")
    case True
    with r1 show ?thesis by auto
  next
    case False
    with r2 have f1: "f1 = f" and e1: "e1 = (e \<or> (\<exists>r\<in>set rs. cmp a r = jpbUnknown))"
      by auto
    from Cons.IH [OF rest, of e1 f1] r1 False e1 f1 show ?thesis
      by auto
  qed
qed

text \<open>The result of the two loops: \<open>rseq\<close> is the right sequence.\<close>

lemma executePredicate_pairs_comparison:
  assumes "\<forall>l\<in>set lseq. \<forall>r\<in>set rseq. compareItems env (jsp_type pred) l r = Inr (cmp l r)"
  shows "executePredicate_pairs strict (executeComparison env) pred lseq (Some rseq) param =
     Inr (if strict then
            (if \<exists>l\<in>set lseq. \<exists>r\<in>set rseq. cmp l r = jpbUnknown then jpbUnknown
             else if \<exists>l\<in>set lseq. \<exists>r\<in>set rseq. cmp l r = jpbTrue then jpbTrue
             else jpbFalse)
          else
            (if \<exists>l\<in>set lseq. \<exists>r\<in>set rseq. cmp l r = jpbTrue then jpbTrue
             else if \<exists>l\<in>set lseq. \<exists>r\<in>set rseq. cmp l r = jpbUnknown then jpbUnknown
             else jpbFalse))"
proof -
  from assms have pairs: "\<forall>l\<in>set lseq. \<forall>r\<in>set rseq.
      executeComparison env pred l (Some r) param = Inr (cmp l r, param)"
    by (simp add: executeComparison_def)
  show ?thesis
  proof (cases strict)
    case True
    from executePredicate_lloop_strict [where cmp = cmp and exec = "executeComparison env"
      and pred = pred and ls = lseq and rs = rseq and p = param and e = False and f = False,
      OF pairs]
    obtain e' f' where
      "executePredicate_lloop True (executeComparison env) pred lseq (map Some rseq) False
         False param =
       Inr (if \<exists>l\<in>set lseq. \<exists>r\<in>set rseq. cmp l r = jpbUnknown
            then Some jpbUnknown else None, e', f', param)"
      and "(\<forall>l\<in>set lseq. \<forall>r\<in>set rseq. cmp l r \<noteq> jpbUnknown)
        \<longrightarrow> e' = False \<and> f' = (False \<or> (\<exists>l\<in>set lseq. \<exists>r\<in>set rseq. cmp l r = jpbTrue))"
      by blast
    with True show ?thesis
      by (auto simp: executePredicate_pairs_def)
  next
    case False
    from executePredicate_lloop_lax [where cmp = cmp and exec = "executeComparison env"
      and pred = pred and ls = lseq and rs = rseq and p = param and e = False and f = False,
      OF pairs]
    obtain e' f' where
      "executePredicate_lloop False (executeComparison env) pred lseq (map Some rseq) False
         False param =
       Inr (if \<exists>l\<in>set lseq. \<exists>r\<in>set rseq. cmp l r = jpbTrue
            then Some jpbTrue else None, e', f', param)"
      and "(\<forall>l\<in>set lseq. \<forall>r\<in>set rseq. cmp l r \<noteq> jpbTrue)
        \<longrightarrow> f' = False \<and> e' = (False \<or> (\<exists>l\<in>set lseq. \<exists>r\<in>set rseq. cmp l r = jpbUnknown))"
      by blast
    with False show ?thesis
      by (auto simp: executePredicate_pairs_def)
  qed
qed

text \<open>
  Claim C5.  Let the operands of a comparison predicate evaluate to the sequences \<open>lseq\<close>
  and \<open>rseq\<close>, and let every pair \<open>(l, r)\<close> of an item of \<open>lseq\<close> and an item of \<open>rseq\<close>
  compare to \<open>cmp l r\<close>.  In strict mode the predicate is unknown if a pair is unknown,
  otherwise true if a pair is true, otherwise false.  In lax mode it is true if a pair is
  true, otherwise unknown if a pair is unknown, otherwise false.
\<close>

theorem executePredicate_comparison:
  fixes env :: "('d, 'f) extern"
  assumes "executeItemOptUnwrapResultNoThrow env cxt larg jb True (Some []) =
             Inr (res1, cxt1, Some lseq)"
    and "\<not> jperIsError res1"
    and "executeItemOptUnwrapResultNoThrow env cxt1 rarg jb unwrapRightArg (Some []) =
             Inr (res2, cxt2, Some rseq)"
    and "\<not> jperIsError res2"
    and "\<forall>l\<in>set lseq. \<forall>r\<in>set rseq. compareItems env (jsp_type pred) l r = Inr (cmp l r)"
  shows "executePredicate env cxt pred larg (Some rarg) jb unwrapRightArg
           (executeComparison env) param =
     Inr (if jspStrictAbsenseOfErrors cxt2 then
            (if \<exists>l\<in>set lseq. \<exists>r\<in>set rseq. cmp l r = jpbUnknown then jpbUnknown
             else if \<exists>l\<in>set lseq. \<exists>r\<in>set rseq. cmp l r = jpbTrue then jpbTrue
             else jpbFalse)
          else
            (if \<exists>l\<in>set lseq. \<exists>r\<in>set rseq. cmp l r = jpbTrue then jpbTrue
             else if \<exists>l\<in>set lseq. \<exists>r\<in>set rseq. cmp l r = jpbUnknown then jpbUnknown
             else jpbFalse), cxt2)"
  using assms(1-4)
  by (simp add: executePredicate_eq [of env cxt pred larg "Some rarg"] JsonValueListOf_def
        executePredicate_pairs_comparison [where cmp = cmp, OF assms(5)])

text \<open>The items of \<^verbatim>\<open>[1, "two", 3]\<close> against \<^verbatim>\<open>0\<close> under \<^verbatim>\<open>>\<close>: unknown in strict mode, true
  in lax mode; \<open>greater_than\<close> is the comparison of the pairs.\<close>

definition doc_one_two_three :: "int JsonItem" where
  "doc_one_two_three =
     Jbv (jbvBinary (JsonbArray 0 [jbvNumeric 1, jbvString ''two'', jbvNumeric 3]))"

definition greater_than :: "int JsonItem \<Rightarrow> int JsonItem \<Rightarrow> JsonPathBool" where
  "greater_than l r =
     (case compareItems plain_extern jpiGreater_t l r of
        Inl e \<Rightarrow> jpbUnknown
      | Inr res \<Rightarrow> res)"

lemma doc_one_two_three_items:
  "executeItemOptUnwrapResultNoThrow plain_extern (example_cxt lax False doc_one_two_three)
       (jpiRoot (Some (jpiAnyArray None))) doc_one_two_three True (Some []) =
     Inr (if lax then jperOk else jperNotFound, example_cxt lax False doc_one_two_three,
          Some [Jbv (jbvNumeric 1), Jbv (jbvString ''two''), Jbv (jbvNumeric 3)])"
  by (cases lax) (simp_all add: doc_one_two_three_def example_cxt_def exec_eqs model_defs)

lemma doc_one_two_three_zero:
  "executeItemOptUnwrapResultNoThrow plain_extern (example_cxt lax False doc_one_two_three)
       (jpiNumeric 0 None) doc_one_two_three True (Some []) =
     Inr (jperOk, example_cxt lax False doc_one_two_three, Some [Jbv (jbvNumeric 0)])"
  by (cases lax) (simp_all add: doc_one_two_three_def example_cxt_def exec_eqs model_defs)

theorem executePredicate_comparison_witness:
  "executePredicate plain_extern (example_cxt False False doc_one_two_three)
       (jpiGreater (jpiRoot (Some (jpiAnyArray None))) (jpiNumeric 0 None) None)
       (jpiRoot (Some (jpiAnyArray None))) (Some (jpiNumeric 0 None)) doc_one_two_three True
       (executeComparison plain_extern) None
     = Inr (jpbUnknown, example_cxt False False doc_one_two_three)
   \<and> executePredicate plain_extern (example_cxt True False doc_one_two_three)
       (jpiGreater (jpiRoot (Some (jpiAnyArray None))) (jpiNumeric 0 None) None)
       (jpiRoot (Some (jpiAnyArray None))) (Some (jpiNumeric 0 None)) doc_one_two_three True
       (executeComparison plain_extern) None
     = Inr (jpbTrue, example_cxt True False doc_one_two_three)"
  using executePredicate_comparison [where cmp = greater_than and param = None
      and pred = "jpiGreater (jpiRoot (Some (jpiAnyArray None))) (jpiNumeric 0 None) None",
      OF doc_one_two_three_items [of False] _ doc_one_two_three_zero [of False]]
    executePredicate_comparison [where cmp = greater_than and param = None
      and pred = "jpiGreater (jpiRoot (Some (jpiAnyArray None))) (jpiNumeric 0 None) None",
      OF doc_one_two_three_items [of True] _ doc_one_two_three_zero [of True]]
  by (simp add: greater_than_def compareItems_def compareItems_op_def compareNumeric_def
        numeric_cmp_def jperIsError_def jspStrictAbsenseOfErrors_def example_cxt_def)

subsection \<open>The ISO templates of \<^verbatim>\<open>.datetime()\<close>\<close>

text \<open>The loop over the formats gives the value parsed by the first format of the list
  that parses the text.\<close>

lemma tryISOFormats_find:
  "tryISOFormats env fmts datetime tzname tz =
     (case List.find (\<lambda>fmt. \<not> isl (parse_datetime env datetime fmt tzname True tz)) fmts of
        None \<Rightarrow> Inr None
      | Some fmt \<Rightarrow>
          (case parse_datetime env datetime fmt tzname True tz of
             Inl e \<Rightarrow> Inr None
           | Inr r \<Rightarrow> Inr (Some r)))"
proof (induction fmts)
  case Nil
  then show ?case by simp
next
  case (Cons fmt fmts)
  then show ?case
    by (cases "parse_datetime env datetime fmt tzname True tz")
       (simp_all add: tryToParseDatetime_def)
qed

text \<open>
  Claim C7.  \<^verbatim>\<open>.datetime()\<close> without arguments on a string tries the seven ISO templates in
  this order, each on the whole string.  The first template that parses gives the
  datetime item that goes to the next path item (or to the result list); if no template
  parses, the error \<^verbatim>\<open>ERRCODE_INVALID_ARGUMENT_FOR_JSON_DATETIME_FUNCTION\<close> with the hint
  to use a template argument is reported (thrown if errors are thrown, the status error
  otherwise).
\<close>

theorem datetime_iso_templates:
  fixes env :: "('d, 'f) extern"
  shows "executeItemOptUnwrapTarget env cxt (jpiDatetime None None nx) (Jbv (jbvString s))
           found unwrap =
     (case List.find (\<lambda>fmt. \<not> isl (parse_datetime env s fmt None True PG_INT32_MIN))
             [''yyyy-mm-dd HH24:MI:SS TZH:TZM'',
              ''yyyy-mm-dd HH24:MI:SS TZH'',
              ''yyyy-mm-dd HH24:MI:SS'',
              ''yyyy-mm-dd'',
              ''HH24:MI:SS TZH:TZM'',
              ''HH24:MI:SS TZH'',
              ''HH24:MI:SS''] of
        None \<Rightarrow>
          RETURN_ERROR cxt found
            (ereport ERRCODE_INVALID_ARGUMENT_FOR_JSON_DATETIME_FUNCTION
               ERRMSG_INVALID_ARGUMENT_FOR_JSON_DATETIME_FUNCTION
               ''unrecognized datetime format''
               (Some ''use datetime template argument for explicit format specification''))
      | Some fmt \<Rightarrow>
          (case parse_datetime env s fmt None True PG_INT32_MIN of
             Inl e \<Rightarrow> Inl e
           | Inr (val, typid, typmod, tz) \<Rightarrow>
               if nx = None \<and> found = None then Inr (jperOk, cxt, found)
               else
                 executeNextItem env cxt (Some (jpiDatetime None None nx)) nx
                   (Datetime val typid typmod tz) found (nx \<noteq> None)))"
proof -
  let ?fmts = "[''yyyy-mm-dd HH24:MI:SS TZH:TZM'', ''yyyy-mm-dd HH24:MI:SS TZH'',
    ''yyyy-mm-dd HH24:MI:SS'', ''yyyy-mm-dd'', ''HH24:MI:SS TZH:TZM'', ''HH24:MI:SS TZH'',
    ''HH24:MI:SS'']"
  let ?ok = "\<lambda>fmt. \<not> isl (parse_datetime env s fmt None True PG_INT32_MIN)"
  have parse: "executeDatetime_parse env cxt found None s None PG_INT32_MIN =
      (case List.find ?ok ?fmts of
         None \<Rightarrow>
           (case RETURN_ERROR cxt found
                   (ereport ERRCODE_INVALID_ARGUMENT_FOR_JSON_DATETIME_FUNCTION
                      ERRMSG_INVALID_ARGUMENT_FOR_JSON_DATETIME_FUNCTION
                      ''unrecognized datetime format''
                      (Some ''use datetime template argument for explicit format specification'')) of
              Inl e \<Rightarrow> Inl e | Inr st \<Rightarrow> Inr (Inl st))
       | Some fmt \<Rightarrow>
           (case parse_datetime env s fmt None True PG_INT32_MIN of
              Inl e \<Rightarrow>
                (case RETURN_ERROR cxt found
                        (ereport ERRCODE_INVALID_ARGUMENT_FOR_JSON_DATETIME_FUNCTION
                           ERRMSG_INVALID_ARGUMENT_FOR_JSON_DATETIME_FUNCTION
                           ''unrecognized datetime format''
                           (Some ''use datetime template argument for explicit format specification'')) of
                   Inl e \<Rightarrow> Inl e | Inr st \<Rightarrow> Inr (Inl st))
            | Inr r \<Rightarrow> Inr (Inr r)))"
    unfolding executeDatetime_parse_def tryISOFormats_find fmt_str_def Let_def
    by (simp split: option.split sum.split)
  have found_ok: "List.find ?ok ?fmts = Some fmt \<Longrightarrow>
      \<exists>r. parse_datetime env s fmt None True PG_INT32_MIN = Inr r" for fmt
  proof -
    assume "List.find ?ok ?fmts = Some fmt"
    then have "?ok fmt"
      unfolding find_Some_iff by blast
    then show ?thesis
      by (cases "parse_datetime env s fmt None True PG_INT32_MIN") auto
  qed
  show ?thesis
  proof (cases "List.find ?ok ?fmts")
    case None
    with parse have "executeDatetime_parse env cxt found None s None PG_INT32_MIN =
        (case RETURN_ERROR cxt found
                (ereport ERRCODE_INVALID_ARGUMENT_FOR_JSON_DATETIME_FUNCTION
                   ERRMSG_INVALID_ARGUMENT_FOR_JSON_DATETIME_FUNCTION
                   ''unrecognized datetime format''
                   (Some ''use datetime template argument for explicit format specification'')) of
           Inl e \<Rightarrow> Inl e | Inr st \<Rightarrow> Inr (Inl st))"
      by simp
    with None show ?thesis
      by (simp add: executeItemOptUnwrapTarget_eq [of env cxt "jpiDatetime None None nx"]
            jspIsBoolItem_def jspIsLiteralItem_def getScalar_def executeDatetime_template_def
            RETURN_ERROR_def)
  next
    case (Some fmt)
    from found_ok [OF Some] obtain r where
      r: "parse_datetime env s fmt None True PG_INT32_MIN = Inr r"
      by blast
    obtain val typid typmod tz where r4: "r = (val, typid, typmod, tz)"
      by (cases r)
    from parse Some r have
      "executeDatetime_parse env cxt found None s None PG_INT32_MIN = Inr (Inr r)"
      by simp
    with Some r r4 show ?thesis
      by (simp add: executeItemOptUnwrapTarget_eq [of env cxt "jpiDatetime None None nx"]
            jspIsBoolItem_def jspIsLiteralItem_def getScalar_def executeDatetime_template_def)
  qed
qed

text \<open>With the plain collaborators, whose parser knows the template \<^verbatim>\<open>yyyy-mm-dd\<close> only: a
  date is parsed by this fourth template; a time is not recognized.\<close>

theorem datetime_iso_templates_witness:
  "executeItemOptUnwrapTarget plain_extern (example_cxt True False (Jbv jbvNull))
       (jpiDatetime None None None) (Jbv (jbvString ''2019-07-04'')) (Some []) True
     = Inr (jperOk, example_cxt True False (Jbv jbvNull),
            Some [Datetime 0 DATEOID (- 1) PG_INT32_MIN])
   \<and> executeItemOptUnwrapTarget plain_extern (example_cxt True False (Jbv jbvNull))
       (jpiDatetime None None None) (Jbv (jbvString ''12:30:00'')) (Some []) True
     = Inr (jperError, example_cxt True False (Jbv jbvNull), Some [])"
  using datetime_iso_templates [of plain_extern "example_cxt True False (Jbv jbvNull)" None
      "''2019-07-04''" "Some []" True]
    datetime_iso_templates [of plain_extern "example_cxt True False (Jbv jbvNull)" None
      "''12:30:00''" "Some []" True]
  by (simp add: plain_extern_def executeNextItem_eq appendFound_def copyJsonItem_def
        JsonValueListAppend_def RETURN_ERROR_def jspThrowErrors_def example_cxt_def)

subsection \<open>A filter over the elements of an array\<close>

text \<open>The document \<^verbatim>\<open>[1, "two", 3]\<close> and the path \<^verbatim>\<open>$[*] ? (@ > 0)\<close>, lax or strict.\<close>

definition jsonb_one_two_three :: Jsonb where
  "jsonb_one_two_three = Jsonb (JsonbArray 0 [jbvNumeric 1, jbvString ''two'', jbvNumeric 3])"

definition path_filter_positive :: "bool \<Rightarrow> JsonPath" where
  "path_filter_positive lax =
     JsonPath (if lax then JSONPATH_LAX else 0)
       (jpiRoot (Some (jpiAnyArray (Some (jpiFilter
          (jpiGreater (jpiCurrent None) (jpiNumeric 0 None) None) None)))))"

text \<open>
  Claim C2, as the code has it.  On \<^verbatim>\<open>[1, "two", 3]\<close> the path \<^verbatim>\<open>$[*] ? (@ > 0)\<close> returns the
  sequence \<^verbatim>\<open>1, 3\<close> with the status OK in lax mode and in strict mode alike, whether
  suppressible errors are thrown or not: the filter drops the item whose predicate is
  unknown, it reports no error.
\<close>

theorem filter_positive_one_two_three:
  fixes env :: "('d, 'f) extern"
  shows "executeJsonPath env (path_filter_positive lax) None getJsonPathVariableFromJsonb
           jsonb_one_two_three throwErrs (Some [])
         = Inr (jperOk, Some [Jbv (jbvNumeric 1), Jbv (jbvNumeric 3)])"
  by (cases lax)
     (simp_all add: path_filter_positive_def jsonb_one_two_three_def exec_eqs model_defs)

text \<open>Against claim C2 as it is written: the strict path gives no error, neither as the
  status (errors suppressed) nor as a thrown error (errors thrown).\<close>

theorem filter_positive_strict_counterexample:
  "executeJsonPath plain_extern (path_filter_positive False) None getJsonPathVariableFromJsonb
       jsonb_one_two_three False (Some [])
     = Inr (jperOk, Some [Jbv (jbvNumeric 1), Jbv (jbvNumeric 3)])
   \<and> executeJsonPath plain_extern (path_filter_positive False) None
       getJsonPathVariableFromJsonb jsonb_one_two_three True (Some [])
     = Inr (jperOk, Some [Jbv (jbvNumeric 1), Jbv (jbvNumeric 3)])"
  by (simp add: path_filter_positive_def jsonb_one_two_three_def exec_eqs model_defs)

subsection \<open>The ids of \<^verbatim>\<open>.keyvalue()\<close>\<close>







subsection \<open>Errors that are thrown and errors that are returned\<close>




subsection \<open>The user functions with two arguments\<close>







subsection \<open>Array subscripts\<close>














end
